theory Spec2Isabelle
  imports Main "HOL-Library.Sublist"
begin

section \<open>Values of the JavaScript runtime\<close>

text \<open>
  A JavaScript string is modelled as a \<^typ>\<open>string\<close>: the list of the bytes of its UTF-8
  encoding. Every character the code below tests for (\<open>$\<close>, \<open>.\<close>, \<open>/\<close>, the digits, the
  lower-case letters, \<open>_\<close>, the line breaks) is ASCII, and no byte of a longer UTF-8
  sequence is an ASCII byte, so searching the bytes finds what searching the code units
  finds.

  An exception is a value of type \<open>error\<close>; a function that can throw returns
  \<open>error + 'a\<close>, with \<open>Inl\<close> for the exception thrown.
\<close>

datatype error =
    Error string
  | TypeError string
  | AssertionError string

subsection \<open>\<open>String.prototype.replace\<close>\<close>

text \<open>
  The replacement text of \<open>replace\<close> is not inserted as it is: \<open>GetSubstitution\<close> of the
  language standard expands \<open>$$\<close> to one \<open>$\<close>, \<open>$&\<close> to the matched text, \<open>$`\<close> to the text
  before the match and \<open>$'\<close> to the text after it. The patterns of this program have
  no capture groups, so \<open>$1\<close> ... \<open>$99\<close> and \<open>$<\<close> stand for themselves, as every other
  \<open>$\<close> does.
\<close>

fun GetSubstitution :: "string \<Rightarrow> string \<Rightarrow> string \<Rightarrow> string \<Rightarrow> string" where
  "GetSubstitution matched pre post [] = []"
| "GetSubstitution matched pre post [c] = [c]"
| "GetSubstitution matched pre post (c # d # r) =
     (if c = CHR ''$'' \<and> d = CHR ''$'' then CHR ''$'' # GetSubstitution matched pre post r
      else if c = CHR ''$'' \<and> d = CHR ''&'' then matched @ GetSubstitution matched pre post r
      else if c = CHR ''$'' \<and> d = CHR 0x60 then pre @ GetSubstitution matched pre post r
      else if c = CHR ''$'' \<and> d = CHR 0x27 then post @ GetSubstitution matched pre post r
      else c # GetSubstitution matched pre post (d # r))"

text \<open>
  \<open>s.replace(pattern, replacement)\<close> with a string pattern: the first occurrence only.
  \<open>replace_at pattern replacement passed s\<close> scans \<open>s\<close>; \<open>passed\<close> is the text already
  passed, its last character first.
\<close>

fun replace_at :: "string \<Rightarrow> string \<Rightarrow> string \<Rightarrow> string \<Rightarrow> string" where
  "replace_at pattern replacement passed [] =
     (if pattern = [] then GetSubstitution [] (rev passed) [] replacement else [])"
| "replace_at pattern replacement passed (c # s) =
     (if prefix pattern (c # s)
      then GetSubstitution pattern (rev passed) (drop (length pattern) (c # s)) replacement
             @ drop (length pattern) (c # s)
      else c # replace_at pattern replacement (c # passed) s)"

definition replace :: "string \<Rightarrow> string \<Rightarrow> string \<Rightarrow> string" where
  "replace pattern replacement s = replace_at pattern replacement [] s"

text \<open>
  \<open>s.replace(/\$name\$/g, replacement)\<close>: every occurrence of the token \<open>$name$\<close>, from
  left to right, the search going on behind each match. The text before and after a
  match is that of the string searched, not of the result. \<open>replace_all_at\<close> does it for
  the text of the token; a token is never empty.
\<close>

definition token :: "string \<Rightarrow> string" where
  "token name = CHR ''$'' # name @ ''$''"

function replace_all_at :: "string \<Rightarrow> string \<Rightarrow> string \<Rightarrow> string \<Rightarrow> string" where
  "replace_all_at tok replacement passed [] = []"
| "replace_all_at tok replacement passed (c # s) =
     (if tok \<noteq> [] \<and> prefix tok (c # s)
      then GetSubstitution tok (rev passed) (drop (length tok) (c # s)) replacement
             @ replace_all_at tok replacement (rev tok @ passed) (drop (length tok) (c # s))
      else c # replace_all_at tok replacement (c # passed) s)"
  by pat_completeness auto
termination
  by (relation "measure (\<lambda>(tok, replacement, passed, s). length s)") auto

definition replace_token :: "string \<Rightarrow> string \<Rightarrow> string \<Rightarrow> string" where
  "replace_token name replacement s = replace_all_at (token name) replacement [] s"

subsection \<open>Regular expressions\<close>

text \<open>
  A regular expression is modelled by what \<open>String.prototype.match\<close> gives for it: the
  capture groups of its first match in a string, \<open>None\<close> when it matches nowhere. Each
  regular expression literal of the source is one such function.
\<close>

type_synonym regex = "string \<Rightarrow> string list option"

text \<open>
  Modelled from the spec: \<open>extractRegExGroups\<close> (utils/extractRegExGroups) is not among
  the sources. As its callers use it: the capture groups of the first match of the
  pattern in the input, and the defaults when the pattern matches nowhere.
\<close>

definition extractRegExGroups :: "string \<Rightarrow> regex \<Rightarrow> string list \<Rightarrow> string list" where
  "extractRegExGroups input re defaults =
     (case re input of Some groups \<Rightarrow> groups | None \<Rightarrow> defaults)"

text \<open>\<open>/^netcoreapp([0-9.]+)$/\<close>: the whole string is \<open>netcoreapp\<close> and then one or more
  digits and dots, which are the group.\<close>

definition netcoreapp_regex :: regex where
  "netcoreapp_regex s =
     (if prefix ''netcoreapp'' s \<and> drop 10 s \<noteq> [] \<and> set (drop 10 s) \<subseteq> set ''0123456789.''
      then Some [drop 10 s] else None)"

text \<open>Splitting at the dots, as \<open>s.split('.')\<close> does.\<close>

fun split_dots :: "string \<Rightarrow> string list" where
  "split_dots [] = [[]]"
| "split_dots (c # s) =
     (if c = CHR ''.'' then [] # split_dots s
      else (case split_dots s of [] \<Rightarrow> [[c]] | x # xs \<Rightarrow> (c # x) # xs))"

text \<open>\<open>/^[^.]+\.[^.]+$/\<close>: the whole string is two non-empty parts with one dot between
  them. The pattern has no group.\<close>

definition major_minor_regex :: regex where
  "major_minor_regex s =
     (case split_dots s of
        [a, b] \<Rightarrow> if a \<noteq> [] \<and> b \<noteq> [] then Some [] else None
      | _ \<Rightarrow> None)"

text \<open>\<open>/(\$[a-z_]+\$)/\<close>: the leftmost \<open>$\<close> that is followed by one or more lower-case
  letters and underscores and then a \<open>$\<close>. \<open>token_here\<close> matches at the start of the
  string only.\<close>

definition token_here :: "string \<Rightarrow> string option" where
  "token_here s =
     (case s of
        [] \<Rightarrow> None
      | c # r \<Rightarrow>
          if c = CHR ''$''
          then
            (let name = takeWhile (\<lambda>x. x \<in> set ''abcdefghijklmnopqrstuvwxyz_'') r;
                 rest = dropWhile (\<lambda>x. x \<in> set ''abcdefghijklmnopqrstuvwxyz_'') r
             in if name \<noteq> [] \<and> prefix ''$'' rest then Some (token name) else None)
          else None)"

fun template_token_regex :: regex where
  "template_token_regex [] = None"
| "template_token_regex (c # s) =
     (case token_here (c # s) of
        Some t \<Rightarrow> Some [t]
      | None \<Rightarrow> template_token_regex s)"

section \<open>The semver library\<close>

text \<open>
  The program hands the library only strings of digits and dots (the group of
  \<open>netcoreapp_regex\<close>, or the default \<open>2.1\<close>, with \<open>.0\<close> appended to either). On such a
  string a version is three numeric identifiers separated by dots: digits, with no
  leading zero but for \<open>0\<close> itself. The library refuses a string of more than 256
  characters and a component beyond the largest safe integer.
\<close>

record semver =
  major :: int
  minor :: int
  patch :: int

definition numeric_identifier :: "string \<Rightarrow> bool" where
  "numeric_identifier s \<longleftrightarrow>
     s \<noteq> [] \<and> set s \<subseteq> set ''0123456789'' \<and> (s = ''0'' \<or> hd s \<noteq> CHR ''0'')"

definition digit_value :: "char \<Rightarrow> int" where
  "digit_value c = of_char c - 48"

definition to_number :: "string \<Rightarrow> int" where
  "to_number s = foldl (\<lambda>n c. 10 * n + digit_value c) 0 s"

definition MAX_SAFE_INTEGER :: int where
  "MAX_SAFE_INTEGER = 9007199254740991"

definition SemVer :: "string \<Rightarrow> error + semver" where
  "SemVer version =
     (if length version > 256 then Inl (TypeError ''version is longer than 256 characters'')
      else
        (case split_dots version of
           [a, b, c] \<Rightarrow>
             if numeric_identifier a \<and> numeric_identifier b \<and> numeric_identifier c
             then
               if to_number a > MAX_SAFE_INTEGER then Inl (TypeError ''Invalid major version'')
               else if to_number b > MAX_SAFE_INTEGER then Inl (TypeError ''Invalid minor version'')
               else if to_number c > MAX_SAFE_INTEGER then Inl (TypeError ''Invalid patch version'')
               else Inr \<lparr>major = to_number a, minor = to_number b, patch = to_number c\<rparr>
             else Inl (TypeError (''Invalid Version: '' @ version))
         | _ \<Rightarrow> Inl (TypeError (''Invalid Version: '' @ version))))"

text \<open>\<open>compare\<close> is negative, zero or positive; with no prerelease tags it compares the
  three numbers in turn.\<close>

definition compareIdentifiers :: "int \<Rightarrow> int \<Rightarrow> int" where
  "compareIdentifiers a b = (if a = b then 0 else if a < b then - 1 else 1)"

definition compare :: "semver \<Rightarrow> semver \<Rightarrow> int" where
  "compare a b =
     (if compareIdentifiers (major a) (major b) \<noteq> 0 then compareIdentifiers (major a) (major b)
      else if compareIdentifiers (minor a) (minor b) \<noteq> 0 then compareIdentifiers (minor a) (minor b)
      else compareIdentifiers (patch a) (patch b))"

definition gte :: "string \<Rightarrow> string \<Rightarrow> error + bool" where
  "gte a b =
     (case SemVer a of
        Inl e \<Rightarrow> Inl e
      | Inr x \<Rightarrow> (case SemVer b of Inl e \<Rightarrow> Inl e | Inr y \<Rightarrow> Inr (compare x y \<ge> 0)))"

definition lt :: "string \<Rightarrow> string \<Rightarrow> error + bool" where
  "lt a b =
     (case SemVer a of
        Inl e \<Rightarrow> Inl e
      | Inr x \<Rightarrow> (case SemVer b of Inl e \<Rightarrow> Inl e | Inr y \<Rightarrow> Inr (compare x y < 0)))"

text \<open>\<open>Number.prototype.toString\<close> on an integer: its decimal digits.\<close>

function toString :: "int \<Rightarrow> string" where
  "toString n =
     (if n < 0 then CHR ''-'' # toString (- n)
      else if n < 10 then [''0123456789'' ! nat n]
      else toString (n div 10) @ [''0123456789'' ! nat (n mod 10)])"
  by pat_completeness auto
termination
  by (relation "measure (\<lambda>n. if n < 0 then nat (- n) + 1 else nat n)") auto

declare toString.simps [simp del]

section \<open>configureDotNetCore.ts\<close>

subsection \<open>Image formats and templates\<close>

definition LegacyAspNetCoreRuntimeImageFormat :: string where
  "LegacyAspNetCoreRuntimeImageFormat = ''microsoft/aspnetcore:{0}.{1}{2}''"

definition LegacyAspNetCoreSdkImageFormat :: string where
  "LegacyAspNetCoreSdkImageFormat = ''microsoft/aspnetcore-build:{0}.{1}{2}''"

definition LegacyDotNetCoreRuntimeImageFormat :: string where
  "LegacyDotNetCoreRuntimeImageFormat = ''microsoft/dotnet:{0}.{1}-runtime{2}''"

definition LegacyDotNetCoreSdkImageFormat :: string where
  "LegacyDotNetCoreSdkImageFormat = ''microsoft/dotnet:{0}.{1}-sdk{2}''"

definition DotNetCoreRuntimeImageFormat :: string where
  "DotNetCoreRuntimeImageFormat = ''mcr.microsoft.com/dotnet/core/runtime:{0}.{1}{2}''"

definition AspNetCoreRuntimeImageFormat :: string where
  "AspNetCoreRuntimeImageFormat = ''mcr.microsoft.com/dotnet/core/aspnet:{0}.{1}{2}''"

definition DotNetCoreSdkImageFormat :: string where
  "DotNetCoreSdkImageFormat = ''mcr.microsoft.com/dotnet/core/sdk:{0}.{1}{2}''"

text \<open>
  The predicates of utils/osUtils read the host's operating system; the module is not
  among the sources, so what they answer is a parameter.
\<close>

record osUtils =
  isWindows :: bool
  isWindows1019H1OrNewer :: bool
  isWindows10RS5OrNewer :: bool
  isWindows10RS4OrNewer :: bool
  isWindows10RS3OrNewer :: bool

definition GetWindowsImageTag :: "osUtils \<Rightarrow> string" where
  "GetWindowsImageTag host =
     (if \<not> isWindows host \<or> isWindows1019H1OrNewer host then ''-nanoserver-1903''
      else if isWindows10RS5OrNewer host then ''-nanoserver-1809''
      else if isWindows10RS4OrNewer host then ''-nanoserver-1803''
      else if isWindows10RS3OrNewer host then ''-nanoserver-1709''
      else ''-nanoserver-sac2016'')"

definition formatVersion :: "string \<Rightarrow> string \<Rightarrow> string \<Rightarrow> error + string" where
  "formatVersion format version tagForWindowsVersion =
     (case SemVer version of
        Inl e \<Rightarrow> Inl e
      | Inr asSemVer \<Rightarrow>
          Inr (replace ''{2}'' tagForWindowsVersion
                (replace ''{1}'' (toString (minor asSemVer))
                  (replace ''{0}'' (toString (major asSemVer)) format))))"

definition aspNetCoreWindowsTemplate :: string where
  "aspNetCoreWindowsTemplate =
     ''#Depending on the operating system of the host machines(s) that will build or run the containers, the image specified in the FROM statement may need to be changed.\<newline>'' @
     ''#For more information, please see https://aka.ms/containercompat\<newline>'' @
     ''\<newline>'' @
     ''FROM $base_image_name$ AS base\<newline>'' @
     ''WORKDIR /app\<newline>'' @
     ''$expose_statements$\<newline>'' @
     ''\<newline>'' @
     ''FROM $sdk_image_name$ AS build\<newline>'' @
     ''WORKDIR /src\<newline>'' @
     ''$copy_project_commands$\<newline>'' @
     ''RUN dotnet restore \"$container_project_directory$/$project_file_name$\"\<newline>'' @
     ''COPY . .\<newline>'' @
     ''WORKDIR \"/src/$container_project_directory$\"\<newline>'' @
     ''RUN dotnet build \"$project_file_name$\" -c Release -o /app/build\<newline>'' @
     ''\<newline>'' @
     ''FROM build AS publish\<newline>'' @
     ''RUN dotnet publish \"$project_file_name$\" -c Release -o /app/publish\<newline>'' @
     ''\<newline>'' @
     ''FROM base AS final\<newline>'' @
     ''WORKDIR /app\<newline>'' @
     ''COPY --from=publish /app/publish .\<newline>'' @
     ''ENTRYPOINT [\"dotnet\", \"$assembly_name$.dll\"]\<newline>''"

definition aspNetCoreLinuxTemplate :: string where
  "aspNetCoreLinuxTemplate =
     ''FROM $base_image_name$ AS base\<newline>'' @
     ''WORKDIR /app\<newline>'' @
     ''$expose_statements$\<newline>'' @
     ''\<newline>'' @
     ''FROM $sdk_image_name$ AS build\<newline>'' @
     ''WORKDIR /src\<newline>'' @
     ''$copy_project_commands$\<newline>'' @
     ''RUN dotnet restore \"$container_project_directory$/$project_file_name$\"\<newline>'' @
     ''COPY . .\<newline>'' @
     ''WORKDIR \"/src/$container_project_directory$\"\<newline>'' @
     ''RUN dotnet build \"$project_file_name$\" -c Release -o /app/build\<newline>'' @
     ''\<newline>'' @
     ''FROM build AS publish\<newline>'' @
     ''RUN dotnet publish \"$project_file_name$\" -c Release -o /app/publish\<newline>'' @
     ''\<newline>'' @
     ''FROM base AS final\<newline>'' @
     ''WORKDIR /app\<newline>'' @
     ''COPY --from=publish /app/publish .\<newline>'' @
     ''ENTRYPOINT [\"dotnet\", \"$assembly_name$.dll\"]\<newline>''"

definition dotNetCoreConsoleWindowsTemplate :: string where
  "dotNetCoreConsoleWindowsTemplate =
     ''#Depending on the operating system of the host machines(s) that will build or run the containers, the image specified in the FROM statement may need to be changed.\<newline>'' @
     ''#For more information, please see https://aka.ms/containercompat\<newline>'' @
     ''\<newline>'' @
     ''FROM $base_image_name$ AS base\<newline>'' @
     ''WORKDIR /app\<newline>'' @
     ''$expose_statements$\<newline>'' @
     ''\<newline>'' @
     ''FROM $sdk_image_name$ AS build\<newline>'' @
     ''WORKDIR /src\<newline>'' @
     ''$copy_project_commands$\<newline>'' @
     ''RUN dotnet restore \"$container_project_directory$/$project_file_name$\"\<newline>'' @
     ''COPY . .\<newline>'' @
     ''WORKDIR \"/src/$container_project_directory$\"\<newline>'' @
     ''RUN dotnet build \"$project_file_name$\" -c Release -o /app/build\<newline>'' @
     ''\<newline>'' @
     ''FROM build AS publish\<newline>'' @
     ''RUN dotnet publish \"$project_file_name$\" -c Release -o /app/publish\<newline>'' @
     ''\<newline>'' @
     ''FROM base AS final\<newline>'' @
     ''WORKDIR /app\<newline>'' @
     ''COPY --from=publish /app/publish .\<newline>'' @
     ''ENTRYPOINT [\"dotnet\", \"$assembly_name$.dll\"]\<newline>''"

definition dotNetCoreConsoleLinuxTemplate :: string where
  "dotNetCoreConsoleLinuxTemplate =
     ''FROM $base_image_name$ AS base\<newline>'' @
     ''WORKDIR /app\<newline>'' @
     ''$expose_statements$\<newline>'' @
     ''\<newline>'' @
     ''FROM $sdk_image_name$ AS build\<newline>'' @
     ''WORKDIR /src\<newline>'' @
     ''$copy_project_commands$\<newline>'' @
     ''RUN dotnet restore \"$container_project_directory$/$project_file_name$\"\<newline>'' @
     ''COPY . .\<newline>'' @
     ''WORKDIR \"/src/$container_project_directory$\"\<newline>'' @
     ''RUN dotnet build \"$project_file_name$\" -c Release -o /app/build\<newline>'' @
     ''\<newline>'' @
     ''FROM build AS publish\<newline>'' @
     ''RUN dotnet publish \"$project_file_name$\" -c Release -o /app/publish\<newline>'' @
     ''\<newline>'' @
     ''FROM base AS final\<newline>'' @
     ''WORKDIR /app\<newline>'' @
     ''COPY --from=publish /app/publish .\<newline>'' @
     ''ENTRYPOINT [\"dotnet\", \"$assembly_name$.dll\"]\<newline>''"

text \<open>
  \<open>path\<close> is the host's path module (\<open>path.posix\<close> or \<open>path.win32\<close>) and
  \<open>getExposeStatements\<close> is a function of configureWorkspace/configure, which is not
  among the sources: both are parameters.
\<close>

record path_module =
  path_basename :: "string \<Rightarrow> string"
  path_dirname :: "string \<Rightarrow> string"
  path_extname :: "string \<Rightarrow> string"
  path_join :: "string \<Rightarrow> string \<Rightarrow> string"
  path_relative :: "string \<Rightarrow> string \<Rightarrow> string"
  path_resolve :: "string \<Rightarrow> string \<Rightarrow> string"
  path_posix_join :: "string \<Rightarrow> string \<Rightarrow> string"
  path_posix_relative :: "string \<Rightarrow> string \<Rightarrow> string"

subsection \<open>\<open>genDockerFile\<close>\<close>

text \<open>Lines 182 to 190: the version of the TargetFramework, with a patch component.\<close>

definition defaultNetCoreVersion :: string where
  "defaultNetCoreVersion = ''2.1''"

definition netCoreAppVersion :: "string \<Rightarrow> error + string" where
  "netCoreAppVersion version =
     (case extractRegExGroups version netcoreapp_regex [defaultNetCoreVersion] of
        [] \<Rightarrow> Inl (TypeError ''netCoreAppVersion is undefined'')
      | v # _ \<Rightarrow> Inr (if major_minor_regex v \<noteq> None then v @ ''.0'' else v))"

text \<open>Lines 192 to 218: \<open>baseImageFormat\<close> and \<open>sdkImageNameFormat\<close>.\<close>

definition imageFormats :: "string \<Rightarrow> string \<Rightarrow> error + string \<times> string" where
  "imageFormats platform v =
     (case gte v ''2.1.0'' of
        Inl e \<Rightarrow> Inl e
      | Inr newer \<Rightarrow>
          if newer then
            if platform = ''ASP.NET Core''
              then Inr (AspNetCoreRuntimeImageFormat, DotNetCoreSdkImageFormat)
            else if platform = ''.NET Core Console''
              then Inr (DotNetCoreRuntimeImageFormat, DotNetCoreSdkImageFormat)
            else Inl (AssertionError ''Unknown platform'')
          else
            if platform = ''ASP.NET Core''
              then Inr (LegacyAspNetCoreRuntimeImageFormat, LegacyAspNetCoreSdkImageFormat)
            else if platform = ''.NET Core Console''
              then Inr (LegacyDotNetCoreRuntimeImageFormat, LegacyDotNetCoreSdkImageFormat)
            else Inl (AssertionError ''Unknown platform''))"

text \<open>Lines 220 to 227: \<open>tagForWindowsVersion\<close>. The version is compared only when the
  target is not Linux.\<close>

definition tagForWindowsVersion :: "osUtils \<Rightarrow> string option \<Rightarrow> string \<Rightarrow> error + string" where
  "tagForWindowsVersion host os v =
     (if os = Some ''Linux'' then Inr []
      else
        (case lt v ''2.0.0'' of
           Inl e \<Rightarrow> Inl e
         | Inr older \<Rightarrow> if older then Inr [] else Inr (GetWindowsImageTag host)))"

text \<open>Lines 232 to 242: the template of the platform and the target.\<close>

definition template :: "string \<Rightarrow> string option \<Rightarrow> error + string" where
  "template platform os =
     (if platform = ''.NET Core Console''
        then Inr (if os = Some ''Linux'' then dotNetCoreConsoleLinuxTemplate
                  else dotNetCoreConsoleWindowsTemplate)
      else if platform = ''ASP.NET Core''
        then Inr (if os = Some ''Linux'' then aspNetCoreLinuxTemplate
                  else aspNetCoreWindowsTemplate)
      else Inl (Error (''Unexpected platform \"'' @ platform @ ''\"'')))"

text \<open>Lines 244 to 250: the substitutions, in the order of the source. The first has a
  string pattern and replaces one occurrence; the others are global.\<close>

definition substitute ::
  "string \<Rightarrow> string \<Rightarrow> string \<Rightarrow> string \<Rightarrow> string \<Rightarrow> string \<Rightarrow> string \<Rightarrow> string \<Rightarrow> string"
where
  "substitute t baseImageName exposeStatements sdkImageName projectDirectory projectFileName
       assemblyNameNoExtension copyProjectCommands =
     replace_token ''copy_project_commands'' copyProjectCommands
       (replace_token ''assembly_name'' assemblyNameNoExtension
         (replace_token ''project_file_name'' projectFileName
           (replace_token ''container_project_directory'' projectDirectory
             (replace_token ''sdk_image_name'' sdkImageName
               (replace_token ''expose_statements'' exposeStatements
                 (replace ''$base_image_name$'' baseImageName t))))))"

text \<open>An array in a template literal: its elements with commas between them.\<close>

definition array_toString :: "string list \<Rightarrow> string" where
  "array_toString xs = (case xs of [] \<Rightarrow> [] | x # r \<Rightarrow> foldl (\<lambda>a b. a @ '','' @ b) x r)"

text \<open>Lines 252 to 257: the check for a token that was not replaced.\<close>

definition checkUnreplaced :: "string \<Rightarrow> error + string" where
  "checkUnreplaced contents =
     (let unreplacedToken = extractRegExGroups contents template_token_regex [[]]
      in case unreplacedToken of
           [] \<Rightarrow> Inr contents
         | t # _ \<Rightarrow>
             if t \<noteq> []
             then Inl (AssertionError
                        (''Unreplaced template token \"'' @ array_toString unreplacedToken @ ''\"''))
             else Inr contents)"

definition genDockerFile ::
  "path_module \<Rightarrow> osUtils \<Rightarrow> (int list option \<Rightarrow> string) \<Rightarrow>
   string \<Rightarrow> string \<Rightarrow> string option \<Rightarrow> int list option \<Rightarrow> string \<Rightarrow> string \<Rightarrow> error + string"
where
  "genDockerFile path host getExposeStatements
       serviceNameAndRelativePath platform os ports version artifactName =
     (if os \<noteq> Some ''Windows'' \<and> os \<noteq> Some ''Linux''
      then Inl (Error (''Unexpected OS \"'' @ (case os of None \<Rightarrow> ''undefined'' | Some s \<Rightarrow> s) @ ''\"''))
      else
        (let serviceName = path_basename path serviceNameAndRelativePath;
             projectDirectory = path_dirname path serviceNameAndRelativePath;
             projectFileName = path_basename path artifactName;
             assemblyNameNoExtension = serviceName;
             copyProjectCommands =
               ''COPY [\"'' @ artifactName @ ''\", \"'' @ projectDirectory @ ''/\"]'';
             exposeStatements = getExposeStatements ports
         in
           case netCoreAppVersion version of
             Inl e \<Rightarrow> Inl e
           | Inr v \<Rightarrow>
          (case imageFormats platform v of
             Inl e \<Rightarrow> Inl e
           | Inr (baseImageFormat, sdkImageNameFormat) \<Rightarrow>
          (case tagForWindowsVersion host os v of
             Inl e \<Rightarrow> Inl e
           | Inr tag \<Rightarrow>
          (case formatVersion baseImageFormat v tag of
             Inl e \<Rightarrow> Inl e
           | Inr baseImageName \<Rightarrow>
          (case formatVersion sdkImageNameFormat v tag of
             Inl e \<Rightarrow> Inl e
           | Inr sdkImageName \<Rightarrow>
          (case template platform os of
             Inl e \<Rightarrow> Inl e
           | Inr t \<Rightarrow>
               checkUnreplaced
                 (substitute t baseImageName exposeStatements sdkImageName projectDirectory
                    projectFileName assemblyNameNoExtension copyProjectCommands))))))))"

subsection \<open>The path module of a POSIX host\<close>

text \<open>
  \<open>path.posix.basename\<close> drops the slashes at the end and gives what follows the last
  slash left. \<open>path.posix.dirname\<close> looks, from the end and down to the second character,
  past the slashes at the end and past the last name for a slash; it gives the text before
  that slash, or \<open>/\<close> or \<open>.\<close> when there is none.
\<close>

definition posix_basename :: "string \<Rightarrow> string" where
  "posix_basename p =
     rev (takeWhile (\<lambda>c. c \<noteq> CHR ''/'') (dropWhile (\<lambda>c. c = CHR ''/'') (rev p)))"

definition posix_dirname :: "string \<Rightarrow> string" where
  "posix_dirname p =
     (case p of
        [] \<Rightarrow> ''.''
      | c # s \<Rightarrow>
          (case dropWhile (\<lambda>x. x \<noteq> CHR ''/'') (dropWhile (\<lambda>x. x = CHR ''/'') (rev s)) of
             [] \<Rightarrow> if c = CHR ''/'' then ''/'' else ''.''
           | _ # r \<Rightarrow> if c = CHR ''/'' \<and> r = [] then ''//'' else c # rev r))"

subsection \<open>\<open>findCSProjOrFSProjFile\<close>, \<open>initializeForDebugging\<close> and \<open>scaffoldNetCore\<close>\<close>

text \<open>
  \<open>/<TargetFramework>(.+)<\/TargetFramework/\<close>: the leftmost opening tag that has, on its
  line, at least one character and then the closing tag. The group is greedy: it ends at
  the last closing tag of the line. A dot matches every character but the line breaks
  LF, CR, U+2028 and U+2029 (the last two are three bytes each).
\<close>

definition line_terminator_here :: "string \<Rightarrow> bool" where
  "line_terminator_here s \<longleftrightarrow>
     prefix [CHR 0x0A] s \<or> prefix [CHR 0x0D] s \<or>
     prefix [CHR 0xE2, CHR 0x80, CHR 0xA8] s \<or> prefix [CHR 0xE2, CHR 0x80, CHR 0xA9] s"

fun greedy_group :: "string \<Rightarrow> string option" where
  "greedy_group [] = None"
| "greedy_group (c # s) =
     (if line_terminator_here (c # s) then None
      else
        (case greedy_group s of
           Some g \<Rightarrow> Some (c # g)
         | None \<Rightarrow> if prefix ''</TargetFramework'' s then Some [c] else None))"

fun target_framework_regex :: regex where
  "target_framework_regex [] = None"
| "target_framework_regex (c # s) =
     (if prefix ''<TargetFramework>'' (c # s)
      then
        (case greedy_group (drop (length ''<TargetFramework>'') (c # s)) of
           Some g \<Rightarrow> Some [g]
         | None \<Rightarrow> target_framework_regex s)
      else target_framework_regex s)"

text \<open>
  \<open>s.replace(/(u){3,4}/g, replacement)\<close> for a literal \<open>u\<close>: from left to right, four
  copies of \<open>u\<close> in a row, or else three, become the replacement. The replacements of the
  source have no \<open>$\<close>, so they are inserted as they are.
\<close>

function replace_3_or_4 :: "string \<Rightarrow> string \<Rightarrow> string \<Rightarrow> string" where
  "replace_3_or_4 u replacement [] = []"
| "replace_3_or_4 u replacement (c # s) =
     (if u \<noteq> [] \<and> prefix (u @ u @ u @ u) (c # s)
        then replacement @ replace_3_or_4 u replacement (drop (4 * length u) (c # s))
      else if u \<noteq> [] \<and> prefix (u @ u @ u) (c # s)
        then replacement @ replace_3_or_4 u replacement (drop (3 * length u) (c # s))
      else c # replace_3_or_4 u replacement s)"
  by pat_completeness auto
termination
  by (relation "measure (\<lambda>(u, replacement, s). length s)") auto

text \<open>\<open>s.slice(0, -n)\<close>: all but the last \<open>n\<close> characters; nothing at all when \<open>n\<close> is
  zero, since \<open>-0\<close> is the index zero.\<close>

definition slice_0_minus :: "string \<Rightarrow> nat \<Rightarrow> string" where
  "slice_0_minus s n = (if n = 0 then [] else take (length s - n) s)"

text \<open>
  What the function reads from its context: the fields, and the two prompts, which
  either fail (the user cancels) or give an answer.
\<close>

record ScaffolderContext =
  ctx_os :: "string option"
  ctx_ports :: "int list option"
  ctx_platform :: string
  ctx_rootFolder :: string
  ctx_outputFolder :: "string option"
  ctx_folder :: string
  ctx_initializeForDebugging :: bool
  ctx_promptForOS :: "error + string option"
  ctx_promptForPorts :: "int list \<Rightarrow> error + int list"

record ScaffoldFile =
  fileName :: string
  contents :: string
  open' :: "bool option"

record DockerDebugScaffoldContext =
  dbg_folder :: string
  dbg_platform :: string
  dbg_dockerfile :: string

record NetCoreScaffoldingOptions =
  opt_appProject :: string
  opt_platformOS :: "string option"

text \<open>
  The modules and services that are not among the sources: globbing, the quick pick
  (given the labels, the label picked), reading a file, the debugging scaffolder, and
  the functions \<open>getExposeStatements\<close> and \<open>genCommonDockerIgnoreFile\<close>.
\<close>

record world =
  globAsync :: "string \<Rightarrow> string option \<Rightarrow> error + string list option"
  showQuickPick :: "string list \<Rightarrow> error + string"
  readFile :: "string \<Rightarrow> error + string"
  initializeNetCoreForDebugging ::
    "DockerDebugScaffoldContext \<Rightarrow> NetCoreScaffoldingOptions \<Rightarrow> error + unit"
  getExposeStatements :: "int list option \<Rightarrow> string"
  genCommonDockerIgnoreFile :: "string \<Rightarrow> string"

definition noProjectFile :: string where
  "noProjectFile =
     ''No .csproj or .fsproj file could be found. You need a C# or F# project file in ''
     @ ''the workspace to generate Docker files for the selected platform.''"

definition findCSProjOrFSProjFile :: "world \<Rightarrow> string option \<Rightarrow> error + string" where
  "findCSProjOrFSProjFile w folderPath =
     (case globAsync w ''**/*.@(c|f)sproj'' folderPath of
        Inl e \<Rightarrow> Inl e
      | Inr None \<Rightarrow> Inl (Error noProjectFile)
      | Inr (Some []) \<Rightarrow> Inl (Error noProjectFile)
      | Inr (Some [projectFile]) \<Rightarrow> Inr projectFile
      | Inr (Some projectFiles) \<Rightarrow> showQuickPick w projectFiles)"

definition initializeForDebugging ::
  "path_module \<Rightarrow> world \<Rightarrow> string \<Rightarrow> string option \<Rightarrow> string \<Rightarrow> string \<Rightarrow> error + unit"
where
  "initializeForDebugging path w folder platformOS workspaceRelativeDockerfileName
       workspaceRelativeProjectFileName =
     initializeNetCoreForDebugging w
       \<lparr>dbg_folder = folder, dbg_platform = ''netCore'',
        dbg_dockerfile = path_posix_join path ''${workspaceFolder}'' workspaceRelativeDockerfileName\<rparr>
       \<lparr>opt_appProject = path_posix_join path ''${workspaceFolder}'' workspaceRelativeProjectFileName,
        opt_platformOS = platformOS\<rparr>"

text \<open>Line 305: the target of the context, or else the one the user picks.\<close>

definition chosenOS :: "ScaffolderContext \<Rightarrow> error + string option" where
  "chosenOS ctx = (case ctx_os ctx of Some os \<Rightarrow> Inr (Some os) | None \<Rightarrow> ctx_promptForOS ctx)"

text \<open>Line 311: the ports of the context, or else, for ASP.NET Core only, the ones the
  user gives.\<close>

definition chosenPorts :: "ScaffolderContext \<Rightarrow> error + int list option" where
  "chosenPorts ctx =
     (case ctx_ports ctx of
        Some ports \<Rightarrow> Inr (Some ports)
      | None \<Rightarrow>
          if ctx_platform ctx = ''ASP.NET Core''
          then (case ctx_promptForPorts ctx [80, 443] of Inl e \<Rightarrow> Inl e | Inr ports \<Rightarrow> Inr (Some ports))
          else Inr None)"

text \<open>Lines 319 and 320: the project file, relative to the workspace folder.\<close>

definition workspaceRelativeProjectFileName ::
  "path_module \<Rightarrow> ScaffolderContext \<Rightarrow> string \<Rightarrow> string" where
  "workspaceRelativeProjectFileName path ctx rootRelativeProjectFileName =
     (let projectFilePath = path_posix_join path (ctx_rootFolder ctx) rootRelativeProjectFileName
      in path_posix_relative path (ctx_folder ctx) projectFilePath)"

text \<open>Lines 322 and 328 to 334: the project file without its extension, relative to the
  output folder when there is one, with slashes for backslashes.\<close>

definition serviceNameAndPathRelative ::
  "path_module \<Rightarrow> ScaffolderContext \<Rightarrow> string \<Rightarrow> string" where
  "serviceNameAndPathRelative path ctx rootRelativeProjectFileName =
     (let serviceNameAndPathRelative =
            slice_0_minus rootRelativeProjectFileName
              (length (path_extname path rootRelativeProjectFileName));
          serviceNameAndPathRelative =
            (case ctx_outputFolder ctx of
               None \<Rightarrow> serviceNameAndPathRelative
             | Some outputFolder \<Rightarrow>
                 if outputFolder \<noteq> []
                 then path_relative path outputFolder
                        (path_join path (ctx_rootFolder ctx) serviceNameAndPathRelative)
                 else serviceNameAndPathRelative)
      in map (\<lambda>c. if c = CHR 0x5C then CHR ''/'' else c) serviceNameAndPathRelative)"

text \<open>Lines 340 to 342: three or four line breaks in a row become two.\<close>

definition removeEmptyLines :: "string \<Rightarrow> string" where
  "removeEmptyLines dockerFileContents =
     replace_3_or_4 [CHR 0x0A] [CHR 0x0A, CHR 0x0A]
       (replace_3_or_4 [CHR 0x0D, CHR 0x0A] [CHR 0x0D, CHR 0x0A, CHR 0x0D, CHR 0x0A]
          dockerFileContents)"

text \<open>Lines 344 to 350: the names of the two files, and the files.\<close>

definition dockerFileName :: "path_module \<Rightarrow> ScaffolderContext \<Rightarrow> string \<Rightarrow> string" where
  "dockerFileName path ctx rootRelativeProjectFileName =
     path_join path
       (case ctx_outputFolder ctx of
          Some outputFolder \<Rightarrow> outputFolder
        | None \<Rightarrow> path_dirname path rootRelativeProjectFileName)
       ''Dockerfile''"

definition dockerIgnoreFileName :: "path_module \<Rightarrow> ScaffolderContext \<Rightarrow> string" where
  "dockerIgnoreFileName path ctx =
     path_join path
       (case ctx_outputFolder ctx of Some outputFolder \<Rightarrow> outputFolder | None \<Rightarrow> [])
       ''.dockerignore''"

definition scaffoldFiles ::
  "path_module \<Rightarrow> world \<Rightarrow> ScaffolderContext \<Rightarrow> string \<Rightarrow> string \<Rightarrow> ScaffoldFile list" where
  "scaffoldFiles path w ctx rootRelativeProjectFileName dockerFileContents =
     [\<lparr>fileName = dockerFileName path ctx rootRelativeProjectFileName,
       contents = dockerFileContents, open' = Some True\<rparr>,
      \<lparr>fileName = dockerIgnoreFileName path ctx,
       contents = genCommonDockerIgnoreFile w (ctx_platform ctx), open' = None\<rparr>]"

text \<open>
  \<open>scaffoldNetCore\<close>, statement by statement. \<open>captureStep\<close> passes the result or the
  exception of the function it wraps on. The telemetry properties the function sets are
  read by no statement of it and are left out. The array of groups always has one
  element; were it empty, the version would be undefined.
\<close>

definition scaffoldNetCore ::
  "path_module \<Rightarrow> osUtils \<Rightarrow> world \<Rightarrow> ScaffolderContext \<Rightarrow> error + ScaffoldFile list"
where
  "scaffoldNetCore path host w ctx =
     (case chosenOS ctx of
        Inl e \<Rightarrow> Inl e
      | Inr os \<Rightarrow>
     (case chosenPorts ctx of
        Inl e \<Rightarrow> Inl e
      | Inr ports \<Rightarrow>
     (case findCSProjOrFSProjFile w (Some (ctx_rootFolder ctx)) of
        Inl e \<Rightarrow> Inl e
      | Inr rootRelativeProjectFileName \<Rightarrow>
     (case readFile w (path_join path (ctx_rootFolder ctx) rootRelativeProjectFileName) of
        Inl e \<Rightarrow> Inl e
      | Inr projFileContents \<Rightarrow>
     (case extractRegExGroups projFileContents target_framework_regex [[]] of
        [] \<Rightarrow> Inl (TypeError ''version is undefined'')
      | version # _ \<Rightarrow>
     (case genDockerFile path host (getExposeStatements w)
             (serviceNameAndPathRelative path ctx rootRelativeProjectFileName)
             (ctx_platform ctx) os ports version
             (workspaceRelativeProjectFileName path ctx rootRelativeProjectFileName) of
        Inl e \<Rightarrow> Inl e
      | Inr dockerFileContents \<Rightarrow>
     (let files = scaffoldFiles path w ctx rootRelativeProjectFileName
                    (removeEmptyLines dockerFileContents)
      in
        if ctx_initializeForDebugging ctx
        then
          (let dockerFilePath =
                 path_resolve path (ctx_rootFolder ctx)
                   (dockerFileName path ctx rootRelativeProjectFileName);
               workspaceRelativeDockerfileName =
                 path_relative path (ctx_folder ctx) dockerFilePath
           in case initializeForDebugging path w (ctx_folder ctx) (ctx_os ctx)
                     workspaceRelativeDockerfileName
                     (workspaceRelativeProjectFileName path ctx rootRelativeProjectFileName) of
                Inl e \<Rightarrow> Inl e
              | Inr _ \<Rightarrow> Inr files)
        else Inr files)))))))"

section \<open>The constants of configureDotNetCore.ts as a store\<close>

text \<open>
  The seven image formats and the four templates are bindings of the module
  configureDotNetCore.ts. The module exports none of them, so its six functions are the
  only code that can name them. Here the bindings are a store: a function of the module
  takes the store it is called in and gives back, with its result, the store it leaves
  behind. It reads a binding where the source names the constant; no statement of the
  source assigns to one. The functions of other modules (the path module, the semver
  library, \<open>extractRegExGroups\<close>, the services of the host) cannot name the bindings and
  are as before.
\<close>

record bindings =
  LegacyAspNetCoreRuntimeImageFormat_binding :: string
  LegacyAspNetCoreSdkImageFormat_binding :: string
  LegacyDotNetCoreRuntimeImageFormat_binding :: string
  LegacyDotNetCoreSdkImageFormat_binding :: string
  DotNetCoreRuntimeImageFormat_binding :: string
  AspNetCoreRuntimeImageFormat_binding :: string
  DotNetCoreSdkImageFormat_binding :: string
  aspNetCoreWindowsTemplate_binding :: string
  aspNetCoreLinuxTemplate_binding :: string
  dotNetCoreConsoleWindowsTemplate_binding :: string
  dotNetCoreConsoleLinuxTemplate_binding :: string

text \<open>The store when the module has been loaded: lines 27 to 38 and 66 to 161.\<close>

definition loaded :: bindings where
  "loaded =
     \<lparr>LegacyAspNetCoreRuntimeImageFormat_binding = LegacyAspNetCoreRuntimeImageFormat,
      LegacyAspNetCoreSdkImageFormat_binding = LegacyAspNetCoreSdkImageFormat,
      LegacyDotNetCoreRuntimeImageFormat_binding = LegacyDotNetCoreRuntimeImageFormat,
      LegacyDotNetCoreSdkImageFormat_binding = LegacyDotNetCoreSdkImageFormat,
      DotNetCoreRuntimeImageFormat_binding = DotNetCoreRuntimeImageFormat,
      AspNetCoreRuntimeImageFormat_binding = AspNetCoreRuntimeImageFormat,
      DotNetCoreSdkImageFormat_binding = DotNetCoreSdkImageFormat,
      aspNetCoreWindowsTemplate_binding = aspNetCoreWindowsTemplate,
      aspNetCoreLinuxTemplate_binding = aspNetCoreLinuxTemplate,
      dotNetCoreConsoleWindowsTemplate_binding = dotNetCoreConsoleWindowsTemplate,
      dotNetCoreConsoleLinuxTemplate_binding = dotNetCoreConsoleLinuxTemplate\<rparr>"

text \<open>\<open>GetWindowsImageTag\<close> and \<open>formatVersion\<close> name no binding.\<close>

definition GetWindowsImageTag_in :: "osUtils \<Rightarrow> bindings \<Rightarrow> string \<times> bindings" where
  "GetWindowsImageTag_in host s = (GetWindowsImageTag host, s)"

definition formatVersion_in ::
  "string \<Rightarrow> string \<Rightarrow> string \<Rightarrow> bindings \<Rightarrow> (error + string) \<times> bindings" where
  "formatVersion_in format version tag s = (formatVersion format version tag, s)"

text \<open>Lines 192 to 218 of \<open>genDockerFile\<close>: the two formats, read from the store.\<close>

definition imageFormats_in :: "string \<Rightarrow> string \<Rightarrow> bindings \<Rightarrow> error + string \<times> string" where
  "imageFormats_in platform v s =
     (case gte v ''2.1.0'' of
        Inl e \<Rightarrow> Inl e
      | Inr newer \<Rightarrow>
          if newer then
            if platform = ''ASP.NET Core''
              then Inr (AspNetCoreRuntimeImageFormat_binding s, DotNetCoreSdkImageFormat_binding s)
            else if platform = ''.NET Core Console''
              then Inr (DotNetCoreRuntimeImageFormat_binding s, DotNetCoreSdkImageFormat_binding s)
            else Inl (AssertionError ''Unknown platform'')
          else
            if platform = ''ASP.NET Core''
              then Inr (LegacyAspNetCoreRuntimeImageFormat_binding s,
                        LegacyAspNetCoreSdkImageFormat_binding s)
            else if platform = ''.NET Core Console''
              then Inr (LegacyDotNetCoreRuntimeImageFormat_binding s,
                        LegacyDotNetCoreSdkImageFormat_binding s)
            else Inl (AssertionError ''Unknown platform''))"

text \<open>Lines 220 to 227: the tag, with the call of \<open>GetWindowsImageTag\<close>.\<close>

definition tagForWindowsVersion_in ::
  "osUtils \<Rightarrow> string option \<Rightarrow> string \<Rightarrow> bindings \<Rightarrow> (error + string) \<times> bindings" where
  "tagForWindowsVersion_in host os v s =
     (if os = Some ''Linux'' then (Inr [], s)
      else
        (case lt v ''2.0.0'' of
           Inl e \<Rightarrow> (Inl e, s)
         | Inr older \<Rightarrow>
             if older then (Inr [], s)
             else (case GetWindowsImageTag_in host s of (tag, s') \<Rightarrow> (Inr tag, s'))))"

text \<open>Lines 232 to 242: the template, read from the store.\<close>

definition template_in :: "string \<Rightarrow> string option \<Rightarrow> bindings \<Rightarrow> error + string" where
  "template_in platform os s =
     (if platform = ''.NET Core Console''
        then Inr (if os = Some ''Linux'' then dotNetCoreConsoleLinuxTemplate_binding s
                  else dotNetCoreConsoleWindowsTemplate_binding s)
      else if platform = ''ASP.NET Core''
        then Inr (if os = Some ''Linux'' then aspNetCoreLinuxTemplate_binding s
                  else aspNetCoreWindowsTemplate_binding s)
      else Inl (Error (''Unexpected platform \"'' @ platform @ ''\"'')))"

text \<open>\<open>genDockerFile\<close>: each call of a function of the module runs in the store that the
  call before it left.\<close>

definition genDockerFile_in ::
  "path_module \<Rightarrow> osUtils \<Rightarrow> (int list option \<Rightarrow> string) \<Rightarrow>
   string \<Rightarrow> string \<Rightarrow> string option \<Rightarrow> int list option \<Rightarrow> string \<Rightarrow> string \<Rightarrow>
   bindings \<Rightarrow> (error + string) \<times> bindings"
where
  "genDockerFile_in path host getExposeStatements'
       serviceNameAndRelativePath platform os ports version artifactName s =
     (if os \<noteq> Some ''Windows'' \<and> os \<noteq> Some ''Linux''
      then (Inl (Error (''Unexpected OS \"'' @ (case os of None \<Rightarrow> ''undefined'' | Some x \<Rightarrow> x) @ ''\"'')), s)
      else
        (let serviceName = path_basename path serviceNameAndRelativePath;
             projectDirectory = path_dirname path serviceNameAndRelativePath;
             projectFileName = path_basename path artifactName;
             assemblyNameNoExtension = serviceName;
             copyProjectCommands =
               ''COPY [\"'' @ artifactName @ ''\", \"'' @ projectDirectory @ ''/\"]'';
             exposeStatements = getExposeStatements' ports
         in
           case netCoreAppVersion version of
             Inl e \<Rightarrow> (Inl e, s)
           | Inr v \<Rightarrow>
          (case imageFormats_in platform v s of
             Inl e \<Rightarrow> (Inl e, s)
           | Inr (baseImageFormat, sdkImageNameFormat) \<Rightarrow>
          (case tagForWindowsVersion_in host os v s of
             (Inl e, s1) \<Rightarrow> (Inl e, s1)
           | (Inr tag, s1) \<Rightarrow>
          (case formatVersion_in baseImageFormat v tag s1 of
             (Inl e, s2) \<Rightarrow> (Inl e, s2)
           | (Inr baseImageName, s2) \<Rightarrow>
          (case formatVersion_in sdkImageNameFormat v tag s2 of
             (Inl e, s3) \<Rightarrow> (Inl e, s3)
           | (Inr sdkImageName, s3) \<Rightarrow>
          (case template_in platform os s3 of
             Inl e \<Rightarrow> (Inl e, s3)
           | Inr t \<Rightarrow>
               (checkUnreplaced
                  (substitute t baseImageName exposeStatements sdkImageName projectDirectory
                     projectFileName assemblyNameNoExtension copyProjectCommands), s3))))))))"

text \<open>\<open>findCSProjOrFSProjFile\<close> and \<open>initializeForDebugging\<close> name no binding and call no
  function of the module.\<close>

definition findCSProjOrFSProjFile_in ::
  "world \<Rightarrow> string option \<Rightarrow> bindings \<Rightarrow> (error + string) \<times> bindings" where
  "findCSProjOrFSProjFile_in w folderPath s = (findCSProjOrFSProjFile w folderPath, s)"

definition initializeForDebugging_in ::
  "path_module \<Rightarrow> world \<Rightarrow> string \<Rightarrow> string option \<Rightarrow> string \<Rightarrow> string \<Rightarrow>
   bindings \<Rightarrow> (error + unit) \<times> bindings"
where
  "initializeForDebugging_in path w folder platformOS workspaceRelativeDockerfileName
       workspaceRelativeProjectFileName' s =
     (initializeForDebugging path w folder platformOS workspaceRelativeDockerfileName
        workspaceRelativeProjectFileName', s)"

text \<open>\<open>scaffoldNetCore\<close>, with its three calls of functions of the module.\<close>

definition scaffoldNetCore_in ::
  "path_module \<Rightarrow> osUtils \<Rightarrow> world \<Rightarrow> ScaffolderContext \<Rightarrow> bindings \<Rightarrow>
   (error + ScaffoldFile list) \<times> bindings"
where
  "scaffoldNetCore_in path host w ctx s =
     (case chosenOS ctx of
        Inl e \<Rightarrow> (Inl e, s)
      | Inr os \<Rightarrow>
     (case chosenPorts ctx of
        Inl e \<Rightarrow> (Inl e, s)
      | Inr ports \<Rightarrow>
     (case findCSProjOrFSProjFile_in w (Some (ctx_rootFolder ctx)) s of
        (Inl e, s1) \<Rightarrow> (Inl e, s1)
      | (Inr rootRelativeProjectFileName, s1) \<Rightarrow>
     (case readFile w (path_join path (ctx_rootFolder ctx) rootRelativeProjectFileName) of
        Inl e \<Rightarrow> (Inl e, s1)
      | Inr projFileContents \<Rightarrow>
     (case extractRegExGroups projFileContents target_framework_regex [[]] of
        [] \<Rightarrow> (Inl (TypeError ''version is undefined''), s1)
      | version # _ \<Rightarrow>
     (case genDockerFile_in path host (getExposeStatements w)
             (serviceNameAndPathRelative path ctx rootRelativeProjectFileName)
             (ctx_platform ctx) os ports version
             (workspaceRelativeProjectFileName path ctx rootRelativeProjectFileName) s1 of
        (Inl e, s2) \<Rightarrow> (Inl e, s2)
      | (Inr dockerFileContents, s2) \<Rightarrow>
     (let files = scaffoldFiles path w ctx rootRelativeProjectFileName
                    (removeEmptyLines dockerFileContents)
      in
        if ctx_initializeForDebugging ctx
        then
          (let dockerFilePath =
                 path_resolve path (ctx_rootFolder ctx)
                   (dockerFileName path ctx rootRelativeProjectFileName);
               workspaceRelativeDockerfileName =
                 path_relative path (ctx_folder ctx) dockerFilePath
           in case initializeForDebugging_in path w (ctx_folder ctx) (ctx_os ctx)
                     workspaceRelativeDockerfileName
                     (workspaceRelativeProjectFileName path ctx rootRelativeProjectFileName) s2 of
                (Inl e, s3) \<Rightarrow> (Inl e, s3)
              | (Inr _, s3) \<Rightarrow> (Inr files, s3))
        else (Inr files, s2))))))))"

text \<open>
  A call of a function of the module with its arguments, what a call gives back, and a
  run of calls one after the other, each in the store that the one before it left. The
  path module and the host are those of the process; the services may answer each call
  differently.
\<close>

datatype call =
    Call_GetWindowsImageTag
  | Call_formatVersion string string string
  | Call_genDockerFile "int list option \<Rightarrow> string" string string "string option"
      "int list option" string string
  | Call_findCSProjOrFSProjFile world "string option"
  | Call_initializeForDebugging world string "string option" string string
  | Call_scaffoldNetCore world ScaffolderContext

datatype returned =
    Returned_tag string
  | Returned_string "error + string"
  | Returned_unit "error + unit"
  | Returned_files "error + ScaffoldFile list"

fun exec :: "path_module \<Rightarrow> osUtils \<Rightarrow> call \<Rightarrow> bindings \<Rightarrow> returned \<times> bindings" where
  "exec path host Call_GetWindowsImageTag s =
     (case GetWindowsImageTag_in host s of (r, s') \<Rightarrow> (Returned_tag r, s'))"
| "exec path host (Call_formatVersion format version tag) s =
     (case formatVersion_in format version tag s of (r, s') \<Rightarrow> (Returned_string r, s'))"
| "exec path host (Call_genDockerFile getExposeStatements' serviceNameAndRelativePath platform os
       ports version artifactName) s =
     (case genDockerFile_in path host getExposeStatements' serviceNameAndRelativePath platform os
             ports version artifactName s of
        (r, s') \<Rightarrow> (Returned_string r, s'))"
| "exec path host (Call_findCSProjOrFSProjFile w folderPath) s =
     (case findCSProjOrFSProjFile_in w folderPath s of (r, s') \<Rightarrow> (Returned_string r, s'))"
| "exec path host (Call_initializeForDebugging w folder platformOS workspaceRelativeDockerfileName
       workspaceRelativeProjectFileName') s =
     (case initializeForDebugging_in path w folder platformOS workspaceRelativeDockerfileName
             workspaceRelativeProjectFileName' s of
        (r, s') \<Rightarrow> (Returned_unit r, s'))"
| "exec path host (Call_scaffoldNetCore w ctx) s =
     (case scaffoldNetCore_in path host w ctx s of (r, s') \<Rightarrow> (Returned_files r, s'))"

fun run :: "path_module \<Rightarrow> osUtils \<Rightarrow> call list \<Rightarrow> bindings \<Rightarrow> bindings" where
  "run path host [] s = s"
| "run path host (c # cs) s = run path host cs (snd (exec path host c s))"

section \<open>AzureAccountTreeItem.ts: waiting for the Azure Account extension\<close>

text \<open>
  \<open>refreshNodeWhenAzureExtensionIsInstalled\<close> runs on the host's event loop. Time is a
  number of milliseconds since the call. The timer of \<open>setTimeout\<close> and the first
  \<open>delay(1000)\<close> start together at time 0. A timer never fires early: a delay ends 1000 ms
  after it started or later (\<open>delayLateness\<close> is by how much, for each iteration), and the
  callback that sets \<open>timedout\<close> runs \<open>maxTimeout\<close> after the call or later
  (\<open>timeoutLateness\<close> is by how much; it is 0 when the host runs a timer that is due before
  it resumes the loop). What \<open>extensions.getExtension\<close> finds at each check is the host's
  answer.
\<close>

record poll_env =
  delayLateness :: "nat \<Rightarrow> nat"
  timeoutLateness :: nat
  extensionInstalledAt :: "nat \<Rightarrow> bool"

record poll_state =
  now :: nat
  timedout :: bool
  isExtensionInstalled :: bool
  iterations :: nat

definition maxTimeout :: nat where
  "maxTimeout = 600000"

text \<open>One pass through the body of the loop: the delay, then the check.\<close>

definition poll_body :: "poll_env \<Rightarrow> poll_state \<Rightarrow> poll_state" where
  "poll_body env s =
     (let t = now s + 1000 + delayLateness env (iterations s)
      in \<lparr>now = t,
          timedout = (timedout s \<or> maxTimeout + timeoutLateness env \<le> t),
          isExtensionInstalled = extensionInstalledAt env (iterations s),
          iterations = Suc (iterations s)\<rparr>)"

function poll_loop :: "poll_env \<Rightarrow> poll_state \<Rightarrow> poll_state" where
  "poll_loop env s =
     (if \<not> timedout s \<and> \<not> isExtensionInstalled s then poll_loop env (poll_body env s) else s)"
  by pat_completeness auto
termination
  by (relation "measure (\<lambda>(env, s).
        if timedout s \<or> isExtensionInstalled s then 0
        else maxTimeout + timeoutLateness env - now s + 1)")
     (auto simp: poll_body_def Let_def)

declare poll_loop.simps [simp del]

text \<open>The function: the state the loop ends in, and whether \<open>refresh\<close> was called.\<close>

record poll_result =
  final :: poll_state
  refreshed :: bool

definition refreshNodeWhenAzureExtensionIsInstalled :: "poll_env \<Rightarrow> poll_result" where
  "refreshNodeWhenAzureExtensionIsInstalled env =
     (let s = poll_loop env
                \<lparr>now = 0, timedout = False, isExtensionInstalled = False, iterations = 0\<rparr>
      in \<lparr>final = s, refreshed = isExtensionInstalled s\<rparr>)"

text \<open>What holds each time the condition of the loop is tested.\<close>

definition poll_invariant :: "poll_env \<Rightarrow> poll_state \<Rightarrow> bool" where
  "poll_invariant env s \<longleftrightarrow>
     1000 * iterations s \<le> now s
     \<and> (timedout s \<longleftrightarrow> maxTimeout + timeoutLateness env \<le> now s)
     \<and> 1000 * iterations s < maxTimeout + timeoutLateness env + 1000
     \<and> (0 < iterations s \<longrightarrow>
          now s < maxTimeout + timeoutLateness env + 1000 + delayLateness env (iterations s - 1))
     \<and> (\<forall>k<iterations s. extensionInstalledAt env k \<longrightarrow> isExtensionInstalled s \<and> Suc k = iterations s)
     \<and> (isExtensionInstalled s \<longrightarrow> 0 < iterations s \<and> extensionInstalledAt env (iterations s - 1))"

section \<open>dockerExtension.ts: activation\<close>

text \<open>
  The host keeps what the extension registers. A registration gives a disposable,
  which names what was registered; the providers, parsers, key tables and command
  handlers are modules that are not among the sources and are known by their names.
\<close>

record DocumentFilter =
  language :: string
  scheme :: string
  glob_pattern :: "string option"

datatype parser = DockerfileParser | DockerComposeParser

datatype key_info = DOCKERFILE_KEY_INFO | composeVersionKeys_All

datatype hover_provider = DockerHoverProvider parser key_info

datatype completion_provider =
  DockerfileCompletionItemProvider | DockerComposeCompletionItemProvider

datatype command_handler =
    configure | configureLaunchJson | buildImage | removeImage | pushImage | tagImage
  | startContainer | startContainerInteractive | startAzureCLI | stopContainer
  | showLogsContainer | openShellContainer | composeUp | composeDown | deployImage
  | systemPrune

datatype listener = scheduleValidate | deleteDiagnostics

datatype disposable =
    Reporter
  | HoverProviderRegistration DocumentFilter hover_provider
  | CompletionItemProviderRegistration DocumentFilter completion_provider string
  | CommandRegistration string command_handler
  | DiagnosticCollection string
  | EventSubscription string listener

record vscode =
  hoverProviders :: "(DocumentFilter \<times> hover_provider) list"
  completionItemProviders :: "(DocumentFilter \<times> completion_provider \<times> string) list"
  commands :: "(string \<times> command_handler) list"
  diagnosticCollections :: "string list"
  eventListeners :: "(string \<times> listener) list"
  textDocuments :: "string list"
  validationsScheduled :: "string list"

record ExtensionContext =
  subscriptions :: "disposable list"

definition registerHoverProvider ::
  "DocumentFilter \<Rightarrow> hover_provider \<Rightarrow> vscode \<Rightarrow> disposable \<times> vscode" where
  "registerHoverProvider selector provider v =
     (HoverProviderRegistration selector provider,
      v\<lparr>hoverProviders := hoverProviders v @ [(selector, provider)]\<rparr>)"

definition registerCompletionItemProvider ::
  "DocumentFilter \<Rightarrow> completion_provider \<Rightarrow> string \<Rightarrow> vscode \<Rightarrow> disposable \<times> vscode" where
  "registerCompletionItemProvider selector provider trigger v =
     (CompletionItemProviderRegistration selector provider trigger,
      v\<lparr>completionItemProviders := completionItemProviders v @ [(selector, provider, trigger)]\<rparr>)"

definition registerCommand :: "string \<Rightarrow> command_handler \<Rightarrow> vscode \<Rightarrow> disposable \<times> vscode" where
  "registerCommand command handler v =
     (CommandRegistration command handler, v\<lparr>commands := commands v @ [(command, handler)]\<rparr>)"

definition createDiagnosticCollection :: "string \<Rightarrow> vscode \<Rightarrow> disposable \<times> vscode" where
  "createDiagnosticCollection name v =
     (DiagnosticCollection name, v\<lparr>diagnosticCollections := diagnosticCollections v @ [name]\<rparr>)"

text \<open>An event of the workspace, called with a listener: the second argument of the call
  is the \<open>this\<close> of the listener, so the disposable is the only result.\<close>

definition onDid :: "string \<Rightarrow> listener \<Rightarrow> vscode \<Rightarrow> disposable \<times> vscode" where
  "onDid event l v =
     (EventSubscription event l, v\<lparr>eventListeners := eventListeners v @ [(event, l)]\<rparr>)"

definition push :: "disposable \<Rightarrow> ExtensionContext \<Rightarrow> ExtensionContext" where
  "push d ctx = ctx\<lparr>subscriptions := subscriptions ctx @ [d]\<rparr>"

definition COMPOSE_FILE_GLOB_PATTERN :: string where
  "COMPOSE_FILE_GLOB_PATTERN = ''**/[dD]ocker-[cC]ompose*.{yaml,yml}''"

definition DOCKERFILE_MODE_ID :: DocumentFilter where
  "DOCKERFILE_MODE_ID = \<lparr>language = ''dockerfile'', scheme = ''file'', glob_pattern = None\<rparr>"

definition YAML_MODE_ID :: DocumentFilter where
  "YAML_MODE_ID =
     \<lparr>language = ''yaml'', scheme = ''file'', glob_pattern = Some COMPOSE_FILE_GLOB_PATTERN\<rparr>"

text \<open>\<open>activate\<close>: the host and the context after the call, and the module's variable
  \<open>diagnosticCollection\<close>.\<close>

definition activate :: "vscode \<Rightarrow> ExtensionContext \<Rightarrow> vscode \<times> ExtensionContext \<times> disposable" where
  "activate v0 ctx0 =
     (let ctx = push Reporter ctx0;
          dockerHoverProvider = DockerHoverProvider DockerfileParser DOCKERFILE_KEY_INFO;
          (d, v) = registerHoverProvider DOCKERFILE_MODE_ID dockerHoverProvider v0;
          ctx = push d ctx;
          (d, v) = registerCompletionItemProvider DOCKERFILE_MODE_ID
                     DockerfileCompletionItemProvider ''.'' v;
          ctx = push d ctx;
          yamlHoverProvider = DockerHoverProvider DockerComposeParser composeVersionKeys_All;
          (d, v) = registerHoverProvider YAML_MODE_ID yamlHoverProvider v;
          ctx = push d ctx;
          (d, v) = registerCompletionItemProvider YAML_MODE_ID
                     DockerComposeCompletionItemProvider ''.'' v;
          ctx = push d ctx;
          (d, v) = registerCommand ''vscode-docker.configure'' configure v;
          ctx = push d ctx;
          (d, v) = registerCommand ''vscode-docker.debug.configureLaunchJson'' configureLaunchJson v;
          ctx = push d ctx;
          (d, v) = registerCommand ''vscode-docker.image.build'' buildImage v;
          ctx = push d ctx;
          (d, v) = registerCommand ''vscode-docker.image.remove'' removeImage v;
          ctx = push d ctx;
          (d, v) = registerCommand ''vscode-docker.image.push'' pushImage v;
          ctx = push d ctx;
          (d, v) = registerCommand ''vscode-docker.image.tag'' tagImage v;
          ctx = push d ctx;
          (d, v) = registerCommand ''vscode-docker.container.start'' startContainer v;
          ctx = push d ctx;
          (d, v) = registerCommand ''vscode-docker.container.start.interactive''
                     startContainerInteractive v;
          ctx = push d ctx;
          (d, v) = registerCommand ''vscode-docker.container.start.azurecli'' startAzureCLI v;
          ctx = push d ctx;
          (d, v) = registerCommand ''vscode-docker.container.stop'' stopContainer v;
          ctx = push d ctx;
          (d, v) = registerCommand ''vscode-docker.container.show-logs'' showLogsContainer v;
          ctx = push d ctx;
          (d, v) = registerCommand ''vscode-docker.container.open-shell'' openShellContainer v;
          ctx = push d ctx;
          (d, v) = registerCommand ''vscode-docker.compose.up'' composeUp v;
          ctx = push d ctx;
          (d, v) = registerCommand ''vscode-docker.compose.down'' composeDown v;
          ctx = push d ctx;
          (d, v) = registerCommand ''vscode-docker.deploy'' deployImage v;
          ctx = push d ctx;
          (d, v) = registerCommand ''vscode-docker.system.prune'' systemPrune v;
          ctx = push d ctx;
          (diagnosticCollection, v) = createDiagnosticCollection ''docker-diagnostics'' v;
          ctx = push diagnosticCollection ctx;
          (_, v) = onDid ''onDidChangeTextDocument'' scheduleValidate v;
          v = v\<lparr>validationsScheduled := validationsScheduled v @ textDocuments v\<rparr>;
          (_, v) = onDid ''onDidOpenTextDocument'' scheduleValidate v;
          (_, v) = onDid ''onDidCloseTextDocument'' deleteDiagnostics v
      in (v, ctx, diagnosticCollection))"

section \<open>A host for the examples\<close>

text \<open>
  The theorems below hold for every path module, every host and every answer of the
  missing modules. Their examples run on one of each. \<open>posix\<close> has the \<open>basename\<close>,
  \<open>dirname\<close> and \<open>extname\<close> of \<open>path.posix\<close>; its \<open>join\<close>, \<open>relative\<close> and \<open>resolve\<close> are
  those of \<open>path.posix\<close> on the paths of the examples only: normalised paths without
  \<open>.\<close> and \<open>..\<close> segments, made relative to a folder they are in.
\<close>

definition posix_extname :: "string \<Rightarrow> string" where
  "posix_extname p =
     (let b = posix_basename p;
          e = rev (takeWhile (\<lambda>c. c \<noteq> CHR ''.'') (rev b))
      in if CHR ''.'' \<notin> set b \<or> length e + 1 = length b \<or> b = ''..'' then []
         else CHR ''.'' # e)"

definition join_plain :: "string \<Rightarrow> string \<Rightarrow> string" where
  "join_plain a b = (if a = [] \<or> a = ''.'' then b else a @ ''/'' @ b)"

definition relative_plain :: "string \<Rightarrow> string \<Rightarrow> string" where
  "relative_plain a b = (if prefix (a @ ''/'') b then drop (length a + 1) b else b)"

definition resolve_plain :: "string \<Rightarrow> string \<Rightarrow> string" where
  "resolve_plain a b = (if prefix ''/'' b then b else a @ ''/'' @ b)"

definition posix :: path_module where
  "posix =
     \<lparr>path_basename = posix_basename, path_dirname = posix_dirname,
      path_extname = posix_extname, path_join = join_plain,
      path_relative = relative_plain, path_resolve = resolve_plain,
      path_posix_join = join_plain, path_posix_relative = relative_plain\<rparr>"

definition linux_host :: osUtils where
  "linux_host =
     \<lparr>isWindows = False, isWindows1019H1OrNewer = False, isWindows10RS5OrNewer = False,
      isWindows10RS4OrNewer = False, isWindows10RS3OrNewer = False\<rparr>"

definition windows_1809_host :: osUtils where
  "windows_1809_host =
     \<lparr>isWindows = True, isWindows1019H1OrNewer = False, isWindows10RS5OrNewer = True,
      isWindows10RS4OrNewer = True, isWindows10RS3OrNewer = True\<rparr>"

definition windows_1903_host :: osUtils where
  "windows_1903_host =
     \<lparr>isWindows = True, isWindows1019H1OrNewer = True, isWindows10RS5OrNewer = True,
      isWindows10RS4OrNewer = True, isWindows10RS3OrNewer = True\<rparr>"

text \<open>One \<open>EXPOSE\<close> line for each port, as the Dockerfiles of the extension have them.\<close>

definition expose_lines :: "int list option \<Rightarrow> string" where
  "expose_lines ports =
     (case ports of
        None \<Rightarrow> []
      | Some [] \<Rightarrow> []
      | Some (p # ps) \<Rightarrow>
          foldl (\<lambda>a b. a @ [CHR 0x0A] @ b) (''EXPOSE '' @ toString p)
            (map (\<lambda>q. ''EXPOSE '' @ toString q) ps))"

text \<open>A workspace \<open>/ws\<close> with the one project \<open>web/web.csproj\<close>, which targets .NET Core
  2.2.\<close>

definition example_world :: world where
  "example_world =
     \<lparr>globAsync = (\<lambda>glob_pattern cwd. Inr (Some [''web/web.csproj''])),
      showQuickPick = (\<lambda>labels. Inl (Error ''cancelled'')),
      readFile = (\<lambda>file.
        if file = ''/ws/web/web.csproj''
        then Inr (''<Project Sdk=\"Microsoft.NET.Sdk.Web\">\<newline>''
                  @ ''  <PropertyGroup>\<newline>''
                  @ ''    <TargetFramework>netcoreapp2.2</TargetFramework>\<newline>''
                  @ ''  </PropertyGroup>\<newline>''
                  @ ''</Project>\<newline>'')
        else Inl (Error ''ENOENT'')),
      initializeNetCoreForDebugging = (\<lambda>scaffoldContext options. Inr ()),
      getExposeStatements = expose_lines,
      genCommonDockerIgnoreFile = (\<lambda>platform. ''**/bin\<newline>**/obj\<newline>'')\<rparr>"

definition example_context :: ScaffolderContext where
  "example_context =
     \<lparr>ctx_os = Some ''Linux'', ctx_ports = Some [80, 443], ctx_platform = ''ASP.NET Core'',
      ctx_rootFolder = ''/ws'', ctx_outputFolder = None, ctx_folder = ''/ws'',
      ctx_initializeForDebugging = False,
      ctx_promptForOS = Inl (Error ''cancelled''),
      ctx_promptForPorts = (\<lambda>suggested. Inl (Error ''cancelled''))\<rparr>"

section \<open>The Dockerfile with its tokens filled in\<close>

text \<open>
  What the templates stand for: the text of the template with a value in the place of
  each token. The Windows templates start with two lines of comment, the Linux ones with
  nothing; for each target the two platforms have the same text.
\<close>

definition windows_header :: string where
  "windows_header =
     ''#Depending on the operating system of the host machines(s) that will build or run the containers, the image specified in the FROM statement may need to be changed.\<newline>'' @
     ''#For more information, please see https://aka.ms/containercompat\<newline>'' @
     ''\<newline>''"

definition filled_template ::
  "string \<Rightarrow> string \<Rightarrow> string \<Rightarrow> string \<Rightarrow> string \<Rightarrow> string \<Rightarrow> string \<Rightarrow> string \<Rightarrow> string"
where
  "filled_template header baseImageName exposeStatements sdkImageName copyProjectCommands
       projectDirectory projectFileName assemblyName =
     header @
     ''FROM '' @ baseImageName @ '' AS base\<newline>'' @
     ''WORKDIR /app\<newline>'' @
     exposeStatements @ ''\<newline>'' @
     ''\<newline>'' @
     ''FROM '' @ sdkImageName @ '' AS build\<newline>'' @
     ''WORKDIR /src\<newline>'' @
     copyProjectCommands @ ''\<newline>'' @
     ''RUN dotnet restore \"'' @ projectDirectory @ ''/'' @ projectFileName @ ''\"\<newline>'' @
     ''COPY . .\<newline>'' @
     ''WORKDIR \"/src/'' @ projectDirectory @ ''\"\<newline>'' @
     ''RUN dotnet build \"'' @ projectFileName @ ''\" -c Release -o /app/build\<newline>'' @
     ''\<newline>'' @
     ''FROM build AS publish\<newline>'' @
     ''RUN dotnet publish \"'' @ projectFileName @ ''\" -c Release -o /app/publish\<newline>'' @
     ''\<newline>'' @
     ''FROM base AS final\<newline>'' @
     ''WORKDIR /app\<newline>'' @
     ''COPY --from=publish /app/publish .\<newline>'' @
     ''ENTRYPOINT [\"dotnet\", \"'' @ assemblyName @ ''.dll\"]\<newline>''"

text \<open>The name of a token: lower-case letters and underscores. A piece of a template
  that follows a token starts with another character, and has no \<open>$\<close>.\<close>

definition token_name :: "string \<Rightarrow> bool" where
  "token_name n \<longleftrightarrow> n \<noteq> [] \<and> set n \<subseteq> set ''abcdefghijklmnopqrstuvwxyz_''"

definition separates :: "string \<Rightarrow> bool" where
  "separates seg \<longleftrightarrow>
     seg \<noteq> [] \<and> hd seg \<notin> set ''abcdefghijklmnopqrstuvwxyz_'' \<and> CHR ''$'' \<notin> set seg"

text \<open>The name of an image: the repository, the major and minor numbers of the version, the
  variant of the legacy console images, and the tag.\<close>

definition image_name :: "string \<Rightarrow> semver \<Rightarrow> string \<Rightarrow> string \<Rightarrow> string" where
  "image_name repository sv variant tag =
     repository @ '':'' @ toString (major sv) @ ''.'' @ toString (minor sv) @ variant @ tag"

text \<open>
  The image names and the tag that the rules of \<open>genDockerFile\<close> give for a platform, a
  target and a version.
\<close>

definition expected_tag :: "osUtils \<Rightarrow> string option \<Rightarrow> semver \<Rightarrow> string" where
  "expected_tag host os sv =
     (if os = Some ''Linux'' \<or> major sv < 2 then [] else GetWindowsImageTag host)"

definition expected_base_image :: "string \<Rightarrow> semver \<Rightarrow> string \<Rightarrow> string" where
  "expected_base_image platform sv tag =
     (if 2 < major sv \<or> (major sv = 2 \<and> 1 \<le> minor sv)
      then
        (if platform = ''ASP.NET Core''
         then image_name ''mcr.microsoft.com/dotnet/core/aspnet'' sv [] tag
         else image_name ''mcr.microsoft.com/dotnet/core/runtime'' sv [] tag)
      else
        (if platform = ''ASP.NET Core''
         then image_name ''microsoft/aspnetcore'' sv [] tag
         else image_name ''microsoft/dotnet'' sv ''-runtime'' tag))"

definition expected_sdk_image :: "string \<Rightarrow> semver \<Rightarrow> string \<Rightarrow> string" where
  "expected_sdk_image platform sv tag =
     (if 2 < major sv \<or> (major sv = 2 \<and> 1 \<le> minor sv)
      then image_name ''mcr.microsoft.com/dotnet/core/sdk'' sv [] tag
      else
        (if platform = ''ASP.NET Core''
         then image_name ''microsoft/aspnetcore-build'' sv [] tag
         else image_name ''microsoft/dotnet'' sv ''-sdk'' tag))"

text \<open>The commands of lines 57 to 72 of dockerExtension.ts, with their handlers.\<close>

definition listed_commands :: "(string \<times> command_handler) list" where
  "listed_commands =
     [(''vscode-docker.configure'', configure),
      (''vscode-docker.debug.configureLaunchJson'', configureLaunchJson),
      (''vscode-docker.image.build'', buildImage),
      (''vscode-docker.image.remove'', removeImage),
      (''vscode-docker.image.push'', pushImage),
      (''vscode-docker.image.tag'', tagImage),
      (''vscode-docker.container.start'', startContainer),
      (''vscode-docker.container.start.interactive'', startContainerInteractive),
      (''vscode-docker.container.start.azurecli'', startAzureCLI),
      (''vscode-docker.container.stop'', stopContainer),
      (''vscode-docker.container.show-logs'', showLogsContainer),
      (''vscode-docker.container.open-shell'', openShellContainer),
      (''vscode-docker.compose.up'', composeUp),
      (''vscode-docker.compose.down'', composeDown),
      (''vscode-docker.deploy'', deployImage),
      (''vscode-docker.system.prune'', systemPrune)]"

section \<open>Strings, versions and image names\<close>

lemma GetSubstitution_plain:
  "CHR ''$'' \<notin> set r \<Longrightarrow> GetSubstitution m p q r = r"
  by (induction m p q r rule: GetSubstitution.induct) auto

lemma replace_at_skip:
  "c \<notin> set xs \<Longrightarrow>
   replace_at (c # p) r passed (xs @ ys) = xs @ replace_at (c # p) r (rev xs @ passed) ys"
  by (induction xs arbitrary: passed) auto

lemma replace_first:
  assumes "c \<notin> set xs" and "CHR ''$'' \<notin> set r"
  shows "replace (c # p) r (xs @ (c # p) @ ys) = xs @ r @ ys"
proof -
  have "replace_at (c # p) r (rev xs) ((c # p) @ ys) = r @ ys"
    using assms(2) by (simp add: GetSubstitution_plain)
  with assms(1) show ?thesis
    by (simp add: replace_def replace_at_skip del: replace_at.simps)
qed

lemma toString_small: "0 \<le> n \<Longrightarrow> n < 10 \<Longrightarrow> toString n = [''0123456789'' ! nat n]"
  by (simp add: toString.simps)

lemma toString_large:
  "10 \<le> n \<Longrightarrow> toString n = toString (n div 10) @ [''0123456789'' ! nat (n mod 10)]"
  by (subst toString.simps) simp

lemma digit_char: "n < 10 \<Longrightarrow> ''0123456789'' ! n \<in> set ''0123456789''"
  by (rule nth_mem) simp

lemma toString_digits: "0 \<le> n \<Longrightarrow> set (toString n) \<subseteq> set ''0123456789''"
proof (induction n rule: toString.induct)
  case (1 n)
  show ?case
  proof (cases "n < 10")
    case True
    with "1.prems" have "nat n < 10" by simp
    from digit_char[OF this] True "1.prems" show ?thesis by (simp add: toString_small)
  next
    case False
    have "nat (n mod 10) < 10" by simp
    from digit_char[OF this] have d: "''0123456789'' ! nat (n mod 10) \<in> set ''0123456789''" .
    from False "1.prems" have "set (toString (n div 10)) \<subseteq> set ''0123456789''"
      using "1.IH"(2) by simp
    with d False show ?thesis by (simp add: toString_large)
  qed
qed

lemma toString_plain:
  "0 \<le> n \<Longrightarrow> CHR ''$'' \<notin> set (toString n) \<and> CHR ''{'' \<notin> set (toString n)"
  using toString_digits[of n] by auto

lemma digit_value_nonneg: "c \<in> set ''0123456789'' \<Longrightarrow> 0 \<le> digit_value c"
  by (auto simp: digit_value_def)

lemma to_number_nonneg_aux:
  "set s \<subseteq> set ''0123456789'' \<Longrightarrow> 0 \<le> a \<Longrightarrow> 0 \<le> foldl (\<lambda>n c. 10 * n + digit_value c) a s"
proof (induction s arbitrary: a)
  case Nil
  then show ?case by simp
next
  case (Cons c s)
  from Cons.prems have "0 \<le> digit_value c" by (intro digit_value_nonneg) simp
  with Cons.prems have "0 \<le> 10 * a + digit_value c" by simp
  moreover from Cons.prems have "set s \<subseteq> set ''0123456789''" by simp
  ultimately show ?case using Cons.IH by simp
qed

lemma to_number_nonneg: "numeric_identifier s \<Longrightarrow> 0 \<le> to_number s"
  by (simp add: to_number_def numeric_identifier_def to_number_nonneg_aux)

lemma SemVer_nonneg:
  "SemVer v = Inr sv \<Longrightarrow> 0 \<le> major sv \<and> 0 \<le> minor sv \<and> 0 \<le> patch sv"
  by (auto simp: SemVer_def to_number_nonneg split: if_splits list.splits)

text \<open>An image format is a head, \<open>{0}.{1}\<close>, a middle part and \<open>{2}\<close>; the image name has
  the two numbers and the tag in their places.\<close>

lemma formatVersion_eval:
  assumes v: "SemVer v = Inr sv"
    and tag: "CHR ''$'' \<notin> set tag"
    and h: "CHR ''{'' \<notin> set h" and m: "CHR ''{'' \<notin> set m"
  shows "formatVersion (h @ ''{0}.{1}'' @ m @ ''{2}'') v tag =
           Inr (h @ toString (major sv) @ ''.'' @ toString (minor sv) @ m @ tag)"
proof -
  from SemVer_nonneg[OF v] have a: "CHR ''$'' \<notin> set (toString (major sv))"
     "CHR ''{'' \<notin> set (toString (major sv))" "CHR ''$'' \<notin> set (toString (minor sv))"
     "CHR ''{'' \<notin> set (toString (minor sv))"
    using toString_plain by blast+
  have 1: "replace ''{0}'' (toString (major sv)) (h @ ''{0}.{1}'' @ m @ ''{2}'')
             = h @ toString (major sv) @ ''.{1}'' @ m @ ''{2}''"
    using replace_first[of "CHR ''{''" h "toString (major sv)" "''0}''" "''.{1}'' @ m @ ''{2}''"] h a
    by simp
  have 2: "replace ''{1}'' (toString (minor sv))
             ((h @ toString (major sv) @ ''.'') @ ''{1}'' @ m @ ''{2}'')
             = (h @ toString (major sv) @ ''.'') @ toString (minor sv) @ m @ ''{2}''"
    using replace_first[of "CHR ''{''" "h @ toString (major sv) @ ''.''" "toString (minor sv)"
        "''1}''" "m @ ''{2}''"] h a
    by simp
  have 3: "replace ''{2}'' tag
             ((h @ toString (major sv) @ ''.'' @ toString (minor sv) @ m) @ ''{2}'' @ [])
             = (h @ toString (major sv) @ ''.'' @ toString (minor sv) @ m) @ tag @ []"
    using replace_first[of "CHR ''{''" "h @ toString (major sv) @ ''.'' @ toString (minor sv) @ m"
        tag "''2}''" "[]"] h m a tag
    by simp
  show ?thesis using 1 2 3 by (simp add: formatVersion_def v)
qed

section \<open>Substitution into a template\<close>

lemma replace_all_at_passed:
  "CHR ''$'' \<notin> set r \<Longrightarrow> replace_all_at tok r passed s = replace_all_at tok r passed' s"
proof (induction s arbitrary: passed passed' rule: length_induct)
  case (1 s)
  show ?case
  proof (cases s)
    case Nil
    then show ?thesis by simp
  next
    case (Cons c t)
    show ?thesis
    proof (cases "tok \<noteq> [] \<and> prefix tok (c # t)")
      case True
      then have "length (drop (length tok) (c # t)) < length s" using Cons by (cases tok) auto
      with 1 have "replace_all_at tok r (rev tok @ passed) (drop (length tok) (c # t))
                 = replace_all_at tok r (rev tok @ passed') (drop (length tok) (c # t))"
        by blast
      with True Cons 1(2) show ?thesis by (simp add: GetSubstitution_plain)
    next
      case False
      from 1 Cons have "replace_all_at tok r (c # passed) t = replace_all_at tok r (c # passed') t"
        by simp
      with False Cons show ?thesis by auto
    qed
  qed
qed

lemma replace_token_Cons:
  "CHR ''$'' \<notin> set r \<Longrightarrow> c \<noteq> CHR ''$'' \<Longrightarrow> replace_token n r (c # s) = c # replace_token n r s"
  using replace_all_at_passed[of r "token n" "[c]" s "[]"]
  by (simp add: replace_token_def token_def)

lemma replace_token_skip:
  "CHR ''$'' \<notin> set xs \<Longrightarrow> CHR ''$'' \<notin> set r \<Longrightarrow>
   replace_token n r (xs @ ys) = xs @ replace_token n r ys"
  by (induction xs) (auto simp: replace_token_Cons)

lemma replace_token_end:
  "CHR ''$'' \<notin> set xs \<Longrightarrow> CHR ''$'' \<notin> set r \<Longrightarrow> replace_token n r xs = xs"
  using replace_token_skip[of xs r n "[]"] by (simp add: replace_token_def)

lemma replace_token_hit:
  assumes "CHR ''$'' \<notin> set r"
  shows "replace_token n r (token n @ ys) = r @ replace_token n r ys"
proof -
  have "replace_all_at (token n) r [] (token n @ ys)
          = GetSubstitution (token n) [] ys r @ replace_all_at (token n) r (rev (token n)) ys"
    by (simp add: token_def)
  with assms show ?thesis
    using replace_all_at_passed[OF assms, of "token n" "rev (token n)" ys "[]"]
    by (simp add: replace_token_def GetSubstitution_plain)
qed

lemma token_name_plain: "token_name n \<Longrightarrow> CHR ''$'' \<notin> set n"
proof -
  have "CHR ''$'' \<notin> set ''abcdefghijklmnopqrstuvwxyz_''" by simp
  then show "token_name n \<Longrightarrow> CHR ''$'' \<notin> set n" unfolding token_name_def by blast
qed

lemma takeWhile_until: "c \<notin> set m \<Longrightarrow> takeWhile (\<lambda>x. x \<noteq> c) (m @ c # ys) = m"
  by (induction m) auto

lemma token_names_differ:
  assumes "token_name m" "token_name n" "m \<noteq> n"
  shows "\<not> prefix (n @ ''$'') (m @ ''$'' @ ys)"
proof
  assume p: "prefix (n @ ''$'') (m @ ''$'' @ ys)"
  from assms have dm: "CHR ''$'' \<notin> set m" and dn: "CHR ''$'' \<notin> set n"
    by (auto dest: token_name_plain)
  from p obtain zs where eq: "m @ ''$'' @ ys = n @ ''$'' @ zs" by (auto simp: prefix_def)
  then have "takeWhile (\<lambda>c. c \<noteq> CHR ''$'') (m @ CHR ''$'' # ys)
           = takeWhile (\<lambda>c. c \<noteq> CHR ''$'') (n @ CHR ''$'' # zs)"
    by simp
  then have "m = n" using takeWhile_until[OF dm, of ys] takeWhile_until[OF dn, of zs] by simp
  with assms(3) show False by simp
qed

lemma separates_no_token:
  assumes "token_name n" "separates seg"
  shows "\<not> prefix (n @ ''$'') (seg @ ys)"
proof -
  from assms(1) obtain a n' where n: "n = a # n'" and a: "a \<in> set ''abcdefghijklmnopqrstuvwxyz_''"
    unfolding token_name_def by (cases n) auto
  from assms(2) obtain b seg' where seg: "seg = b # seg'"
    and b: "b \<notin> set ''abcdefghijklmnopqrstuvwxyz_''"
    unfolding separates_def by (cases seg) auto
  from a b have "a \<noteq> b" by blast
  with n seg show ?thesis by simp
qed

lemma replace_token_miss:
  assumes r: "CHR ''$'' \<notin> set r" and m: "token_name m" and n: "token_name n" and mn: "m \<noteq> n"
    and seg: "separates seg"
  shows "replace_token n r (token m @ seg @ ys) = token m @ seg @ replace_token n r ys"
proof -
  from m have dm: "CHR ''$'' \<notin> set m" by (rule token_name_plain)
  from seg have dseg: "CHR ''$'' \<notin> set seg" by (simp add: separates_def)
  have 1: "replace_all_at (token n) r [] (token m @ seg @ ys)
             = CHR ''$'' # replace_all_at (token n) r [CHR ''$''] (m @ ''$'' @ seg @ ys)"
    using token_names_differ[OF m n mn] by (simp add: token_def)
  have 2: "replace_token n r (m @ ''$'' @ seg @ ys) = m @ replace_token n r (''$'' @ seg @ ys)"
    using replace_token_skip[OF dm r] by simp
  have 3: "replace_all_at (token n) r [] (''$'' @ seg @ ys)
             = CHR ''$'' # replace_all_at (token n) r [CHR ''$''] (seg @ ys)"
    using separates_no_token[OF n seg] by (simp add: token_def)
  have 4: "replace_token n r (seg @ ys) = seg @ replace_token n r ys"
    using replace_token_skip[OF dseg r] by simp
  from 1 2 3 4 show ?thesis
    using replace_all_at_passed[OF r, of "token n" "[CHR ''$'']" _ "[]"]
    by (simp add: replace_token_def token_def)
qed


lemma replace_token_Nil: "replace_token n r [] = []"
  by (simp add: replace_token_def)

lemma replace_token_miss_last:
  assumes r: "CHR ''$'' \<notin> set r" and m: "token_name m" and n: "token_name n" and mn: "m \<noteq> n"
    and seg: "separates seg"
  shows "replace_token n r (token m @ seg) = token m @ seg"
  using replace_token_miss[OF assms, of "[]"] by (simp add: replace_token_Nil)

lemma token_names:
  "token_name ''base_image_name''" "token_name ''expose_statements''"
  "token_name ''sdk_image_name''" "token_name ''copy_project_commands''"
  "token_name ''container_project_directory''" "token_name ''project_file_name''"
  "token_name ''assembly_name''"
  by (simp_all add: token_name_def)

lemma separates_plain: "separates seg \<Longrightarrow> CHR ''$'' \<notin> set seg"
  by (simp add: separates_def)

lemma substitute_segments:
  assumes s0: "CHR ''$'' \<notin> set s0"
    and b: "CHR ''$'' \<notin> set b" and e: "CHR ''$'' \<notin> set e" and k: "CHR ''$'' \<notin> set k"
    and d: "CHR ''$'' \<notin> set d" and f: "CHR ''$'' \<notin> set f" and a: "CHR ''$'' \<notin> set a"
    and c: "CHR ''$'' \<notin> set c"
    and sep: "separates s1" "separates s2" "separates s3" "separates s4" "separates s5"
      "separates s6" "separates s7" "separates s8" "separates s9" "separates s10"
  shows "substitute
           (s0 @ token ''base_image_name'' @ s1 @ token ''expose_statements'' @ s2
             @ token ''sdk_image_name'' @ s3 @ token ''copy_project_commands'' @ s4
             @ token ''container_project_directory'' @ s5 @ token ''project_file_name'' @ s6
             @ token ''container_project_directory'' @ s7 @ token ''project_file_name'' @ s8
             @ token ''project_file_name'' @ s9 @ token ''assembly_name'' @ s10)
           b e k d f a c
         = s0 @ b @ s1 @ e @ s2 @ k @ s3 @ c @ s4 @ d @ s5 @ f @ s6 @ d @ s7 @ f @ s8 @ f @ s9
             @ a @ s10"
proof -
  note plain = s0 b e k d f a c sep[THEN separates_plain]
  note rules = replace_token_skip replace_token_hit replace_token_miss replace_token_miss_last
    replace_token_end token_names sep plain
  let ?t1 = "s0 @ b @ s1 @ token ''expose_statements'' @ s2
             @ token ''sdk_image_name'' @ s3 @ token ''copy_project_commands'' @ s4
             @ token ''container_project_directory'' @ s5 @ token ''project_file_name'' @ s6
             @ token ''container_project_directory'' @ s7 @ token ''project_file_name'' @ s8
             @ token ''project_file_name'' @ s9 @ token ''assembly_name'' @ s10"
  have 1: "replace ''$base_image_name$'' b
            (s0 @ token ''base_image_name'' @ s1 @ token ''expose_statements'' @ s2
             @ token ''sdk_image_name'' @ s3 @ token ''copy_project_commands'' @ s4
             @ token ''container_project_directory'' @ s5 @ token ''project_file_name'' @ s6
             @ token ''container_project_directory'' @ s7 @ token ''project_file_name'' @ s8
             @ token ''project_file_name'' @ s9 @ token ''assembly_name'' @ s10) = ?t1"
    using replace_first[OF s0 b, of "''base_image_name$''"] by (simp add: token_def)
  let ?t2 = "s0 @ b @ s1 @ e @ s2
             @ token ''sdk_image_name'' @ s3 @ token ''copy_project_commands'' @ s4
             @ token ''container_project_directory'' @ s5 @ token ''project_file_name'' @ s6
             @ token ''container_project_directory'' @ s7 @ token ''project_file_name'' @ s8
             @ token ''project_file_name'' @ s9 @ token ''assembly_name'' @ s10"
  have 2: "replace_token ''expose_statements'' e ?t1 = ?t2"
    by (simp add: rules)
  let ?t3 = "s0 @ b @ s1 @ e @ s2 @ k @ s3 @ token ''copy_project_commands'' @ s4
             @ token ''container_project_directory'' @ s5 @ token ''project_file_name'' @ s6
             @ token ''container_project_directory'' @ s7 @ token ''project_file_name'' @ s8
             @ token ''project_file_name'' @ s9 @ token ''assembly_name'' @ s10"
  have 3: "replace_token ''sdk_image_name'' k ?t2 = ?t3"
    by (simp add: rules)
  let ?t4 = "s0 @ b @ s1 @ e @ s2 @ k @ s3 @ token ''copy_project_commands'' @ s4
             @ d @ s5 @ token ''project_file_name'' @ s6
             @ d @ s7 @ token ''project_file_name'' @ s8
             @ token ''project_file_name'' @ s9 @ token ''assembly_name'' @ s10"
  have 4: "replace_token ''container_project_directory'' d ?t3 = ?t4"
    by (simp add: rules)
  let ?t5 = "s0 @ b @ s1 @ e @ s2 @ k @ s3 @ token ''copy_project_commands'' @ s4
             @ d @ s5 @ f @ s6 @ d @ s7 @ f @ s8 @ f @ s9 @ token ''assembly_name'' @ s10"
  have 5: "replace_token ''project_file_name'' f ?t4 = ?t5"
    by (simp add: rules)
  let ?t6 = "s0 @ b @ s1 @ e @ s2 @ k @ s3 @ token ''copy_project_commands'' @ s4
             @ d @ s5 @ f @ s6 @ d @ s7 @ f @ s8 @ f @ s9 @ a @ s10"
  have 6: "replace_token ''assembly_name'' a ?t5 = ?t6"
    by (simp add: rules)
  have 7: "replace_token ''copy_project_commands'' c ?t6
             = s0 @ b @ s1 @ e @ s2 @ k @ s3 @ c @ s4 @ d @ s5 @ f @ s6 @ d @ s7 @ f @ s8 @ f @ s9
                 @ a @ s10"
    by (simp add: rules)
  show ?thesis unfolding substitute_def by (simp only: 1 2 3 4 5 6 7)
qed

lemma linux_template_shape:
  "aspNetCoreLinuxTemplate =
     ''FROM '' @ token ''base_image_name'' @ '' AS base\<newline>WORKDIR /app\<newline>''
     @ token ''expose_statements'' @ ''\<newline>\<newline>FROM ''
     @ token ''sdk_image_name'' @ '' AS build\<newline>WORKDIR /src\<newline>''
     @ token ''copy_project_commands'' @ ''\<newline>RUN dotnet restore \"''
     @ token ''container_project_directory'' @ ''/''
     @ token ''project_file_name'' @ ''\"\<newline>COPY . .\<newline>WORKDIR \"/src/''
     @ token ''container_project_directory'' @ ''\"\<newline>RUN dotnet build \"''
     @ token ''project_file_name''
     @ ''\" -c Release -o /app/build\<newline>\<newline>FROM build AS publish\<newline>RUN dotnet publish \"''
     @ token ''project_file_name''
     @ ''\" -c Release -o /app/publish\<newline>\<newline>FROM base AS final\<newline>WORKDIR /app\<newline>COPY --from=publish /app/publish .\<newline>ENTRYPOINT [\"dotnet\", \"''
     @ token ''assembly_name'' @ ''.dll\"]\<newline>''"
  by (simp add: aspNetCoreLinuxTemplate_def token_def)

lemma windows_template_shape: "aspNetCoreWindowsTemplate = windows_header @ aspNetCoreLinuxTemplate"
  by (simp add: aspNetCoreWindowsTemplate_def windows_header_def aspNetCoreLinuxTemplate_def)

lemma console_templates:
  "dotNetCoreConsoleLinuxTemplate = aspNetCoreLinuxTemplate"
  "dotNetCoreConsoleWindowsTemplate = aspNetCoreWindowsTemplate"
  by (simp_all add: dotNetCoreConsoleLinuxTemplate_def aspNetCoreLinuxTemplate_def
      dotNetCoreConsoleWindowsTemplate_def aspNetCoreWindowsTemplate_def)

lemma separators:
  "separates '' AS base\<newline>WORKDIR /app\<newline>''"
  "separates ''\<newline>\<newline>FROM ''"
  "separates '' AS build\<newline>WORKDIR /src\<newline>''"
  "separates ''\<newline>RUN dotnet restore \"''"
  "separates ''/''"
  "separates ''\"\<newline>COPY . .\<newline>WORKDIR \"/src/''"
  "separates ''\"\<newline>RUN dotnet build \"''"
  "separates ''\" -c Release -o /app/build\<newline>\<newline>FROM build AS publish\<newline>RUN dotnet publish \"''"
  "separates ''\" -c Release -o /app/publish\<newline>\<newline>FROM base AS final\<newline>WORKDIR /app\<newline>COPY --from=publish /app/publish .\<newline>ENTRYPOINT [\"dotnet\", \"''"
  "separates ''.dll\"]\<newline>''"
  by (simp_all add: separates_def)

lemma substitute_template:
  assumes h: "CHR ''$'' \<notin> set header"
    and "CHR ''$'' \<notin> set b" "CHR ''$'' \<notin> set e" "CHR ''$'' \<notin> set k"
    "CHR ''$'' \<notin> set d" "CHR ''$'' \<notin> set f" "CHR ''$'' \<notin> set a" "CHR ''$'' \<notin> set c"
  shows "substitute (header @ aspNetCoreLinuxTemplate) b e k d f a c = filled_template header b e k c d f a"
proof -
  from h have s0: "CHR ''$'' \<notin> set (header @ ''FROM '')" by simp
  show ?thesis
    using substitute_segments[OF s0 assms(2-8) separators]
    by (simp add: linux_template_shape filled_template_def)
qed

section \<open>Image names, tags and the check for tokens\<close>

lemma token_here_plain: "c \<noteq> CHR ''$'' \<Longrightarrow> token_here (c # s) = None"
  by (simp add: token_here_def)

lemma template_token_regex_plain: "CHR ''$'' \<notin> set s \<Longrightarrow> template_token_regex s = None"
  by (induction s) (auto simp: token_here_plain)

lemma checkUnreplaced_plain: "CHR ''$'' \<notin> set s \<Longrightarrow> checkUnreplaced s = Inr s"
  by (simp add: checkUnreplaced_def extractRegExGroups_def template_token_regex_plain)

lemma checkUnreplaced_Inr: "checkUnreplaced s = Inr t \<Longrightarrow> t = s \<and> template_token_regex s = None"
proof -
  have "template_token_regex s = None \<or> (\<exists>n. template_token_regex s = Some [token n])"
    by (induction s rule: template_token_regex.induct)
       (auto simp: token_here_def Let_def split: option.splits list.splits if_splits)
  then show "checkUnreplaced s = Inr t \<Longrightarrow> t = s \<and> template_token_regex s = None"
    by (auto simp: checkUnreplaced_def extractRegExGroups_def token_def split: if_splits)
qed

lemma GetWindowsImageTag_values:
  "GetWindowsImageTag host \<in> {''-nanoserver-1903'', ''-nanoserver-1809'', ''-nanoserver-1803'',
     ''-nanoserver-1709'', ''-nanoserver-sac2016''}"
  by (simp add: GetWindowsImageTag_def)

lemma GetWindowsImageTag_plain: "CHR ''$'' \<notin> set (GetWindowsImageTag host)"
  by (simp add: GetWindowsImageTag_def)

lemma tagForWindowsVersion_plain:
  "tagForWindowsVersion host os v = Inr tag \<Longrightarrow> CHR ''$'' \<notin> set tag"
  using GetWindowsImageTag_plain[of host]
  by (auto simp: tagForWindowsVersion_def split: if_splits sum.splits)

text \<open>The seven formats, as a head, the version and a middle part before the tag.\<close>

lemma format_shapes:
  "LegacyAspNetCoreRuntimeImageFormat = ''microsoft/aspnetcore:'' @ ''{0}.{1}'' @ [] @ ''{2}''"
  "LegacyAspNetCoreSdkImageFormat = ''microsoft/aspnetcore-build:'' @ ''{0}.{1}'' @ [] @ ''{2}''"
  "LegacyDotNetCoreRuntimeImageFormat = ''microsoft/dotnet:'' @ ''{0}.{1}'' @ ''-runtime'' @ ''{2}''"
  "LegacyDotNetCoreSdkImageFormat = ''microsoft/dotnet:'' @ ''{0}.{1}'' @ ''-sdk'' @ ''{2}''"
  "DotNetCoreRuntimeImageFormat = ''mcr.microsoft.com/dotnet/core/runtime:'' @ ''{0}.{1}'' @ [] @ ''{2}''"
  "AspNetCoreRuntimeImageFormat = ''mcr.microsoft.com/dotnet/core/aspnet:'' @ ''{0}.{1}'' @ [] @ ''{2}''"
  "DotNetCoreSdkImageFormat = ''mcr.microsoft.com/dotnet/core/sdk:'' @ ''{0}.{1}'' @ [] @ ''{2}''"
  by (simp_all add: LegacyAspNetCoreRuntimeImageFormat_def LegacyAspNetCoreSdkImageFormat_def
      LegacyDotNetCoreRuntimeImageFormat_def LegacyDotNetCoreSdkImageFormat_def
      DotNetCoreRuntimeImageFormat_def AspNetCoreRuntimeImageFormat_def DotNetCoreSdkImageFormat_def)

lemma formatVersion_formats:
  assumes v: "SemVer v = Inr sv" and tag: "CHR ''$'' \<notin> set tag"
  shows
    "formatVersion LegacyAspNetCoreRuntimeImageFormat v tag = Inr (image_name ''microsoft/aspnetcore'' sv [] tag)"
    "formatVersion LegacyAspNetCoreSdkImageFormat v tag = Inr (image_name ''microsoft/aspnetcore-build'' sv [] tag)"
    "formatVersion LegacyDotNetCoreRuntimeImageFormat v tag = Inr (image_name ''microsoft/dotnet'' sv ''-runtime'' tag)"
    "formatVersion LegacyDotNetCoreSdkImageFormat v tag = Inr (image_name ''microsoft/dotnet'' sv ''-sdk'' tag)"
    "formatVersion DotNetCoreRuntimeImageFormat v tag = Inr (image_name ''mcr.microsoft.com/dotnet/core/runtime'' sv [] tag)"
    "formatVersion AspNetCoreRuntimeImageFormat v tag = Inr (image_name ''mcr.microsoft.com/dotnet/core/aspnet'' sv [] tag)"
    "formatVersion DotNetCoreSdkImageFormat v tag = Inr (image_name ''mcr.microsoft.com/dotnet/core/sdk'' sv [] tag)"
  unfolding format_shapes
  by (subst formatVersion_eval[OF v tag]; simp add: image_name_def)+

lemma image_name_plain:
  "0 \<le> major sv \<Longrightarrow> 0 \<le> minor sv \<Longrightarrow> CHR ''$'' \<notin> set repository \<Longrightarrow> CHR ''$'' \<notin> set variant \<Longrightarrow>
   CHR ''$'' \<notin> set tag \<Longrightarrow> CHR ''$'' \<notin> set (image_name repository sv variant tag)"
  using toString_plain[of "major sv"] toString_plain[of "minor sv"]
  by (simp add: image_name_def)

section \<open>The image formats and the tag\<close>

lemma compare_gte_2_1_0:
  assumes "0 \<le> patch sv"
  shows "compare sv \<lparr>major = 2, minor = 1, patch = 0\<rparr> \<ge> 0
           \<longleftrightarrow> major sv > 2 \<or> (major sv = 2 \<and> minor sv \<ge> 1)"
  using assms by (auto simp: compare_def compareIdentifiers_def)

lemma compare_lt_2_0_0:
  assumes "0 \<le> minor sv" "0 \<le> patch sv"
  shows "compare sv \<lparr>major = 2, minor = 0, patch = 0\<rparr> < 0 \<longleftrightarrow> major sv < 2"
  using assms by (auto simp: compare_def compareIdentifiers_def)

lemma SemVer_2_1_0: "SemVer ''2.1.0'' = Inr \<lparr>major = 2, minor = 1, patch = 0\<rparr>"
  by (simp add: SemVer_def numeric_identifier_def to_number_def digit_value_def MAX_SAFE_INTEGER_def)

lemma SemVer_2_0_0: "SemVer ''2.0.0'' = Inr \<lparr>major = 2, minor = 0, patch = 0\<rparr>"
  by (simp add: SemVer_def numeric_identifier_def to_number_def digit_value_def MAX_SAFE_INTEGER_def)

lemma gte_2_1_0:
  "SemVer v = Inr sv \<Longrightarrow> gte v ''2.1.0'' = Inr (major sv > 2 \<or> (major sv = 2 \<and> minor sv \<ge> 1))"
  using SemVer_nonneg[of v sv] by (simp add: gte_def SemVer_2_1_0 compare_gte_2_1_0)

lemma lt_2_0_0:
  "SemVer v = Inr sv \<Longrightarrow> lt v ''2.0.0'' = Inr (major sv < 2)"
  using SemVer_nonneg[of v sv] by (simp add: lt_def SemVer_2_0_0 compare_lt_2_0_0)

lemma expected_tag_plain: "CHR ''$'' \<notin> set (expected_tag host os sv)"
  by (simp add: expected_tag_def GetWindowsImageTag_plain)

lemma expected_images_plain:
  assumes "0 \<le> major sv" "0 \<le> minor sv" "CHR ''$'' \<notin> set tag"
  shows "CHR ''$'' \<notin> set (expected_base_image platform sv tag)"
    and "CHR ''$'' \<notin> set (expected_sdk_image platform sv tag)"
  using assms by (simp_all add: expected_base_image_def expected_sdk_image_def image_name_plain)

lemma template_chosen:
  assumes "platform = ''ASP.NET Core'' \<or> platform = ''.NET Core Console''"
  shows "template platform os
           = Inr (if platform = ''ASP.NET Core''
                  then (if os = Some ''Linux'' then aspNetCoreLinuxTemplate
                        else aspNetCoreWindowsTemplate)
                  else (if os = Some ''Linux'' then dotNetCoreConsoleLinuxTemplate
                        else dotNetCoreConsoleWindowsTemplate))"
  using assms by (auto simp: template_def)

text \<open>
  \<open>genDockerFile\<close> for a platform and a target it knows and a version the semver library
  accepts: the check for tokens left over, on the template of the platform and the target
  with the names of the two images, the ports, the directory, the two file names and the
  copy command substituted.
\<close>

lemma genDockerFile_images:
  assumes os: "os = Some ''Windows'' \<or> os = Some ''Linux''"
    and platform: "platform = ''ASP.NET Core'' \<or> platform = ''.NET Core Console''"
    and v: "netCoreAppVersion version = Inr v" and sv: "SemVer v = Inr sv"
  shows "genDockerFile path host expose service platform os ports version artifact =
           checkUnreplaced
             (substitute
                (if platform = ''ASP.NET Core''
                 then (if os = Some ''Linux'' then aspNetCoreLinuxTemplate
                       else aspNetCoreWindowsTemplate)
                 else (if os = Some ''Linux'' then dotNetCoreConsoleLinuxTemplate
                       else dotNetCoreConsoleWindowsTemplate))
                (expected_base_image platform sv (expected_tag host os sv))
                (expose ports)
                (expected_sdk_image platform sv (expected_tag host os sv))
                (path_dirname path service) (path_basename path artifact)
                (path_basename path service)
                (''COPY [\"'' @ artifact @ ''\", \"'' @ path_dirname path service @ ''/\"]''))"
proof -
  let ?tag = "expected_tag host os sv"
  let ?base = "expected_base_image platform sv ?tag"
  let ?sdk = "expected_sdk_image platform sv ?tag"
  have tag: "tagForWindowsVersion host os v = Inr ?tag"
    using lt_2_0_0[OF sv] by (simp add: tagForWindowsVersion_def expected_tag_def)
  have tp: "CHR ''$'' \<notin> set ?tag" by (rule expected_tag_plain)
  note names = formatVersion_formats[OF sv tp]
  have "\<exists>bf sf. imageFormats platform v = Inr (bf, sf)
            \<and> formatVersion bf v ?tag = Inr ?base \<and> formatVersion sf v ?tag = Inr ?sdk"
  proof (cases "2 < major sv \<or> (major sv = 2 \<and> 1 \<le> minor sv)")
    case True
    with platform gte_2_1_0[OF sv] show ?thesis
      by (auto simp: imageFormats_def names expected_base_image_def expected_sdk_image_def)
  next
    case False
    with platform gte_2_1_0[OF sv] show ?thesis
      by (auto simp: imageFormats_def names expected_base_image_def expected_sdk_image_def)
  qed
  then obtain bf sf where f: "imageFormats platform v = Inr (bf, sf)"
    and b: "formatVersion bf v ?tag = Inr ?base" and s: "formatVersion sf v ?tag = Inr ?sdk"
    by blast
  note t = template_chosen[OF platform, of os]
  from os show ?thesis
    unfolding genDockerFile_def Let_def
    by (simp only: v f tag b s t sum.case prod.case) auto
qed

text \<open>
  C1. A call of \<open>genDockerFile\<close> for the platform \<open>ASP.NET Core\<close> or \<open>.NET Core Console\<close>
  and the target \<open>Windows\<close> or \<open>Linux\<close>, with a version parsed from the TargetFramework
  that the semver library accepts. When the version is 2.1.0 or later (its major number
  is above 2, or is 2 with a minor number of at least 1), the formats are those of
  \<open>mcr.microsoft.com/dotnet/core/aspnet\<close> or \<open>mcr.microsoft.com/dotnet/core/runtime\<close> for the
  base image and of \<open>mcr.microsoft.com/dotnet/core/sdk\<close> for the SDK image; when it is
  earlier, they are the legacy ones of Docker Hub. The result of the call is the check
  for tokens left over on the template with, for the two image names, these formats with
  the major and minor numbers of the version and the tag in them.
\<close>

theorem base_image_by_version:
  assumes "os = Some ''Windows'' \<or> os = Some ''Linux''"
    and "platform = ''ASP.NET Core'' \<or> platform = ''.NET Core Console''"
    and "netCoreAppVersion version = Inr v" and "SemVer v = Inr sv"
  shows
    "let number = toString (major sv) @ ''.'' @ toString (minor sv);
         tag = (if os = Some ''Linux'' \<or> major sv < 2 then [] else GetWindowsImageTag host);
         dockerFile = (\<lambda>baseImageName sdkImageName.
           checkUnreplaced
             (substitute
                (if platform = ''ASP.NET Core''
                 then (if os = Some ''Linux'' then aspNetCoreLinuxTemplate
                       else aspNetCoreWindowsTemplate)
                 else (if os = Some ''Linux'' then dotNetCoreConsoleLinuxTemplate
                       else dotNetCoreConsoleWindowsTemplate))
                baseImageName (expose ports) sdkImageName
                (path_dirname path service) (path_basename path artifact)
                (path_basename path service)
                (''COPY [\"'' @ artifact @ ''\", \"'' @ path_dirname path service @ ''/\"]'')))
     in (2 < major sv \<or> (major sv = 2 \<and> 1 \<le> minor sv) \<longrightarrow>
           imageFormats platform v =
             Inr (if platform = ''ASP.NET Core''
                  then ''mcr.microsoft.com/dotnet/core/aspnet:{0}.{1}{2}''
                  else ''mcr.microsoft.com/dotnet/core/runtime:{0}.{1}{2}'',
                  ''mcr.microsoft.com/dotnet/core/sdk:{0}.{1}{2}'')
         \<and> genDockerFile path host expose service platform os ports version artifact =
             dockerFile
               ((if platform = ''ASP.NET Core''
                 then ''mcr.microsoft.com/dotnet/core/aspnet:''
                 else ''mcr.microsoft.com/dotnet/core/runtime:'') @ number @ tag)
               (''mcr.microsoft.com/dotnet/core/sdk:'' @ number @ tag))
      \<and> (major sv < 2 \<or> (major sv = 2 \<and> minor sv < 1) \<longrightarrow>
           imageFormats platform v =
             Inr (if platform = ''ASP.NET Core''
                  then (''microsoft/aspnetcore:{0}.{1}{2}'', ''microsoft/aspnetcore-build:{0}.{1}{2}'')
                  else (''microsoft/dotnet:{0}.{1}-runtime{2}'', ''microsoft/dotnet:{0}.{1}-sdk{2}''))
         \<and> genDockerFile path host expose service platform os ports version artifact =
             dockerFile
               (if platform = ''ASP.NET Core''
                then ''microsoft/aspnetcore:'' @ number @ tag
                else ''microsoft/dotnet:'' @ number @ ''-runtime'' @ tag)
               (if platform = ''ASP.NET Core''
                then ''microsoft/aspnetcore-build:'' @ number @ tag
                else ''microsoft/dotnet:'' @ number @ ''-sdk'' @ tag))"
proof -
  have formats: "imageFormats platform v =
      (if 2 < major sv \<or> (major sv = 2 \<and> 1 \<le> minor sv)
       then Inr (if platform = ''ASP.NET Core''
                  then ''mcr.microsoft.com/dotnet/core/aspnet:{0}.{1}{2}''
                  else ''mcr.microsoft.com/dotnet/core/runtime:{0}.{1}{2}'',
                  ''mcr.microsoft.com/dotnet/core/sdk:{0}.{1}{2}'')
       else Inr (if platform = ''ASP.NET Core''
                  then (''microsoft/aspnetcore:{0}.{1}{2}'', ''microsoft/aspnetcore-build:{0}.{1}{2}'')
                  else (''microsoft/dotnet:{0}.{1}-runtime{2}'', ''microsoft/dotnet:{0}.{1}-sdk{2}'')))"
    using assms(2) gte_2_1_0[OF assms(4)]
    by (auto simp: imageFormats_def LegacyAspNetCoreRuntimeImageFormat_def LegacyAspNetCoreSdkImageFormat_def
      LegacyDotNetCoreRuntimeImageFormat_def LegacyDotNetCoreSdkImageFormat_def
      DotNetCoreRuntimeImageFormat_def AspNetCoreRuntimeImageFormat_def DotNetCoreSdkImageFormat_def)
  show ?thesis
    unfolding Let_def genDockerFile_images[OF assms] formats
    using assms(2)
    by (auto simp: expected_base_image_def expected_sdk_image_def expected_tag_def image_name_def)
qed

lemma ncav_22: "netCoreAppVersion ''netcoreapp2.2'' = Inr ''2.2.0''"
  by (simp add: netCoreAppVersion_def extractRegExGroups_def netcoreapp_regex_def major_minor_regex_def defaultNetCoreVersion_def)

lemma ncav_11: "netCoreAppVersion ''netcoreapp1.1'' = Inr ''1.1.0''"
  by (simp add: netCoreAppVersion_def extractRegExGroups_def netcoreapp_regex_def major_minor_regex_def defaultNetCoreVersion_def)

lemma sv_22: "SemVer ''2.2.0'' = Inr \<lparr>major = 2, minor = 2, patch = 0\<rparr>"
  by (simp add: SemVer_def numeric_identifier_def to_number_def digit_value_def MAX_SAFE_INTEGER_def)

lemma sv_11: "SemVer ''1.1.0'' = Inr \<lparr>major = 1, minor = 1, patch = 0\<rparr>"
  by (simp add: SemVer_def numeric_identifier_def to_number_def digit_value_def MAX_SAFE_INTEGER_def)

theorem base_image_by_version_witness:
  "imageFormats ''ASP.NET Core'' ''2.2.0''
     = Inr (''mcr.microsoft.com/dotnet/core/aspnet:{0}.{1}{2}'', ''mcr.microsoft.com/dotnet/core/sdk:{0}.{1}{2}'')
   \<and> genDockerFile posix windows_1809_host expose_lines ''web/web'' ''ASP.NET Core''
         (Some ''Windows'') (Some [80, 443]) ''netcoreapp2.2'' ''web/web.csproj''
     = checkUnreplaced
         (substitute aspNetCoreWindowsTemplate
            ''mcr.microsoft.com/dotnet/core/aspnet:2.2-nanoserver-1809'' (expose_lines (Some [80, 443]))
            ''mcr.microsoft.com/dotnet/core/sdk:2.2-nanoserver-1809''
            ''web'' ''web.csproj'' ''web'' ''COPY [\"web/web.csproj\", \"web/\"]'')
   \<and> imageFormats ''.NET Core Console'' ''1.1.0''
     = Inr (''microsoft/dotnet:{0}.{1}-runtime{2}'', ''microsoft/dotnet:{0}.{1}-sdk{2}'')
   \<and> genDockerFile posix windows_1809_host expose_lines ''app/app'' ''.NET Core Console''
         (Some ''Linux'') None ''netcoreapp1.1'' ''app/app.csproj''
     = checkUnreplaced
         (substitute dotNetCoreConsoleLinuxTemplate
            ''microsoft/dotnet:1.1-runtime'' (expose_lines None) ''microsoft/dotnet:1.1-sdk''
            ''app'' ''app.csproj'' ''app'' ''COPY [\"app/app.csproj\", \"app/\"]'')"
  using base_image_by_version[where os = "Some ''Windows''" and platform = "''ASP.NET Core''"
      and version = "''netcoreapp2.2''" and v = "''2.2.0''"
      and sv = "\<lparr>major = 2, minor = 2, patch = 0\<rparr>" and host = windows_1809_host
      and path = posix and expose = expose_lines and service = "''web/web''"
      and ports = "Some [80, 443]" and artifact = "''web/web.csproj''"]
    base_image_by_version[where os = "Some ''Linux''" and platform = "''.NET Core Console''"
      and version = "''netcoreapp1.1''" and v = "''1.1.0''"
      and sv = "\<lparr>major = 1, minor = 1, patch = 0\<rparr>" and host = windows_1809_host
      and path = posix and expose = expose_lines and service = "''app/app''"
      and ports = None and artifact = "''app/app.csproj''"]
  by (simp add: Let_def ncav_22 ncav_11 sv_22 sv_11 toString_small GetWindowsImageTag_def
      windows_1809_host_def posix_def posix_dirname_def posix_basename_def)

text \<open>
  C2. A call of \<open>genDockerFile\<close> for a platform and a target it knows, with a version the
  semver library accepts. The tag is empty when the target is \<open>Linux\<close> or the version is
  earlier than 2.0.0 (its major number is below 2). Otherwise it is the tag of the host:
  one of five, \<open>-nanoserver-1903\<close> when the host is not Windows or is Windows 19H1 or
  newer, and else the one of the newest of RS5, RS4 and RS3 that the host has reached, or
  \<open>-nanoserver-sac2016\<close>. That tag ends both image names in the Dockerfile: each is what its
  format gives for an empty tag, followed by the tag.
\<close>

theorem windows_tag_by_target_and_version:
  assumes "os = Some ''Windows'' \<or> os = Some ''Linux''"
    and "platform = ''ASP.NET Core'' \<or> platform = ''.NET Core Console''"
    and "netCoreAppVersion version = Inr v" and "SemVer v = Inr sv"
  shows
    "let tag = (if os = Some ''Linux'' \<or> major sv < 2 then []
                else if \<not> isWindows host \<or> isWindows1019H1OrNewer host then ''-nanoserver-1903''
                else if isWindows10RS5OrNewer host then ''-nanoserver-1809''
                else if isWindows10RS4OrNewer host then ''-nanoserver-1803''
                else if isWindows10RS3OrNewer host then ''-nanoserver-1709''
                else ''-nanoserver-sac2016'')
     in tagForWindowsVersion host os v = Inr tag
      \<and> (\<exists>baseImageFormat sdkImageNameFormat base sdk.
            imageFormats platform v = Inr (baseImageFormat, sdkImageNameFormat)
          \<and> formatVersion baseImageFormat v [] = Inr base
          \<and> formatVersion sdkImageNameFormat v [] = Inr sdk
          \<and> formatVersion baseImageFormat v tag = Inr (base @ tag)
          \<and> formatVersion sdkImageNameFormat v tag = Inr (sdk @ tag)
          \<and> genDockerFile path host expose service platform os ports version artifact =
              checkUnreplaced
                (substitute
                   (if platform = ''ASP.NET Core''
                    then (if os = Some ''Linux'' then aspNetCoreLinuxTemplate
                          else aspNetCoreWindowsTemplate)
                    else (if os = Some ''Linux'' then dotNetCoreConsoleLinuxTemplate
                          else dotNetCoreConsoleWindowsTemplate))
                   (base @ tag) (expose ports) (sdk @ tag)
                   (path_dirname path service) (path_basename path artifact)
                   (path_basename path service)
                   (''COPY [\"'' @ artifact @ ''\", \"'' @ path_dirname path service @ ''/\"]'')))
      \<and> GetWindowsImageTag host \<in> {''-nanoserver-1903'', ''-nanoserver-1809'', ''-nanoserver-1803'',
             ''-nanoserver-1709'', ''-nanoserver-sac2016''}
      \<and> (os = Some ''Windows'' \<and> 2 \<le> major sv \<longrightarrow> tag = GetWindowsImageTag host)"
proof -
  let ?tag = "expected_tag host os sv"
  have tag: "tagForWindowsVersion host os v = Inr ?tag"
    using lt_2_0_0[OF assms(4)] by (simp add: tagForWindowsVersion_def expected_tag_def)
  have tp: "CHR ''$'' \<notin> set ?tag" by (rule expected_tag_plain)
  have none: "CHR ''$'' \<notin> set []" by simp
  note names = formatVersion_formats[OF assms(4) tp] formatVersion_formats[OF assms(4) none]
  have "\<exists>bf sf. imageFormats platform v = Inr (bf, sf)
          \<and> formatVersion bf v [] = Inr (expected_base_image platform sv [])
          \<and> formatVersion sf v [] = Inr (expected_sdk_image platform sv [])
          \<and> formatVersion bf v ?tag = Inr (expected_base_image platform sv [] @ ?tag)
          \<and> formatVersion sf v ?tag = Inr (expected_sdk_image platform sv [] @ ?tag)"
    using assms(2) gte_2_1_0[OF assms(4)]
    by (cases "2 < major sv \<or> (major sv = 2 \<and> 1 \<le> minor sv)")
       (auto simp: imageFormats_def names expected_base_image_def expected_sdk_image_def
          image_name_def)
  moreover have "expected_base_image platform sv ?tag = expected_base_image platform sv [] @ ?tag"
    "expected_sdk_image platform sv ?tag = expected_sdk_image platform sv [] @ ?tag"
    by (simp_all add: expected_base_image_def expected_sdk_image_def image_name_def)
  ultimately have images: "\<exists>baseImageFormat sdkImageNameFormat base sdk.
            imageFormats platform v = Inr (baseImageFormat, sdkImageNameFormat)
          \<and> formatVersion baseImageFormat v [] = Inr base
          \<and> formatVersion sdkImageNameFormat v [] = Inr sdk
          \<and> formatVersion baseImageFormat v ?tag = Inr (base @ ?tag)
          \<and> formatVersion sdkImageNameFormat v ?tag = Inr (sdk @ ?tag)
          \<and> genDockerFile path host expose service platform os ports version artifact =
              checkUnreplaced
                (substitute
                   (if platform = ''ASP.NET Core''
                    then (if os = Some ''Linux'' then aspNetCoreLinuxTemplate
                          else aspNetCoreWindowsTemplate)
                    else (if os = Some ''Linux'' then dotNetCoreConsoleLinuxTemplate
                          else dotNetCoreConsoleWindowsTemplate))
                   (base @ ?tag) (expose ports) (sdk @ ?tag)
                   (path_dirname path service) (path_basename path artifact)
                   (path_basename path service)
                   (''COPY [\"'' @ artifact @ ''\", \"'' @ path_dirname path service @ ''/\"]''))"
    unfolding genDockerFile_images[OF assms] by metis
  have eq: "?tag = (if os = Some ''Linux'' \<or> major sv < 2 then []
                else if \<not> isWindows host \<or> isWindows1019H1OrNewer host then ''-nanoserver-1903''
                else if isWindows10RS5OrNewer host then ''-nanoserver-1809''
                else if isWindows10RS4OrNewer host then ''-nanoserver-1803''
                else if isWindows10RS3OrNewer host then ''-nanoserver-1709''
                else ''-nanoserver-sac2016'')"
    by (simp add: expected_tag_def GetWindowsImageTag_def)
  have last: "os = Some ''Windows'' \<and> 2 \<le> major sv \<longrightarrow> ?tag = GetWindowsImageTag host"
    by (auto simp: expected_tag_def)
  from tag images GetWindowsImageTag_values[of host] last show ?thesis
    unfolding Let_def eq[symmetric] by blast
qed

theorem windows_tag_by_target_and_version_witness:
  "tagForWindowsVersion windows_1809_host (Some ''Windows'') ''2.2.0'' = Inr ''-nanoserver-1809''
   \<and> genDockerFile posix windows_1809_host expose_lines ''web/web'' ''ASP.NET Core''
         (Some ''Windows'') (Some [80, 443]) ''netcoreapp2.2'' ''web/web.csproj''
     = checkUnreplaced
         (substitute aspNetCoreWindowsTemplate
            ''mcr.microsoft.com/dotnet/core/aspnet:2.2-nanoserver-1809'' (expose_lines (Some [80, 443]))
            ''mcr.microsoft.com/dotnet/core/sdk:2.2-nanoserver-1809''
            ''web'' ''web.csproj'' ''web'' ''COPY [\"web/web.csproj\", \"web/\"]'')
   \<and> tagForWindowsVersion windows_1809_host (Some ''Linux'') ''2.2.0'' = Inr []
   \<and> tagForWindowsVersion windows_1809_host (Some ''Windows'') ''1.1.0'' = Inr []
   \<and> tagForWindowsVersion linux_host (Some ''Windows'') ''2.2.0'' = Inr ''-nanoserver-1903''"
proof -
  note w = windows_tag_by_target_and_version[where os = "Some ''Windows''"
      and platform = "''ASP.NET Core''" and version = "''netcoreapp2.2''" and v = "''2.2.0''"
      and sv = "\<lparr>major = 2, minor = 2, patch = 0\<rparr>" and host = windows_1809_host
      and path = posix and expose = expose_lines and service = "''web/web''"
      and ports = "Some [80, 443]" and artifact = "''web/web.csproj''", unfolded Let_def]
  have f: "imageFormats ''ASP.NET Core'' ''2.2.0''
             = Inr (AspNetCoreRuntimeImageFormat, DotNetCoreSdkImageFormat)"
    using gte_2_1_0[OF sv_22] by (simp add: imageFormats_def)
  have n: "formatVersion AspNetCoreRuntimeImageFormat ''2.2.0'' []
             = Inr ''mcr.microsoft.com/dotnet/core/aspnet:2.2''"
    "formatVersion DotNetCoreSdkImageFormat ''2.2.0'' []
             = Inr ''mcr.microsoft.com/dotnet/core/sdk:2.2''"
    using formatVersion_formats(6,7)[OF sv_22, of "[]"]
    by (simp_all add: image_name_def toString_small)
  have 1: "tagForWindowsVersion windows_1809_host (Some ''Windows'') ''2.2.0'' = Inr ''-nanoserver-1809''
   \<and> genDockerFile posix windows_1809_host expose_lines ''web/web'' ''ASP.NET Core''
         (Some ''Windows'') (Some [80, 443]) ''netcoreapp2.2'' ''web/web.csproj''
     = checkUnreplaced
         (substitute aspNetCoreWindowsTemplate
            ''mcr.microsoft.com/dotnet/core/aspnet:2.2-nanoserver-1809'' (expose_lines (Some [80, 443]))
            ''mcr.microsoft.com/dotnet/core/sdk:2.2-nanoserver-1809''
            ''web'' ''web.csproj'' ''web'' ''COPY [\"web/web.csproj\", \"web/\"]'')"
    using w
    by (auto simp: ncav_22 sv_22 f n windows_1809_host_def posix_def posix_dirname_def
        posix_basename_def)
  from windows_tag_by_target_and_version[where os = "Some ''Linux''"
      and platform = "''ASP.NET Core''" and version = "''netcoreapp2.2''" and v = "''2.2.0''"
      and sv = "\<lparr>major = 2, minor = 2, patch = 0\<rparr>" and host = windows_1809_host
      and path = posix and expose = expose_lines and service = "''web/web''"
      and ports = "Some [80, 443]" and artifact = "''web/web.csproj''", unfolded Let_def]
  have 2: "tagForWindowsVersion windows_1809_host (Some ''Linux'') ''2.2.0'' = Inr []"
    by (simp add: ncav_22 sv_22)
  from windows_tag_by_target_and_version[where os = "Some ''Windows''"
      and platform = "''ASP.NET Core''" and version = "''netcoreapp1.1''" and v = "''1.1.0''"
      and sv = "\<lparr>major = 1, minor = 1, patch = 0\<rparr>" and host = windows_1809_host
      and path = posix and expose = expose_lines and service = "''web/web''"
      and ports = "Some [80, 443]" and artifact = "''web/web.csproj''", unfolded Let_def]
  have 3: "tagForWindowsVersion windows_1809_host (Some ''Windows'') ''1.1.0'' = Inr []"
    by (simp add: ncav_11 sv_11)
  from windows_tag_by_target_and_version[where os = "Some ''Windows''"
      and platform = "''ASP.NET Core''" and version = "''netcoreapp2.2''" and v = "''2.2.0''"
      and sv = "\<lparr>major = 2, minor = 2, patch = 0\<rparr>" and host = linux_host
      and path = posix and expose = expose_lines and service = "''web/web''"
      and ports = "Some [80, 443]" and artifact = "''web/web.csproj''", unfolded Let_def]
  have 4: "tagForWindowsVersion linux_host (Some ''Windows'') ''2.2.0'' = Inr ''-nanoserver-1903''"
    by (simp add: ncav_22 sv_22 linux_host_def)
  from 1 2 3 4 show ?thesis by blast
qed

section \<open>The version of the TargetFramework\<close>

lemma split_dots_plain: "CHR ''.'' \<notin> set a \<Longrightarrow> split_dots a = [a]"
  by (induction a) auto

lemma split_dots_append:
  "CHR ''.'' \<notin> set a \<Longrightarrow> split_dots (a @ CHR ''.'' # b) = a # split_dots b"
  by (induction a) (auto split: list.splits)

lemma netcoreapp_regex_iff:
  "netcoreapp_regex version = None
     \<longleftrightarrow> \<not> (\<exists>g. g \<noteq> [] \<and> set g \<subseteq> set ''0123456789.'' \<and> version = ''netcoreapp'' @ g)"
proof
  assume n: "netcoreapp_regex version = None"
  show "\<not> (\<exists>g. g \<noteq> [] \<and> set g \<subseteq> set ''0123456789.'' \<and> version = ''netcoreapp'' @ g)"
  proof
    assume "\<exists>g. g \<noteq> [] \<and> set g \<subseteq> set ''0123456789.'' \<and> version = ''netcoreapp'' @ g"
    then obtain g where g: "g \<noteq> []" "set g \<subseteq> set ''0123456789.''" "version = ''netcoreapp'' @ g"
      by blast
    from g(3) have "prefix ''netcoreapp'' version" "drop 10 version = g" by simp_all
    with g(1,2) have "netcoreapp_regex version = Some [g]"
      unfolding netcoreapp_regex_def by (simp only: if_True simp_thms)
    with n show False by simp
  qed
next
  assume a: "\<not> (\<exists>g. g \<noteq> [] \<and> set g \<subseteq> set ''0123456789.'' \<and> version = ''netcoreapp'' @ g)"
  show "netcoreapp_regex version = None"
  proof (rule ccontr)
    assume "netcoreapp_regex version \<noteq> None"
    then have p: "prefix ''netcoreapp'' version" and d: "drop 10 version \<noteq> []"
      and s: "set (drop 10 version) \<subseteq> set ''0123456789.''"
      unfolding netcoreapp_regex_def by (meson option.distinct)+
    from p obtain g where "version = ''netcoreapp'' @ g" by (auto simp: prefix_def)
    moreover from this have "drop 10 version = g" by simp
    ultimately show False using a d s by metis
  qed
qed

lemma netCoreAppVersion_default:
  "netcoreapp_regex version = None \<Longrightarrow> netCoreAppVersion version = Inr ''2.1.0''"
  by (simp add: netCoreAppVersion_def extractRegExGroups_def defaultNetCoreVersion_def
      major_minor_regex_def)

lemma digits_no_dot: "set a \<subseteq> set ''0123456789'' \<Longrightarrow> CHR ''.'' \<notin> set a"
proof -
  have "CHR ''.'' \<notin> set ''0123456789''" by simp
  then show "set a \<subseteq> set ''0123456789'' \<Longrightarrow> CHR ''.'' \<notin> set a" by blast
qed

lemma digits_in_digits_and_dots:
  "set a \<subseteq> set ''0123456789'' \<Longrightarrow> set a \<subseteq> set ''0123456789.''"
proof -
  have "set ''0123456789'' \<subseteq> set ''0123456789.''" by simp
  then show "set a \<subseteq> set ''0123456789'' \<Longrightarrow> set a \<subseteq> set ''0123456789.''" by blast
qed

lemma set_joined: "set a \<subseteq> D \<Longrightarrow> set b \<subseteq> D \<Longrightarrow> c \<in> D \<Longrightarrow> set (a @ [c] @ b) \<subseteq> D"
  by auto

lemma netCoreAppVersion_major_minor:
  assumes "a \<noteq> []" "set a \<subseteq> set ''0123456789''" "b \<noteq> []" "set b \<subseteq> set ''0123456789''"
  shows "netCoreAppVersion (''netcoreapp'' @ a @ ''.'' @ b) = Inr (a @ ''.'' @ b @ ''.0'')"
proof -
  from assms have da: "CHR ''.'' \<notin> set a" and db: "CHR ''.'' \<notin> set b"
    by (simp_all add: digits_no_dot)
  have "CHR ''.'' \<in> set ''0123456789.''" by simp
  with assms(2,4)[THEN digits_in_digits_and_dots]
  have g: "set (a @ ''.'' @ b) \<subseteq> set ''0123456789.''"
    by (intro set_joined) simp_all
  have "prefix ''netcoreapp'' (''netcoreapp'' @ a @ ''.'' @ b)"
    "drop 10 (''netcoreapp'' @ a @ ''.'' @ b) = a @ ''.'' @ b" by simp_all
  with g assms(1) have "netcoreapp_regex (''netcoreapp'' @ a @ ''.'' @ b) = Some [a @ ''.'' @ b]"
    unfolding netcoreapp_regex_def by (simp only: if_True simp_thms append_is_Nil_conv)
  moreover have "major_minor_regex (a @ ''.'' @ b) = Some []"
    using split_dots_append[OF da, of b] split_dots_plain[OF db] assms(1,3)
    by (simp add: major_minor_regex_def)
  ultimately show ?thesis by (simp add: netCoreAppVersion_def extractRegExGroups_def)
qed

lemma genDockerFile_version:
  "netCoreAppVersion version = netCoreAppVersion version' \<Longrightarrow>
   genDockerFile path host expose service platform os ports version artifact
     = genDockerFile path host expose service platform os ports version' artifact"
  by (simp add: genDockerFile_def)

lemma ncav_21: "netCoreAppVersion ''netcoreapp2.1'' = Inr ''2.1.0''"
  by (simp add: netCoreAppVersion_def extractRegExGroups_def netcoreapp_regex_def major_minor_regex_def defaultNetCoreVersion_def)

lemma netCoreAppVersion_no_match:
  "\<not> (\<exists>g. g \<noteq> [] \<and> set g \<subseteq> set ''0123456789.'' \<and> version = ''netcoreapp'' @ g)
   \<Longrightarrow> netCoreAppVersion version = Inr ''2.1.0''"
  using netcoreapp_regex_iff[of version] netCoreAppVersion_default[of version] by blast

lemma netCoreAppVersion_empty: "netCoreAppVersion [] = Inr ''2.1.0''"
  by (rule netCoreAppVersion_default) (simp add: netcoreapp_regex_def)

lemma split_dots_three:
  assumes "set a \<subseteq> set ''0123456789''" "set b \<subseteq> set ''0123456789''"
  shows "split_dots (a @ ''.'' @ b @ ''.0'') = [a, b, ''0'']"
proof -
  from assms have da: "CHR ''.'' \<notin> set a" and db: "CHR ''.'' \<notin> set b"
    by (simp_all add: digits_no_dot)
  have "split_dots (b @ CHR ''.'' # ''0'') = [b, ''0'']"
    using split_dots_append[OF db, of "''0''"] by simp
  with split_dots_append[OF da, of "b @ ''.0''"] show ?thesis by simp
qed

lemma netCoreAppVersion_patch:
  assumes "a \<noteq> []" "set a \<subseteq> set ''0123456789''" "b \<noteq> []" "set b \<subseteq> set ''0123456789''"
  shows "netCoreAppVersion (''netcoreapp'' @ a @ ''.'' @ b @ ''.0'') = Inr (a @ ''.'' @ b @ ''.0'')"
proof -
  have d: "CHR ''.'' \<in> set ''0123456789.''" "set ''0'' \<subseteq> set ''0123456789.''" by simp_all
  from assms(2,4)[THEN digits_in_digits_and_dots]
  have "set (a @ ''.'' @ b) \<subseteq> set ''0123456789.''"
    by (intro set_joined) (simp_all add: d)
  then have g: "set (a @ ''.'' @ b @ ''.0'') \<subseteq> set ''0123456789.''"
    using d by simp
  have "prefix ''netcoreapp'' (''netcoreapp'' @ a @ ''.'' @ b @ ''.0'')"
    "drop 10 (''netcoreapp'' @ a @ ''.'' @ b @ ''.0'') = a @ ''.'' @ b @ ''.0''" by simp_all
  with g assms(1)
  have "netcoreapp_regex (''netcoreapp'' @ a @ ''.'' @ b @ ''.0'') = Some [a @ ''.'' @ b @ ''.0'']"
    unfolding netcoreapp_regex_def by (simp only: if_True simp_thms append_is_Nil_conv)
  moreover have "major_minor_regex (a @ ''.'' @ b @ ''.0'') = None"
    using split_dots_three[OF assms(2,4)] by (simp add: major_minor_regex_def)
  ultimately show ?thesis by (simp add: netCoreAppVersion_def extractRegExGroups_def)
qed

lemma SemVer_patch:
  assumes "set a \<subseteq> set ''0123456789''" "set b \<subseteq> set ''0123456789''"
    and "SemVer (a @ ''.'' @ b @ ''.0'') = Inr sv"
  shows "sv = \<lparr>major = to_number a, minor = to_number b, patch = 0\<rparr>"
proof -
  have z: "to_number ''0'' = 0" by (simp add: to_number_def digit_value_def)
  from assms(3) show ?thesis
    unfolding SemVer_def split_dots_three[OF assms(1,2)]
    by (simp add: z split: if_splits)
qed

text \<open>
  C10. A TargetFramework that is not \<open>netcoreapp\<close> followed by one or more digits and
  dots is to \<open>genDockerFile\<close> what \<open>netcoreapp2.1\<close> is: the version is \<open>2.1.0\<close>, the default
  \<open>2.1\<close> with its patch component, and for a platform and a target it knows the two images
  of the Dockerfile are those of the Microsoft Container Registry for 2.1, with the tag.
  When the project file has no TargetFramework element, \<open>scaffoldNetCore\<close> calls
  \<open>genDockerFile\<close> with the empty string, which is such a TargetFramework: the error of
  that call is the error of \<open>scaffoldNetCore\<close>, and its Dockerfile the one in the files
  returned. A version of two components (digits, a dot, digits) is to \<open>genDockerFile\<close> what
  the same version with \<open>.0\<close> after it is; that is the string the semver library gets,
  whose error is the error of the call and whose numbers are the two components and 0.
\<close>

theorem version_defaults:
  "(\<not> (\<exists>g. g \<noteq> [] \<and> set g \<subseteq> set ''0123456789.'' \<and> version = ''netcoreapp'' @ g) \<longrightarrow>
      netCoreAppVersion version = Inr ''2.1.0''
    \<and> genDockerFile path host expose service platform os ports version artifact
        = genDockerFile path host expose service platform os ports ''netcoreapp2.1'' artifact
    \<and> ((os = Some ''Windows'' \<or> os = Some ''Linux'')
        \<and> (platform = ''ASP.NET Core'' \<or> platform = ''.NET Core Console'') \<longrightarrow>
          genDockerFile path host expose service platform os ports version artifact =
            checkUnreplaced
              (substitute
                 (if platform = ''ASP.NET Core''
                  then (if os = Some ''Linux'' then aspNetCoreLinuxTemplate
                        else aspNetCoreWindowsTemplate)
                  else (if os = Some ''Linux'' then dotNetCoreConsoleLinuxTemplate
                        else dotNetCoreConsoleWindowsTemplate))
                 ((if platform = ''ASP.NET Core''
                   then ''mcr.microsoft.com/dotnet/core/aspnet:2.1''
                   else ''mcr.microsoft.com/dotnet/core/runtime:2.1'')
                  @ (if os = Some ''Linux'' then [] else GetWindowsImageTag host))
                 (expose ports)
                 (''mcr.microsoft.com/dotnet/core/sdk:2.1''
                  @ (if os = Some ''Linux'' then [] else GetWindowsImageTag host))
                 (path_dirname path service) (path_basename path artifact)
                 (path_basename path service)
                 (''COPY [\"'' @ artifact @ ''\", \"'' @ path_dirname path service @ ''/\"]''))))
   \<and> (chosenOS ctx = Inr chosen \<and> chosenPorts ctx = Inr chosenports
      \<and> findCSProjOrFSProjFile w (Some (ctx_rootFolder ctx)) = Inr projectFile
      \<and> readFile w (path_join path (ctx_rootFolder ctx) projectFile) = Inr projFileContents
      \<and> target_framework_regex projFileContents = None \<longrightarrow>
        (\<forall>e. genDockerFile path host (getExposeStatements w)
                (serviceNameAndPathRelative path ctx projectFile) (ctx_platform ctx) chosen
                chosenports [] (workspaceRelativeProjectFileName path ctx projectFile) = Inl e
              \<longrightarrow> scaffoldNetCore path host w ctx = Inl e)
      \<and> (\<forall>files. scaffoldNetCore path host w ctx = Inr files \<longrightarrow>
            (\<exists>dockerFile.
               genDockerFile path host (getExposeStatements w)
                 (serviceNameAndPathRelative path ctx projectFile) (ctx_platform ctx) chosen
                 chosenports [] (workspaceRelativeProjectFileName path ctx projectFile)
                 = Inr dockerFile
             \<and> files = scaffoldFiles path w ctx projectFile (removeEmptyLines dockerFile)))
      \<and> genDockerFile path host (getExposeStatements w)
            (serviceNameAndPathRelative path ctx projectFile) (ctx_platform ctx) chosen
            chosenports [] (workspaceRelativeProjectFileName path ctx projectFile)
          = genDockerFile path host (getExposeStatements w)
              (serviceNameAndPathRelative path ctx projectFile) (ctx_platform ctx) chosen
              chosenports ''netcoreapp2.1'' (workspaceRelativeProjectFileName path ctx projectFile))
   \<and> (a \<noteq> [] \<and> set a \<subseteq> set ''0123456789'' \<and> b \<noteq> [] \<and> set b \<subseteq> set ''0123456789'' \<longrightarrow>
        netCoreAppVersion (''netcoreapp'' @ a @ ''.'' @ b) = Inr (a @ ''.'' @ b @ ''.0'')
      \<and> genDockerFile path host expose service platform os ports (''netcoreapp'' @ a @ ''.'' @ b)
            artifact
          = genDockerFile path host expose service platform os ports
              (''netcoreapp'' @ a @ ''.'' @ b @ ''.0'') artifact
      \<and> (\<forall>e. (os = Some ''Windows'' \<or> os = Some ''Linux'')
              \<and> SemVer (a @ ''.'' @ b @ ''.0'') = Inl e \<longrightarrow>
              genDockerFile path host expose service platform os ports
                (''netcoreapp'' @ a @ ''.'' @ b) artifact = Inl e)
      \<and> (\<forall>sv. SemVer (a @ ''.'' @ b @ ''.0'') = Inr sv \<longrightarrow>
              sv = \<lparr>major = to_number a, minor = to_number b, patch = 0\<rparr>))"
proof -
  have sv21: "SemVer ''2.1.0'' = Inr \<lparr>major = 2, minor = 1, patch = 0\<rparr>" by (rule SemVer_2_1_0)
  have 1: "netCoreAppVersion version = Inr ''2.1.0''
    \<and> genDockerFile path host expose service platform os ports version artifact
        = genDockerFile path host expose service platform os ports ''netcoreapp2.1'' artifact
    \<and> ((os = Some ''Windows'' \<or> os = Some ''Linux'')
        \<and> (platform = ''ASP.NET Core'' \<or> platform = ''.NET Core Console'') \<longrightarrow>
          genDockerFile path host expose service platform os ports version artifact =
            checkUnreplaced
              (substitute
                 (if platform = ''ASP.NET Core''
                  then (if os = Some ''Linux'' then aspNetCoreLinuxTemplate
                        else aspNetCoreWindowsTemplate)
                  else (if os = Some ''Linux'' then dotNetCoreConsoleLinuxTemplate
                        else dotNetCoreConsoleWindowsTemplate))
                 ((if platform = ''ASP.NET Core''
                   then ''mcr.microsoft.com/dotnet/core/aspnet:2.1''
                   else ''mcr.microsoft.com/dotnet/core/runtime:2.1'')
                  @ (if os = Some ''Linux'' then [] else GetWindowsImageTag host))
                 (expose ports)
                 (''mcr.microsoft.com/dotnet/core/sdk:2.1''
                  @ (if os = Some ''Linux'' then [] else GetWindowsImageTag host))
                 (path_dirname path service) (path_basename path artifact)
                 (path_basename path service)
                 (''COPY [\"'' @ artifact @ ''\", \"'' @ path_dirname path service @ ''/\"]'')))"
    if n: "\<not> (\<exists>g. g \<noteq> [] \<and> set g \<subseteq> set ''0123456789.'' \<and> version = ''netcoreapp'' @ g)"
  proof -
    note v = netCoreAppVersion_no_match[OF n]
    have same: "genDockerFile path host expose service platform os ports version artifact
        = genDockerFile path host expose service platform os ports ''netcoreapp2.1'' artifact"
      by (rule genDockerFile_version) (simp add: v ncav_21)
    have images: "genDockerFile path host expose service platform os ports version artifact =
            checkUnreplaced
              (substitute
                 (if platform = ''ASP.NET Core''
                  then (if os = Some ''Linux'' then aspNetCoreLinuxTemplate
                        else aspNetCoreWindowsTemplate)
                  else (if os = Some ''Linux'' then dotNetCoreConsoleLinuxTemplate
                        else dotNetCoreConsoleWindowsTemplate))
                 ((if platform = ''ASP.NET Core''
                   then ''mcr.microsoft.com/dotnet/core/aspnet:2.1''
                   else ''mcr.microsoft.com/dotnet/core/runtime:2.1'')
                  @ (if os = Some ''Linux'' then [] else GetWindowsImageTag host))
                 (expose ports)
                 (''mcr.microsoft.com/dotnet/core/sdk:2.1''
                  @ (if os = Some ''Linux'' then [] else GetWindowsImageTag host))
                 (path_dirname path service) (path_basename path artifact)
                 (path_basename path service)
                 (''COPY [\"'' @ artifact @ ''\", \"'' @ path_dirname path service @ ''/\"]''))"
      if os: "os = Some ''Windows'' \<or> os = Some ''Linux''"
        and platform: "platform = ''ASP.NET Core'' \<or> platform = ''.NET Core Console''"
      unfolding genDockerFile_images[OF os platform v sv21]
      using platform
      by (auto simp: expected_base_image_def expected_sdk_image_def expected_tag_def
          image_name_def toString_small)
    from v same images show ?thesis by blast
  qed
  have 2: "(\<forall>e. genDockerFile path host (getExposeStatements w)
                (serviceNameAndPathRelative path ctx projectFile) (ctx_platform ctx) chosen
                chosenports [] (workspaceRelativeProjectFileName path ctx projectFile) = Inl e
              \<longrightarrow> scaffoldNetCore path host w ctx = Inl e)
      \<and> (\<forall>files. scaffoldNetCore path host w ctx = Inr files \<longrightarrow>
            (\<exists>dockerFile.
               genDockerFile path host (getExposeStatements w)
                 (serviceNameAndPathRelative path ctx projectFile) (ctx_platform ctx) chosen
                 chosenports [] (workspaceRelativeProjectFileName path ctx projectFile)
                 = Inr dockerFile
             \<and> files = scaffoldFiles path w ctx projectFile (removeEmptyLines dockerFile)))
      \<and> genDockerFile path host (getExposeStatements w)
            (serviceNameAndPathRelative path ctx projectFile) (ctx_platform ctx) chosen
            chosenports [] (workspaceRelativeProjectFileName path ctx projectFile)
          = genDockerFile path host (getExposeStatements w)
              (serviceNameAndPathRelative path ctx projectFile) (ctx_platform ctx) chosen
              chosenports ''netcoreapp2.1'' (workspaceRelativeProjectFileName path ctx projectFile)"
    if s: "chosenOS ctx = Inr chosen" "chosenPorts ctx = Inr chosenports"
      "findCSProjOrFSProjFile w (Some (ctx_rootFolder ctx)) = Inr projectFile"
      "readFile w (path_join path (ctx_rootFolder ctx) projectFile) = Inr projFileContents"
      and t: "target_framework_regex projFileContents = None"
  proof -
    let ?G = "genDockerFile path host (getExposeStatements w)
                (serviceNameAndPathRelative path ctx projectFile) (ctx_platform ctx) chosen
                chosenports [] (workspaceRelativeProjectFileName path ctx projectFile)"
    from t have g: "extractRegExGroups projFileContents target_framework_regex [[]] = [[]]"
      by (simp add: extractRegExGroups_def)
    have err: "scaffoldNetCore path host w ctx = Inl e" if "?G = Inl e" for e
      using s g that by (simp add: scaffoldNetCore_def)
    have ok: "\<exists>dockerFile. ?G = Inr dockerFile
             \<and> files = scaffoldFiles path w ctx projectFile (removeEmptyLines dockerFile)"
      if r: "scaffoldNetCore path host w ctx = Inr files" for files
    proof (cases ?G)
      case (Inl e)
      with err r show ?thesis by simp
    next
      case (Inr d)
      with r s g have "files = scaffoldFiles path w ctx projectFile (removeEmptyLines d)"
        by (simp add: scaffoldNetCore_def Let_def split: if_splits sum.splits)
      with Inr show ?thesis by blast
    qed
    have same: "?G = genDockerFile path host (getExposeStatements w)
              (serviceNameAndPathRelative path ctx projectFile) (ctx_platform ctx) chosen
              chosenports ''netcoreapp2.1'' (workspaceRelativeProjectFileName path ctx projectFile)"
      by (rule genDockerFile_version) (simp add: netCoreAppVersion_empty ncav_21)
    from err ok same show ?thesis by blast
  qed
  have 3: "netCoreAppVersion (''netcoreapp'' @ a @ ''.'' @ b) = Inr (a @ ''.'' @ b @ ''.0'')
      \<and> genDockerFile path host expose service platform os ports (''netcoreapp'' @ a @ ''.'' @ b)
            artifact
          = genDockerFile path host expose service platform os ports
              (''netcoreapp'' @ a @ ''.'' @ b @ ''.0'') artifact
      \<and> (\<forall>e. (os = Some ''Windows'' \<or> os = Some ''Linux'')
              \<and> SemVer (a @ ''.'' @ b @ ''.0'') = Inl e \<longrightarrow>
              genDockerFile path host expose service platform os ports
                (''netcoreapp'' @ a @ ''.'' @ b) artifact = Inl e)
      \<and> (\<forall>sv. SemVer (a @ ''.'' @ b @ ''.0'') = Inr sv \<longrightarrow>
              sv = \<lparr>major = to_number a, minor = to_number b, patch = 0\<rparr>)"
    if d: "a \<noteq> []" "set a \<subseteq> set ''0123456789''" "b \<noteq> []" "set b \<subseteq> set ''0123456789''"
  proof -
    note v = netCoreAppVersion_major_minor[OF d]
    have same: "genDockerFile path host expose service platform os ports
          (''netcoreapp'' @ a @ ''.'' @ b) artifact
        = genDockerFile path host expose service platform os ports
              (''netcoreapp'' @ a @ ''.'' @ b @ ''.0'') artifact"
      by (rule genDockerFile_version) (simp only: v netCoreAppVersion_patch[OF d])
    have err: "genDockerFile path host expose service platform os ports
                (''netcoreapp'' @ a @ ''.'' @ b) artifact = Inl e"
      if "os = Some ''Windows'' \<or> os = Some ''Linux''" "SemVer (a @ ''.'' @ b @ ''.0'') = Inl e"
      for e
      using that unfolding genDockerFile_def Let_def v
      by (auto simp: imageFormats_def gte_def)
    from v same err SemVer_patch[OF d(2,4)] show ?thesis by blast
  qed
  from 1 2 3 show ?thesis by blast
qed

theorem version_defaults_witness:
  "genDockerFile posix windows_1809_host expose_lines ''web/web'' ''ASP.NET Core''
       (Some ''Windows'') (Some [80, 443]) ''net5.0'' ''web/web.csproj''
     = checkUnreplaced
         (substitute aspNetCoreWindowsTemplate
            ''mcr.microsoft.com/dotnet/core/aspnet:2.1-nanoserver-1809'' (expose_lines (Some [80, 443]))
            ''mcr.microsoft.com/dotnet/core/sdk:2.1-nanoserver-1809''
            ''web'' ''web.csproj'' ''web'' ''COPY [\"web/web.csproj\", \"web/\"]'')
   \<and> genDockerFile posix windows_1809_host expose_lines ''web/web'' ''ASP.NET Core'' (Some ''Linux'')
         (Some [80, 443]) [] ''web/web.csproj''
     = genDockerFile posix windows_1809_host expose_lines ''web/web'' ''ASP.NET Core''
         (Some ''Linux'') (Some [80, 443]) ''netcoreapp2.1'' ''web/web.csproj''
   \<and> netCoreAppVersion ''netcoreapp3.1'' = Inr ''3.1.0''
   \<and> genDockerFile posix windows_1809_host expose_lines ''web/web'' ''ASP.NET Core''
         (Some ''Windows'') (Some [80, 443]) ''netcoreapp3.1'' ''web/web.csproj''
     = genDockerFile posix windows_1809_host expose_lines ''web/web'' ''ASP.NET Core''
         (Some ''Windows'') (Some [80, 443]) ''netcoreapp3.1.0'' ''web/web.csproj''"
proof -
  let ?w = "example_world\<lparr>readFile := (\<lambda>file. Inr ''<Project></Project>'')\<rparr>"
  have n: "netcoreapp_regex ''net5.0'' = None" by (simp add: netcoreapp_regex_def)
  have t: "target_framework_regex ''<Project></Project>'' = None" by simp
  have c: "chosenOS example_context = Inr (Some ''Linux'')"
    "chosenPorts example_context = Inr (Some [80, 443])"
    "findCSProjOrFSProjFile ?w (Some (ctx_rootFolder example_context)) = Inr ''web/web.csproj''"
    "readFile ?w (path_join posix (ctx_rootFolder example_context) ''web/web.csproj'')
       = Inr ''<Project></Project>''"
    by (simp_all add: chosenOS_def chosenPorts_def example_context_def example_world_def
        findCSProjOrFSProjFile_def)
  have s: "serviceNameAndPathRelative posix example_context ''web/web.csproj'' = ''web/web''"
    by (simp add: serviceNameAndPathRelative_def example_context_def posix_def posix_extname_def
        posix_basename_def slice_0_minus_def Let_def)
  have a: "workspaceRelativeProjectFileName posix example_context ''web/web.csproj'' = ''web/web.csproj''"
    by (simp add: workspaceRelativeProjectFileName_def example_context_def posix_def
        join_plain_def relative_plain_def)
  have p: "ctx_platform example_context = ''ASP.NET Core''"
    "getExposeStatements ?w = expose_lines"
    by (simp_all add: example_context_def example_world_def)
  note th = version_defaults[where version = "''net5.0''" and path = posix and host = windows_1809_host
      and expose = expose_lines and service = "''web/web''" and platform = "''ASP.NET Core''"
      and os = "Some ''Windows''" and ports = "Some [80, 443]" and artifact = "''web/web.csproj''"
      and ctx = example_context and chosen = "Some ''Linux''" and chosenports = "Some [80, 443]"
      and w = ?w and projectFile = "''web/web.csproj''" and projFileContents = "''<Project></Project>''"
      and a = "''3''" and b = "''1''"]
  have 1: "genDockerFile posix windows_1809_host expose_lines ''web/web'' ''ASP.NET Core''
       (Some ''Windows'') (Some [80, 443]) ''net5.0'' ''web/web.csproj''
     = checkUnreplaced
         (substitute aspNetCoreWindowsTemplate
            ''mcr.microsoft.com/dotnet/core/aspnet:2.1-nanoserver-1809'' (expose_lines (Some [80, 443]))
            ''mcr.microsoft.com/dotnet/core/sdk:2.1-nanoserver-1809''
            ''web'' ''web.csproj'' ''web'' ''COPY [\"web/web.csproj\", \"web/\"]'')"
    using th[THEN conjunct1, THEN mp, OF n[unfolded netcoreapp_regex_iff], THEN conjunct2,
        THEN conjunct2]
    by (simp add: GetWindowsImageTag_def windows_1809_host_def posix_def posix_dirname_def
        posix_basename_def)
  have 2: "genDockerFile posix windows_1809_host expose_lines ''web/web'' ''ASP.NET Core''
         (Some ''Linux'') (Some [80, 443]) [] ''web/web.csproj''
     = genDockerFile posix windows_1809_host expose_lines ''web/web'' ''ASP.NET Core''
         (Some ''Linux'') (Some [80, 443]) ''netcoreapp2.1'' ''web/web.csproj''"
    using th[THEN conjunct2, THEN conjunct1] t c by (simp add: s a p)
  have 3: "netCoreAppVersion ''netcoreapp3.1'' = Inr ''3.1.0''
   \<and> genDockerFile posix windows_1809_host expose_lines ''web/web'' ''ASP.NET Core''
         (Some ''Windows'') (Some [80, 443]) ''netcoreapp3.1'' ''web/web.csproj''
     = genDockerFile posix windows_1809_host expose_lines ''web/web'' ''ASP.NET Core''
         (Some ''Windows'') (Some [80, 443]) ''netcoreapp3.1.0'' ''web/web.csproj''"
    using th[THEN conjunct2, THEN conjunct2] by simp
  from 1 2 3 show ?thesis by blast
qed

section \<open>Errors of \<open>genDockerFile\<close> and \<open>scaffoldNetCore\<close>\<close>

lemma target_framework_groups:
  "\<exists>g. extractRegExGroups s target_framework_regex [[]] = [g]"
proof -
  have "target_framework_regex s = None \<or> (\<exists>g. target_framework_regex s = Some [g])"
    by (induction s rule: target_framework_regex.induct) (auto split: option.splits)
  then show ?thesis by (auto simp: extractRegExGroups_def)
qed

text \<open>
  C9. When the target is neither \<open>Windows\<close> nor \<open>Linux\<close> (\<open>None\<close> is \<open>undefined\<close>),
  \<open>genDockerFile\<close> throws the error \<open>Unexpected OS\<close> with the target in its message,
  whatever its other arguments are. \<open>scaffoldNetCore\<close> with such a target returns no
  files; when the steps before the call of \<open>genDockerFile\<close> succeed (the ports, the
  project file, reading it), the error it throws is that one.
\<close>

theorem unexpected_os_is_an_error:
  assumes "os \<noteq> Some ''Windows''" and "os \<noteq> Some ''Linux''"
  shows "genDockerFile path host expose service platform os ports version artifact
           = Inl (Error (''Unexpected OS \"'' @ (case os of None \<Rightarrow> ''undefined'' | Some s \<Rightarrow> s) @ ''\"''))
       \<and> (chosenOS ctx = Inr os \<longrightarrow> (\<forall>files. scaffoldNetCore path host w ctx \<noteq> Inr files))
       \<and> (chosenOS ctx = Inr os \<and> chosenPorts ctx = Inr ports
            \<and> findCSProjOrFSProjFile w (Some (ctx_rootFolder ctx)) = Inr projectFile
            \<and> readFile w (path_join path (ctx_rootFolder ctx) projectFile) = Inr projFileContents
          \<longrightarrow> scaffoldNetCore path host w ctx
                = Inl (Error (''Unexpected OS \"'' @ (case os of None \<Rightarrow> ''undefined'' | Some s \<Rightarrow> s) @ ''\"'')))"
proof -
  have gen: "\<And>path host expose service platform ports version artifact.
      genDockerFile path host expose service platform os ports version artifact
        = Inl (Error (''Unexpected OS \"'' @ (case os of None \<Rightarrow> ''undefined'' | Some s \<Rightarrow> s) @ ''\"''))"
    using assms by (simp add: genDockerFile_def)
  have never: "scaffoldNetCore path host w ctx \<noteq> Inr files" if "chosenOS ctx = Inr os" for files
    using that gen
    by (auto simp: scaffoldNetCore_def Let_def split: sum.splits list.splits)
  have propagated: "scaffoldNetCore path host w ctx
        = Inl (Error (''Unexpected OS \"'' @ (case os of None \<Rightarrow> ''undefined'' | Some s \<Rightarrow> s) @ ''\"''))"
    if "chosenOS ctx = Inr os" "chosenPorts ctx = Inr ports"
       "findCSProjOrFSProjFile w (Some (ctx_rootFolder ctx)) = Inr projectFile"
       "readFile w (path_join path (ctx_rootFolder ctx) projectFile) = Inr projFileContents"
  proof -
    obtain g where "extractRegExGroups projFileContents target_framework_regex [[]] = [g]"
      using target_framework_groups by blast
    with that gen show ?thesis by (simp add: scaffoldNetCore_def)
  qed
  from gen never propagated show ?thesis by blast
qed

theorem unexpected_os_is_an_error_witness:
  "genDockerFile posix linux_host expose_lines ''web/web'' ''ASP.NET Core'' None (Some [80, 443])
       ''netcoreapp2.2'' ''web/web.csproj''
     = Inl (Error ''Unexpected OS \"undefined\"'')
   \<and> scaffoldNetCore posix linux_host example_world
         (example_context\<lparr>ctx_os := None, ctx_promptForOS := Inr None\<rparr>)
     = Inl (Error ''Unexpected OS \"undefined\"'')"
  using unexpected_os_is_an_error[of None posix linux_host expose_lines "''web/web''"
      "''ASP.NET Core''" "Some [80, 443]" "''netcoreapp2.2''" "''web/web.csproj''"
      "example_context\<lparr>ctx_os := None, ctx_promptForOS := Inr None\<rparr>" example_world
      "''web/web.csproj''"
      "''<Project Sdk=\"Microsoft.NET.Sdk.Web\">\<newline>''
                  @ ''  <PropertyGroup>\<newline>''
                  @ ''    <TargetFramework>netcoreapp2.2</TargetFramework>\<newline>''
                  @ ''  </PropertyGroup>\<newline>''
                  @ ''</Project>\<newline>''"]
  by (simp add: chosenOS_def chosenPorts_def findCSProjOrFSProjFile_def example_world_def
      example_context_def posix_def join_plain_def)

section \<open>The Dockerfile of \<open>genDockerFile\<close>\<close>

lemma template_by_target:
  assumes "platform = ''ASP.NET Core'' \<or> platform = ''.NET Core Console''"
  shows "template platform os
           = Inr ((if os = Some ''Linux'' then [] else windows_header) @ aspNetCoreLinuxTemplate)"
  using assms by (auto simp: template_def console_templates windows_template_shape)

lemma windows_header_plain: "CHR ''$'' \<notin> set windows_header"
  by (simp add: windows_header_def)

text \<open>
  \<open>genDockerFile\<close> on values without \<open>$\<close>: the Dockerfile is the template of the target
  with the image names, the ports, the directory, the file names and the copy command
  in the places of the tokens, and the check for tokens left over passes.
\<close>

lemma genDockerFile_plain:
  assumes os: "os = Some ''Windows'' \<or> os = Some ''Linux''"
    and platform: "platform = ''ASP.NET Core'' \<or> platform = ''.NET Core Console''"
    and v: "netCoreAppVersion version = Inr v" and sv: "SemVer v = Inr sv"
    and plain: "CHR ''$'' \<notin> set (path_dirname path service)"
      "CHR ''$'' \<notin> set (path_basename path service)"
      "CHR ''$'' \<notin> set (path_basename path artifact)"
      "CHR ''$'' \<notin> set artifact"
      "CHR ''$'' \<notin> set (expose ports)"
  shows "genDockerFile path host expose service platform os ports version artifact =
           Inr (filled_template (if os = Some ''Linux'' then [] else windows_header)
                  (expected_base_image platform sv (expected_tag host os sv))
                  (expose ports)
                  (expected_sdk_image platform sv (expected_tag host os sv))
                  (''COPY [\"'' @ artifact @ ''\", \"'' @ path_dirname path service @ ''/\"]'')
                  (path_dirname path service)
                  (path_basename path artifact)
                  (path_basename path service))"
proof -
  let ?tag = "expected_tag host os sv"
  let ?base = "expected_base_image platform sv ?tag"
  let ?sdk = "expected_sdk_image platform sv ?tag"
  let ?header = "if os = Some ''Linux'' then [] else windows_header"
  let ?copy = "''COPY [\"'' @ artifact @ ''\", \"'' @ path_dirname path service @ ''/\"]''"
  have tag: "tagForWindowsVersion host os v = Inr ?tag"
    using lt_2_0_0[OF sv] by (simp add: tagForWindowsVersion_def expected_tag_def)
  have tp: "CHR ''$'' \<notin> set ?tag" by (rule expected_tag_plain)
  note names = formatVersion_formats[OF sv tp]
  have "\<exists>bf sf. imageFormats platform v = Inr (bf, sf)
            \<and> formatVersion bf v ?tag = Inr ?base \<and> formatVersion sf v ?tag = Inr ?sdk"
  proof (cases "2 < major sv \<or> (major sv = 2 \<and> 1 \<le> minor sv)")
    case True
    with platform gte_2_1_0[OF sv] show ?thesis
      by (auto simp: imageFormats_def names expected_base_image_def expected_sdk_image_def)
  next
    case False
    with platform gte_2_1_0[OF sv] show ?thesis
      by (auto simp: imageFormats_def names expected_base_image_def expected_sdk_image_def)
  qed
  then obtain bf sf where f: "imageFormats platform v = Inr (bf, sf)"
    and b: "formatVersion bf v ?tag = Inr ?base" and s: "formatVersion sf v ?tag = Inr ?sdk"
    by blast
  from SemVer_nonneg[OF sv] have ip: "CHR ''$'' \<notin> set ?base" "CHR ''$'' \<notin> set ?sdk"
    using expected_images_plain[OF _ _ tp] by simp_all
  have hp: "CHR ''$'' \<notin> set ?header" by (simp add: windows_header_plain)
  have cp: "CHR ''$'' \<notin> set ?copy" using plain by simp
  have t: "template platform os = Inr (?header @ aspNetCoreLinuxTemplate)"
    by (rule template_by_target[OF platform])
  have sub: "substitute (?header @ aspNetCoreLinuxTemplate) ?base (expose ports) ?sdk
               (path_dirname path service) (path_basename path artifact)
               (path_basename path service) ?copy
             = filled_template ?header ?base (expose ports) ?sdk ?copy
                 (path_dirname path service) (path_basename path artifact)
                 (path_basename path service)"
    by (rule substitute_template[OF hp ip(1) plain(5) ip(2) plain(1) plain(3) plain(2) cp])
  have fp: "CHR ''$'' \<notin> set (filled_template ?header ?base (expose ports) ?sdk ?copy
                 (path_dirname path service) (path_basename path artifact)
                 (path_basename path service))"
    using hp ip plain cp unfolding filled_template_def by simp
  from os show ?thesis
    unfolding genDockerFile_def Let_def
    by (simp only: v f tag b s t sub checkUnreplaced_plain[OF fp] sum.case prod.case)
       (auto)
qed

text \<open>
  Of the host, \<open>genDockerFile\<close> uses the tag of its Windows version only: two hosts with
  the same tag give the same result for the same arguments, and for the target \<open>Linux\<close>
  every host gives the same result.
\<close>

lemma host_only_through_tag:
  assumes "os = Some ''Linux'' \<or> GetWindowsImageTag host = GetWindowsImageTag host'"
  shows "genDockerFile path host expose service platform os ports version artifact
           = genDockerFile path host' expose service platform os ports version artifact"
proof -
  define G where "G = (\<lambda>tagFor.
     if os \<noteq> Some ''Windows'' \<and> os \<noteq> Some ''Linux''
      then Inl (Error (''Unexpected OS \"'' @ (case os of None \<Rightarrow> ''undefined'' | Some s \<Rightarrow> s) @ ''\"''))
      else
        (case netCoreAppVersion version of
             Inl e \<Rightarrow> Inl e
           | Inr v \<Rightarrow>
          (case imageFormats platform v of
             Inl e \<Rightarrow> Inl e
           | Inr (baseImageFormat, sdkImageNameFormat) \<Rightarrow>
          (case tagFor v of
             Inl e \<Rightarrow> Inl e
           | Inr tag \<Rightarrow>
          (case formatVersion baseImageFormat v tag of
             Inl e \<Rightarrow> Inl e
           | Inr baseImageName \<Rightarrow>
          (case formatVersion sdkImageNameFormat v tag of
             Inl e \<Rightarrow> Inl e
           | Inr sdkImageName \<Rightarrow>
          (case template platform os of
             Inl e \<Rightarrow> Inl e
           | Inr t \<Rightarrow>
               checkUnreplaced
                 (substitute t baseImageName (expose ports) sdkImageName
                    (path_dirname path service) (path_basename path artifact)
                    (path_basename path service)
                    (''COPY [\"'' @ artifact @ ''\", \"'' @ path_dirname path service @ ''/\"]'')))))))))"
  have gen: "genDockerFile path h expose service platform os ports version artifact
               = G (tagForWindowsVersion h os)" for h
    unfolding genDockerFile_def G_def Let_def by (rule refl)
  have "tagForWindowsVersion host os v = tagForWindowsVersion host' os v" for v
    using assms by (elim disjE) (simp_all add: tagForWindowsVersion_def split: sum.splits)
  then have "tagForWindowsVersion host os = tagForWindowsVersion host' os" by (rule ext)
  then show ?thesis by (simp only: gen)
qed

section \<open>The constants of the module are read only\<close>

lemma loaded_bindings:
  "LegacyAspNetCoreRuntimeImageFormat_binding loaded = LegacyAspNetCoreRuntimeImageFormat"
  "LegacyAspNetCoreSdkImageFormat_binding loaded = LegacyAspNetCoreSdkImageFormat"
  "LegacyDotNetCoreRuntimeImageFormat_binding loaded = LegacyDotNetCoreRuntimeImageFormat"
  "LegacyDotNetCoreSdkImageFormat_binding loaded = LegacyDotNetCoreSdkImageFormat"
  "DotNetCoreRuntimeImageFormat_binding loaded = DotNetCoreRuntimeImageFormat"
  "AspNetCoreRuntimeImageFormat_binding loaded = AspNetCoreRuntimeImageFormat"
  "DotNetCoreSdkImageFormat_binding loaded = DotNetCoreSdkImageFormat"
  "aspNetCoreWindowsTemplate_binding loaded = aspNetCoreWindowsTemplate"
  "aspNetCoreLinuxTemplate_binding loaded = aspNetCoreLinuxTemplate"
  "dotNetCoreConsoleWindowsTemplate_binding loaded = dotNetCoreConsoleWindowsTemplate"
  "dotNetCoreConsoleLinuxTemplate_binding loaded = dotNetCoreConsoleLinuxTemplate"
  by (simp_all add: loaded_def)

lemma imageFormats_in_loaded: "imageFormats_in platform v loaded = imageFormats platform v"
  by (simp add: imageFormats_in_def imageFormats_def loaded_bindings split: sum.splits)

lemma template_in_loaded: "template_in platform os loaded = template platform os"
  by (simp add: template_in_def template_def loaded_bindings)

lemma tagForWindowsVersion_in_eq:
  "tagForWindowsVersion_in host os v s = (tagForWindowsVersion host os v, s)"
  by (simp add: tagForWindowsVersion_in_def tagForWindowsVersion_def GetWindowsImageTag_in_def
      split: sum.splits)

lemma genDockerFile_in_store:
  "snd (genDockerFile_in path host expose service platform os ports version artifact s) = s"
  by (simp add: genDockerFile_in_def Let_def tagForWindowsVersion_in_eq formatVersion_in_def
      split: sum.splits prod.splits)

lemma genDockerFile_in_loaded:
  "fst (genDockerFile_in path host expose service platform os ports version artifact loaded)
     = genDockerFile path host expose service platform os ports version artifact"
  by (simp add: genDockerFile_in_def genDockerFile_def Let_def tagForWindowsVersion_in_eq
      formatVersion_in_def imageFormats_in_loaded template_in_loaded
      split: sum.splits prod.splits)

lemma genDockerFile_in_eq:
  "genDockerFile_in path host expose service platform os ports version artifact loaded
     = (genDockerFile path host expose service platform os ports version artifact, loaded)"
  using genDockerFile_in_store[of path host expose service platform os ports version artifact loaded]
    genDockerFile_in_loaded[of path host expose service platform os ports version artifact]
  by (cases "genDockerFile_in path host expose service platform os ports version artifact loaded")
     simp

lemma scaffoldNetCore_in_store: "snd (scaffoldNetCore_in path host w ctx s) = s"
proof -
  have g: "genDockerFile_in path host expose service platform os ports version artifact s = (r, s')
           \<Longrightarrow> s' = s" for expose service platform os ports version artifact r s'
    using genDockerFile_in_store[of path host expose service platform os ports version artifact s]
    by simp
  show ?thesis
    by (auto simp: scaffoldNetCore_in_def Let_def findCSProjOrFSProjFile_in_def
        initializeForDebugging_in_def dest: g split: sum.splits prod.splits list.splits)
qed

lemma scaffoldNetCore_in_loaded:
  "fst (scaffoldNetCore_in path host w ctx loaded) = scaffoldNetCore path host w ctx"
  by (simp add: scaffoldNetCore_in_def scaffoldNetCore_def Let_def findCSProjOrFSProjFile_in_def
      initializeForDebugging_in_def genDockerFile_in_eq
      split: sum.splits prod.splits list.splits)

lemma exec_store: "snd (exec path host c s) = s"
proof (cases c)
  case (Call_genDockerFile expose service platform os ports version artifact)
  then show ?thesis
    using genDockerFile_in_store[of path host expose service platform os ports version artifact s]
    by (auto split: prod.splits)
next
  case (Call_scaffoldNetCore w ctx)
  then show ?thesis
    using scaffoldNetCore_in_store[of path host w ctx s] by (auto split: prod.splits)
qed (simp_all add: GetWindowsImageTag_in_def formatVersion_in_def findCSProjOrFSProjFile_in_def
      initializeForDebugging_in_def)

lemma run_store: "run path host cs s = s"
  by (induction cs arbitrary: s) (simp_all add: exec_store)

text \<open>
  C5. No function of the module changes a binding: whatever the function, its arguments,
  the host, the services and the store it is called in, the store it leaves is that
  store, with the seven image formats and the four templates as they were. So after any
  run of calls the store is the one the module was loaded with, and a call of
  \<open>genDockerFile\<close> there gives what the function \<open>genDockerFile\<close> of its arguments and the host
  gives: two calls with the same arguments on the same host give the same result,
  whatever was called before each of them.
\<close>

theorem bindings_are_never_changed:
  "snd (exec path host c s) = s
   \<and> run path host calls s = s
   \<and> LegacyAspNetCoreRuntimeImageFormat_binding (run path host calls loaded)
       = ''microsoft/aspnetcore:{0}.{1}{2}''
   \<and> LegacyAspNetCoreSdkImageFormat_binding (run path host calls loaded)
       = ''microsoft/aspnetcore-build:{0}.{1}{2}''
   \<and> LegacyDotNetCoreRuntimeImageFormat_binding (run path host calls loaded)
       = ''microsoft/dotnet:{0}.{1}-runtime{2}''
   \<and> LegacyDotNetCoreSdkImageFormat_binding (run path host calls loaded)
       = ''microsoft/dotnet:{0}.{1}-sdk{2}''
   \<and> DotNetCoreRuntimeImageFormat_binding (run path host calls loaded)
       = ''mcr.microsoft.com/dotnet/core/runtime:{0}.{1}{2}''
   \<and> AspNetCoreRuntimeImageFormat_binding (run path host calls loaded)
       = ''mcr.microsoft.com/dotnet/core/aspnet:{0}.{1}{2}''
   \<and> DotNetCoreSdkImageFormat_binding (run path host calls loaded)
       = ''mcr.microsoft.com/dotnet/core/sdk:{0}.{1}{2}''
   \<and> aspNetCoreWindowsTemplate_binding (run path host calls loaded) = aspNetCoreWindowsTemplate
   \<and> aspNetCoreLinuxTemplate_binding (run path host calls loaded) = aspNetCoreLinuxTemplate
   \<and> dotNetCoreConsoleWindowsTemplate_binding (run path host calls loaded)
       = dotNetCoreConsoleWindowsTemplate
   \<and> dotNetCoreConsoleLinuxTemplate_binding (run path host calls loaded)
       = dotNetCoreConsoleLinuxTemplate
   \<and> exec path host
         (Call_genDockerFile expose service platform os ports version artifact)
         (run path host calls loaded)
       = (Returned_string
            (genDockerFile path host expose service platform os ports version artifact),
          loaded)
   \<and> fst (exec path host
              (Call_genDockerFile expose service platform os ports version artifact)
              (run path host calls loaded))
       = fst (exec path host
                (Call_genDockerFile expose service platform os ports version artifact)
                (run path host calls' loaded))
   \<and> exec path host (Call_scaffoldNetCore w ctx) (run path host calls loaded)
       = (Returned_files (scaffoldNetCore path host w ctx), loaded)"
proof -
  have gen: "exec path host
         (Call_genDockerFile expose service platform os ports version artifact) loaded
       = (Returned_string
            (genDockerFile path host expose service platform os ports version artifact),
          loaded)"
    by (simp add: genDockerFile_in_eq)
  have "scaffoldNetCore_in path host w ctx loaded = (scaffoldNetCore path host w ctx, loaded)"
    using scaffoldNetCore_in_store[of path host w ctx loaded]
      scaffoldNetCore_in_loaded[of path host w ctx]
    by (cases "scaffoldNetCore_in path host w ctx loaded") simp
  then have scaffold: "exec path host (Call_scaffoldNetCore w ctx) loaded
       = (Returned_files (scaffoldNetCore path host w ctx), loaded)"
    by simp
  have formats:
    "LegacyAspNetCoreRuntimeImageFormat_binding loaded = ''microsoft/aspnetcore:{0}.{1}{2}''"
    "LegacyAspNetCoreSdkImageFormat_binding loaded = ''microsoft/aspnetcore-build:{0}.{1}{2}''"
    "LegacyDotNetCoreRuntimeImageFormat_binding loaded = ''microsoft/dotnet:{0}.{1}-runtime{2}''"
    "LegacyDotNetCoreSdkImageFormat_binding loaded = ''microsoft/dotnet:{0}.{1}-sdk{2}''"
    "DotNetCoreRuntimeImageFormat_binding loaded
       = ''mcr.microsoft.com/dotnet/core/runtime:{0}.{1}{2}''"
    "AspNetCoreRuntimeImageFormat_binding loaded
       = ''mcr.microsoft.com/dotnet/core/aspnet:{0}.{1}{2}''"
    "DotNetCoreSdkImageFormat_binding loaded = ''mcr.microsoft.com/dotnet/core/sdk:{0}.{1}{2}''"
    by (simp_all add: loaded_bindings LegacyAspNetCoreRuntimeImageFormat_def
        LegacyAspNetCoreSdkImageFormat_def LegacyDotNetCoreRuntimeImageFormat_def
        LegacyDotNetCoreSdkImageFormat_def DotNetCoreRuntimeImageFormat_def
        AspNetCoreRuntimeImageFormat_def DotNetCoreSdkImageFormat_def)
  show ?thesis
    unfolding run_store
    by (intro conjI exec_store refl formats loaded_bindings gen scaffold)
qed

section \<open>The polling loop\<close>

lemma poll_body_invariant:
  assumes "poll_invariant env s" and "\<not> timedout s" and "\<not> isExtensionInstalled s"
  shows "poll_invariant env (poll_body env s)"
proof -
  from assms have n: "now s < maxTimeout + timeoutLateness env"
    and i: "1000 * iterations s \<le> now s"
    and none: "\<forall>k<iterations s. \<not> extensionInstalledAt env k"
    by (auto simp: poll_invariant_def)
  from n i have "1000 * Suc (iterations s) < maxTimeout + timeoutLateness env + 1000" by simp
  with n i none assms(2,3) show ?thesis
    by (auto simp: poll_invariant_def poll_body_def Let_def less_Suc_eq)
qed

lemma poll_loop_invariant:
  "poll_invariant env s \<Longrightarrow>
   poll_invariant env (poll_loop env s)
   \<and> (timedout (poll_loop env s) \<or> isExtensionInstalled (poll_loop env s))"
proof (induction env s rule: poll_loop.induct)
  case (1 env s)
  show ?case
  proof (cases "\<not> timedout s \<and> \<not> isExtensionInstalled s")
    case True
    with "1.prems" have "poll_invariant env (poll_body env s)" by (simp add: poll_body_invariant)
    with "1.IH" True show ?thesis by (simp add: poll_loop.simps[of env s])
  next
    case False
    with "1.prems" show ?thesis by (auto simp: poll_loop.simps[of env s])
  qed
qed

text \<open>
  C4. The loop ends, whatever the host answers and however late the timers are
  (\<open>poll_loop\<close> is a total function). Each pass comes after a delay of a second at least. The
  loop stops with the flag of the timer set or with the extension found; the flag is set
  from ten minutes (and the lateness of its timer) on, and the last delay started before
  that. So the passes are at most 600 when the timer of the flag is on time, and one more
  for each second, or part of a second, that it is late. \<open>refresh\<close> is called exactly when
  the last check found the extension; when it is not called, no check found it.
\<close>

theorem polling_is_bounded:
  "1000 * iterations (final (refreshNodeWhenAzureExtensionIsInstalled env))
        \<le> now (final (refreshNodeWhenAzureExtensionIsInstalled env))
   \<and> 1000 * iterations (final (refreshNodeWhenAzureExtensionIsInstalled env))
        < maxTimeout + timeoutLateness env + 1000
   \<and> (timeoutLateness env = 0
        \<longrightarrow> iterations (final (refreshNodeWhenAzureExtensionIsInstalled env)) \<le> 600)
   \<and> (timedout (final (refreshNodeWhenAzureExtensionIsInstalled env))
        \<or> isExtensionInstalled (final (refreshNodeWhenAzureExtensionIsInstalled env)))
   \<and> (timedout (final (refreshNodeWhenAzureExtensionIsInstalled env))
        \<longleftrightarrow> maxTimeout + timeoutLateness env
              \<le> now (final (refreshNodeWhenAzureExtensionIsInstalled env)))
   \<and> (0 < iterations (final (refreshNodeWhenAzureExtensionIsInstalled env))
        \<longrightarrow> now (final (refreshNodeWhenAzureExtensionIsInstalled env))
              < maxTimeout + timeoutLateness env + 1000
                + delayLateness env
                    (iterations (final (refreshNodeWhenAzureExtensionIsInstalled env)) - 1))
   \<and> refreshed (refreshNodeWhenAzureExtensionIsInstalled env)
        = isExtensionInstalled (final (refreshNodeWhenAzureExtensionIsInstalled env))
   \<and> (refreshed (refreshNodeWhenAzureExtensionIsInstalled env)
        \<longrightarrow> 0 < iterations (final (refreshNodeWhenAzureExtensionIsInstalled env))
          \<and> extensionInstalledAt env
                (iterations (final (refreshNodeWhenAzureExtensionIsInstalled env)) - 1))
   \<and> (\<not> refreshed (refreshNodeWhenAzureExtensionIsInstalled env)
        \<longrightarrow> (\<forall>k<iterations (final (refreshNodeWhenAzureExtensionIsInstalled env)).
               \<not> extensionInstalledAt env k))"
proof -
  let ?s0 = "\<lparr>now = 0, timedout = False, isExtensionInstalled = False, iterations = 0\<rparr>"
  have "poll_invariant env ?s0" by (simp add: poll_invariant_def maxTimeout_def)
  from poll_loop_invariant[OF this] show ?thesis
    by (auto simp: refreshNodeWhenAzureExtensionIsInstalled_def Let_def poll_invariant_def
        maxTimeout_def)
qed

lemma poll_found_at_third_check:
  "refreshNodeWhenAzureExtensionIsInstalled
     \<lparr>delayLateness = (\<lambda>k. 7), timeoutLateness = 0, extensionInstalledAt = (\<lambda>k. k = 2)\<rparr>
     = \<lparr>final = \<lparr>now = 3021, timedout = False, isExtensionInstalled = True, iterations = 3\<rparr>,
        refreshed = True\<rparr>"
  by (simp add: refreshNodeWhenAzureExtensionIsInstalled_def poll_loop.simps poll_body_def
      maxTimeout_def Let_def)

lemma poll_never_found:
  "refreshNodeWhenAzureExtensionIsInstalled
     \<lparr>delayLateness = (\<lambda>k. 0), timeoutLateness = 0, extensionInstalledAt = (\<lambda>k. False)\<rparr>
     = \<lparr>final = \<lparr>now = 600000, timedout = True, isExtensionInstalled = False, iterations = 600\<rparr>,
        refreshed = False\<rparr>"
  by (simp add: refreshNodeWhenAzureExtensionIsInstalled_def poll_loop.simps poll_body_def
      maxTimeout_def Let_def)

theorem polling_is_bounded_witness:
  "refreshed (refreshNodeWhenAzureExtensionIsInstalled
      \<lparr>delayLateness = (\<lambda>k. 7), timeoutLateness = 0, extensionInstalledAt = (\<lambda>k. k = 2)\<rparr>)
   \<and> iterations (final (refreshNodeWhenAzureExtensionIsInstalled
        \<lparr>delayLateness = (\<lambda>k. 7), timeoutLateness = 0, extensionInstalledAt = (\<lambda>k. k = 2)\<rparr>)) = 3
   \<and> \<not> refreshed (refreshNodeWhenAzureExtensionIsInstalled
        \<lparr>delayLateness = (\<lambda>k. 0), timeoutLateness = 0, extensionInstalledAt = (\<lambda>k. False)\<rparr>)
   \<and> iterations (final (refreshNodeWhenAzureExtensionIsInstalled
        \<lparr>delayLateness = (\<lambda>k. 0), timeoutLateness = 0, extensionInstalledAt = (\<lambda>k. False)\<rparr>)) = 600
   \<and> timedout (final (refreshNodeWhenAzureExtensionIsInstalled
        \<lparr>delayLateness = (\<lambda>k. 0), timeoutLateness = 0, extensionInstalledAt = (\<lambda>k. False)\<rparr>))"
  using polling_is_bounded[of
      "\<lparr>delayLateness = (\<lambda>k. 7), timeoutLateness = 0, extensionInstalledAt = (\<lambda>k. k = 2)\<rparr>"]
    polling_is_bounded[of
      "\<lparr>delayLateness = (\<lambda>k. 0), timeoutLateness = 0, extensionInstalledAt = (\<lambda>k. False)\<rparr>"]
  by (simp add: poll_found_at_third_check poll_never_found)

section \<open>The files of \<open>scaffoldNetCore\<close>\<close>

text \<open>
  C6. When \<open>scaffoldNetCore\<close> returns, it returns two files, in this order: the file
  \<open>Dockerfile\<close>, joined to the output folder or, when the context has none, to the
  directory of the project file, to be opened, with the Dockerfile of \<open>genDockerFile\<close>
  after the removal of empty lines; and the file \<open>.dockerignore\<close>, with what
  \<open>genCommonDockerIgnoreFile\<close> gives for the platform, and no \<open>open\<close> property.
\<close>

theorem scaffold_files:
  assumes "scaffoldNetCore path host w ctx = Inr files"
  shows "\<exists>projectFile os ports version dockerFile.
           findCSProjOrFSProjFile w (Some (ctx_rootFolder ctx)) = Inr projectFile
         \<and> genDockerFile path host (getExposeStatements w)
               (serviceNameAndPathRelative path ctx projectFile) (ctx_platform ctx) os ports
               version (workspaceRelativeProjectFileName path ctx projectFile) = Inr dockerFile
         \<and> files =
             [\<lparr>fileName =
                 path_join path
                   (case ctx_outputFolder ctx of
                      Some outputFolder \<Rightarrow> outputFolder
                    | None \<Rightarrow> path_dirname path projectFile)
                   ''Dockerfile'',
               contents = removeEmptyLines dockerFile,
               open' = Some True\<rparr>,
              \<lparr>fileName =
                 path_join path
                   (case ctx_outputFolder ctx of Some outputFolder \<Rightarrow> outputFolder | None \<Rightarrow> [])
                   ''.dockerignore'',
               contents = genCommonDockerIgnoreFile w (ctx_platform ctx),
               open' = None\<rparr>]"
proof -
  obtain os where 1: "chosenOS ctx = Inr os"
    using assms by (cases "chosenOS ctx") (simp_all add: scaffoldNetCore_def)
  obtain ports where 2: "chosenPorts ctx = Inr ports"
    using assms 1 by (cases "chosenPorts ctx") (simp_all add: scaffoldNetCore_def)
  obtain projectFile where 3: "findCSProjOrFSProjFile w (Some (ctx_rootFolder ctx)) = Inr projectFile"
    using assms 1 2
    by (cases "findCSProjOrFSProjFile w (Some (ctx_rootFolder ctx))")
       (simp_all add: scaffoldNetCore_def)
  obtain projFileContents
    where 4: "readFile w (path_join path (ctx_rootFolder ctx) projectFile) = Inr projFileContents"
    using assms 1 2 3
    by (cases "readFile w (path_join path (ctx_rootFolder ctx) projectFile)")
       (simp_all add: scaffoldNetCore_def)
  obtain version
    where 5: "extractRegExGroups projFileContents target_framework_regex [[]] = [version]"
    using target_framework_groups by blast
  obtain dockerFile
    where 6: "genDockerFile path host (getExposeStatements w)
               (serviceNameAndPathRelative path ctx projectFile) (ctx_platform ctx) os ports
               version (workspaceRelativeProjectFileName path ctx projectFile) = Inr dockerFile"
    using assms 1 2 3 4 5
    by (cases "genDockerFile path host (getExposeStatements w)
               (serviceNameAndPathRelative path ctx projectFile) (ctx_platform ctx) os ports
               version (workspaceRelativeProjectFileName path ctx projectFile)")
       (simp_all add: scaffoldNetCore_def)
  from assms 1 2 3 4 5 6
  have "files = scaffoldFiles path w ctx projectFile (removeEmptyLines dockerFile)"
    by (simp add: scaffoldNetCore_def Let_def split: if_splits sum.splits)
  with 3 6 show ?thesis
    unfolding scaffoldFiles_def dockerFileName_def dockerIgnoreFileName_def by blast
qed

lemma example_dockerfile:
  "genDockerFile posix linux_host expose_lines ''web/web'' ''ASP.NET Core'' (Some ''Linux'')
       (Some [80, 443]) ''netcoreapp2.2'' ''web/web.csproj''
     = Inr (filled_template [] ''mcr.microsoft.com/dotnet/core/aspnet:2.2''
              ''EXPOSE 80\<newline>EXPOSE 443'' ''mcr.microsoft.com/dotnet/core/sdk:2.2''
              ''COPY [\"web/web.csproj\", \"web/\"]'' ''web'' ''web.csproj'' ''web'')"
  using genDockerFile_plain[of "Some ''Linux''" "''ASP.NET Core''" "''netcoreapp2.2''" "''2.2.0''"
      "\<lparr>major = 2, minor = 2, patch = 0\<rparr>" posix "''web/web''" "''web/web.csproj''"
      expose_lines "Some [80, 443]" linux_host]
  by (simp add: ncav_22 sv_22 posix_def posix_dirname_def posix_basename_def expose_lines_def
      toString_small toString_large expected_tag_def expected_base_image_def
      expected_sdk_image_def image_name_def)

lemma example_scaffold:
  "scaffoldNetCore posix linux_host example_world example_context
     = Inr [\<lparr>fileName = ''web/Dockerfile'',
             contents =
               removeEmptyLines
                 (filled_template [] ''mcr.microsoft.com/dotnet/core/aspnet:2.2''
                    ''EXPOSE 80\<newline>EXPOSE 443'' ''mcr.microsoft.com/dotnet/core/sdk:2.2''
                    ''COPY [\"web/web.csproj\", \"web/\"]'' ''web'' ''web.csproj'' ''web''),
             open' = Some True\<rparr>,
            \<lparr>fileName = ''.dockerignore'', contents = ''**/bin\<newline>**/obj\<newline>'',
             open' = None\<rparr>]"
proof -
  have f: "findCSProjOrFSProjFile example_world (Some ''/ws'') = Inr ''web/web.csproj''"
    by (simp add: findCSProjOrFSProjFile_def example_world_def)
  have r: "readFile example_world (path_join posix ''/ws'' ''web/web.csproj'')
             = Inr (''<Project Sdk=\"Microsoft.NET.Sdk.Web\">\<newline>''
                  @ ''  <PropertyGroup>\<newline>''
                  @ ''    <TargetFramework>netcoreapp2.2</TargetFramework>\<newline>''
                  @ ''  </PropertyGroup>\<newline>''
                  @ ''</Project>\<newline>'')"
    by (simp add: example_world_def posix_def join_plain_def)
  have g: "extractRegExGroups (''<Project Sdk=\"Microsoft.NET.Sdk.Web\">\<newline>''
                  @ ''  <PropertyGroup>\<newline>''
                  @ ''    <TargetFramework>netcoreapp2.2</TargetFramework>\<newline>''
                  @ ''  </PropertyGroup>\<newline>''
                  @ ''</Project>\<newline>'') target_framework_regex [[]] = [''netcoreapp2.2'']"
    by (simp add: extractRegExGroups_def line_terminator_here_def)
  have s: "serviceNameAndPathRelative posix example_context ''web/web.csproj'' = ''web/web''"
    by (simp add: serviceNameAndPathRelative_def example_context_def posix_def posix_extname_def
        posix_basename_def slice_0_minus_def Let_def)
  have a: "workspaceRelativeProjectFileName posix example_context ''web/web.csproj'' = ''web/web.csproj''"
    by (simp add: workspaceRelativeProjectFileName_def example_context_def posix_def
        join_plain_def relative_plain_def)
  have c: "chosenOS example_context = Inr (Some ''Linux'')"
    "chosenPorts example_context = Inr (Some [80, 443])"
    "ctx_rootFolder example_context = ''/ws''" "ctx_platform example_context = ''ASP.NET Core''"
    "\<not> ctx_initializeForDebugging example_context"
    "getExposeStatements example_world = expose_lines"
    by (simp_all add: chosenOS_def chosenPorts_def example_context_def example_world_def)
  have files: "scaffoldFiles posix example_world example_context ''web/web.csproj'' d
      = [\<lparr>fileName = ''web/Dockerfile'', contents = d, open' = Some True\<rparr>,
         \<lparr>fileName = ''.dockerignore'', contents = ''**/bin\<newline>**/obj\<newline>'',
          open' = None\<rparr>]" for d
    by (simp add: scaffoldFiles_def dockerFileName_def dockerIgnoreFileName_def example_context_def
        example_world_def posix_def posix_dirname_def join_plain_def)
  show ?thesis
    unfolding scaffoldNetCore_def
    by (simp only: c f r g s a example_dockerfile files sum.case list.case Let_def if_False)
qed

theorem scaffold_files_witness:
  "scaffoldNetCore posix linux_host example_world example_context
     = Inr [\<lparr>fileName = ''web/Dockerfile'',
             contents =
               removeEmptyLines
                 (filled_template [] ''mcr.microsoft.com/dotnet/core/aspnet:2.2''
                    ''EXPOSE 80\<newline>EXPOSE 443'' ''mcr.microsoft.com/dotnet/core/sdk:2.2''
                    ''COPY [\"web/web.csproj\", \"web/\"]'' ''web'' ''web.csproj'' ''web''),
             open' = Some True\<rparr>,
            \<lparr>fileName = ''.dockerignore'', contents = ''**/bin\<newline>**/obj\<newline>'',
             open' = None\<rparr>]
   \<and> (\<exists>projectFile os ports version dockerFile.
           findCSProjOrFSProjFile example_world (Some (ctx_rootFolder example_context))
             = Inr projectFile
         \<and> genDockerFile posix linux_host (getExposeStatements example_world)
               (serviceNameAndPathRelative posix example_context projectFile)
               (ctx_platform example_context) os ports version
               (workspaceRelativeProjectFileName posix example_context projectFile)
             = Inr dockerFile
         \<and> removeEmptyLines dockerFile
             = removeEmptyLines
                 (filled_template [] ''mcr.microsoft.com/dotnet/core/aspnet:2.2''
                    ''EXPOSE 80\<newline>EXPOSE 443'' ''mcr.microsoft.com/dotnet/core/sdk:2.2''
                    ''COPY [\"web/web.csproj\", \"web/\"]'' ''web'' ''web.csproj'' ''web''))"
proof -
  from scaffold_files[OF example_scaffold]
  obtain projectFile os ports version dockerFile where
    1: "findCSProjOrFSProjFile example_world (Some (ctx_rootFolder example_context))
          = Inr projectFile"
    and 2: "genDockerFile posix linux_host (getExposeStatements example_world)
               (serviceNameAndPathRelative posix example_context projectFile)
               (ctx_platform example_context) os ports version
               (workspaceRelativeProjectFileName posix example_context projectFile)
             = Inr dockerFile"
    and 3: "contents \<lparr>fileName = ''web/Dockerfile'',
             contents =
               removeEmptyLines
                 (filled_template [] ''mcr.microsoft.com/dotnet/core/aspnet:2.2''
                    ''EXPOSE 80\<newline>EXPOSE 443'' ''mcr.microsoft.com/dotnet/core/sdk:2.2''
                    ''COPY [\"web/web.csproj\", \"web/\"]'' ''web'' ''web.csproj'' ''web''),
             open' = Some True\<rparr> = removeEmptyLines dockerFile"
    by fastforce
  from 3 have "removeEmptyLines dockerFile
             = removeEmptyLines
                 (filled_template [] ''mcr.microsoft.com/dotnet/core/aspnet:2.2''
                    ''EXPOSE 80\<newline>EXPOSE 443'' ''mcr.microsoft.com/dotnet/core/sdk:2.2''
                    ''COPY [\"web/web.csproj\", \"web/\"]'' ''web'' ''web.csproj'' ''web'')"
    by simp
  with 1 2 example_scaffold show ?thesis by blast
qed

section \<open>Activation\<close>

text \<open>
  C7. One call of \<open>activate\<close> registers with the host, after what the host has already:
  a hover provider and a completion provider for Dockerfiles, a hover provider and a
  completion provider for compose files (the \<open>yaml\<close> filter), the sixteen commands of
  the list, each once and under its own identifier, and the diagnostics collection
  \<open>docker-diagnostics\<close>, which is also the module's variable. The disposable of each of
  these registrations is pushed to the subscriptions of the context, after the telemetry
  reporter, in the order of the calls. (The listeners of the three workspace events are
  registered as well; the calls pass the subscriptions as the \<open>this\<close> of the listener, so
  their disposables are not among the subscriptions.)
\<close>

theorem activation_registrations:
  "hoverProviders (fst (activate v0 ctx0))
     = hoverProviders v0
       @ [(DOCKERFILE_MODE_ID, DockerHoverProvider DockerfileParser DOCKERFILE_KEY_INFO),
          (YAML_MODE_ID, DockerHoverProvider DockerComposeParser composeVersionKeys_All)]
   \<and> completionItemProviders (fst (activate v0 ctx0))
     = completionItemProviders v0
       @ [(DOCKERFILE_MODE_ID, DockerfileCompletionItemProvider, ''.''),
          (YAML_MODE_ID, DockerComposeCompletionItemProvider, ''.'')]
   \<and> language DOCKERFILE_MODE_ID = ''dockerfile'' \<and> language YAML_MODE_ID = ''yaml''
   \<and> commands (fst (activate v0 ctx0)) = commands v0 @ listed_commands
   \<and> distinct (map fst listed_commands) \<and> length listed_commands = 16
   \<and> diagnosticCollections (fst (activate v0 ctx0))
     = diagnosticCollections v0 @ [''docker-diagnostics'']
   \<and> snd (snd (activate v0 ctx0)) = DiagnosticCollection ''docker-diagnostics''
   \<and> eventListeners (fst (activate v0 ctx0))
     = eventListeners v0
       @ [(''onDidChangeTextDocument'', scheduleValidate),
          (''onDidOpenTextDocument'', scheduleValidate),
          (''onDidCloseTextDocument'', deleteDiagnostics)]
   \<and> subscriptions (fst (snd (activate v0 ctx0)))
     = subscriptions ctx0
       @ [Reporter,
          HoverProviderRegistration DOCKERFILE_MODE_ID
            (DockerHoverProvider DockerfileParser DOCKERFILE_KEY_INFO),
          CompletionItemProviderRegistration DOCKERFILE_MODE_ID DockerfileCompletionItemProvider ''.'',
          HoverProviderRegistration YAML_MODE_ID
            (DockerHoverProvider DockerComposeParser composeVersionKeys_All),
          CompletionItemProviderRegistration YAML_MODE_ID DockerComposeCompletionItemProvider ''.'']
       @ map (\<lambda>(command, handler). CommandRegistration command handler) listed_commands
       @ [DiagnosticCollection ''docker-diagnostics'']"
  by (simp add: activate_def registerHoverProvider_def registerCompletionItemProvider_def
      registerCommand_def createDiagnosticCollection_def onDid_def push_def listed_commands_def
      DOCKERFILE_MODE_ID_def YAML_MODE_ID_def Let_def)

section \<open>Names with a \<open>$\<close> in them\<close>

text \<open>
  C3. The check for a token left over looks at the whole Dockerfile, the values that
  were filled in included. For the project \<open>$app$.csproj\<close> every token of the template is
  replaced, and the assertion fails all the same: the name of the project is read as a
  token. (With no \<open>$\<close> in the values the check passes: \<open>genDockerFile_plain\<close>.)
\<close>

theorem token_like_name_fails_assertion:
  "genDockerFile posix linux_host expose_lines ''$app$'' ''ASP.NET Core'' (Some ''Linux'')
       (Some [80]) ''netcoreapp2.2'' ''$app$.csproj''
     = Inl (AssertionError ''Unreplaced template token \"$app$\"'')"
  by code_simp

text \<open>
  C8. The values are the replacement texts of \<open>replace\<close>, where \<open>$$\<close> stands for one
  \<open>$\<close>. For the project \<open>a$$b.csproj\<close> the Dockerfile is generated, and its entry point
  is \<open>a$b.dll\<close>, which is not the name of the assembly; the project file of the \<open>COPY\<close>,
  \<open>restore\<close>, \<open>build\<close> and \<open>publish\<close> lines is \<open>a$b.csproj\<close>. (With no \<open>$\<close> in the values the
  entry point is the base name of the service: \<open>genDockerFile_plain\<close>.)
\<close>

theorem dollars_in_name_change_assembly_name:
  "genDockerFile posix linux_host expose_lines ''a$$b'' ''ASP.NET Core'' (Some ''Linux'')
       (Some [80]) ''netcoreapp2.2'' ''a$$b.csproj''
     = Inr (filled_template [] ''mcr.microsoft.com/dotnet/core/aspnet:2.2'' ''EXPOSE 80''
              ''mcr.microsoft.com/dotnet/core/sdk:2.2'' ''COPY [\"a$b.csproj\", \"./\"]'' ''.''
              ''a$b.csproj'' ''a$b'')"
  by code_simp

end
